theory Spec2Isabelle
  imports Main "HOL-Library.Word" "HOL-Library.AList" "HOL-Library.List_Lexorder" "HOL-Library.Char_ord"
    "HOL-Library.Sublist"
begin

section \<open>Basic data\<close>

text \<open>Go's \<^verbatim>\<open>[]byte\<close> and \<^verbatim>\<open>string\<close> values are byte strings.\<close>

type_synonym bytes = string

text \<open>
  The error values the sources construct or compare against. \<^verbatim>\<open>metadata.Error\<close> carries a
  code and a message (\<^verbatim>\<open>NewMetadataError(code, msg)\<close>); the \<^verbatim>\<open>errors.X(...)\<close> constructors of
  the API layer carry a status code and a message; \<^verbatim>\<open>kv.ErrDuplicateKey\<close> and
  \<^verbatim>\<open>kv.ErrTransactionMaxDurationReached\<close> are the two sentinel errors of the key-value store
  the runners test with \<^verbatim>\<open>==\<close>; \<^verbatim>\<open>fmt.Errorf\<close> gives a plain error; \<^verbatim>\<open>search.Error\<close> carries an HTTP status code and
  a message; a Go panic (a nil dereference) is an error value of its own.
\<close>

datatype ErrorCode =
    ErrCodeDatabaseNotFound
  | ErrCodeDatabaseExists
  | ErrCodeDatabaseBranchExists
  | ErrCodeProjectNotFound
  | ErrCodeBranchNotFound
  | ErrCodeCannotDeleteBranch
  | ErrCodeSearchIndexNotFound

datatype Code = NOT_FOUND | ALREADY_EXISTS | INVALID_ARGUMENT | ABORTED | INTERNAL | UNKNOWN

datatype error =
    MetadataError ErrorCode string
  | TigrisError Code string
  | ErrDuplicateKey
  | ErrTransactionMaxDurationReached
  | PlainError string
  | SearchError nat string
  | GoPanic string

section \<open>Logical filters (query/filter/logical.go)\<close>

text \<open>
  The \<^verbatim>\<open>Filter\<close> interface has three implementations: \<^verbatim>\<open>Selector\<close>, \<^verbatim>\<open>AndFilter\<close> and
  \<^verbatim>\<open>OrFilter\<close>. The selector is not defined in logical.go; it is represented by what the
  logical filters ask of it: its \<^verbatim>\<open>Matches\<close> function on a document and its \<^verbatim>\<open>IsIndexed\<close>
  flag.
\<close>

datatype Filter =
    Selector "bytes \<Rightarrow> bool" bool
  | AndFilter "Filter list"
  | OrFilter "Filter list"

text \<open>
  \<^verbatim>\<open>AndFilter.Matches\<close> and \<^verbatim>\<open>OrFilter.Matches\<close> are loops over the sub-filters with an early
  return; the loops are the two list recursions.
\<close>

fun Matches :: "Filter \<Rightarrow> bytes \<Rightarrow> bool"
  and AndFilter_Matches :: "Filter list \<Rightarrow> bytes \<Rightarrow> bool"
  and OrFilter_Matches :: "Filter list \<Rightarrow> bytes \<Rightarrow> bool" where
  "Matches (Selector p ix) doc = p doc"
| "Matches (AndFilter fs) doc = AndFilter_Matches fs doc"
| "Matches (OrFilter fs) doc = OrFilter_Matches fs doc"
| "AndFilter_Matches [] doc = True"
| "AndFilter_Matches (f # fs) doc = (if \<not> Matches f doc then False else AndFilter_Matches fs doc)"
| "OrFilter_Matches [] doc = False"
| "OrFilter_Matches (f # fs) doc = (if Matches f doc then True else OrFilter_Matches fs doc)"

fun IsIndexed :: "Filter \<Rightarrow> bool"
  and all_IsIndexed :: "Filter list \<Rightarrow> bool" where
  "IsIndexed (Selector p ix) = ix"
| "IsIndexed (AndFilter fs) = all_IsIndexed fs"
| "IsIndexed (OrFilter fs) = all_IsIndexed fs"
| "all_IsIndexed [] = True"
| "all_IsIndexed (f # fs) = (if \<not> IsIndexed f then False else all_IsIndexed fs)"

fun GetFilters :: "Filter \<Rightarrow> Filter list" where
  "GetFilters (Selector p ix) = []"
| "GetFilters (AndFilter fs) = fs"
| "GetFilters (OrFilter fs) = fs"

definition AndFilter_validate :: "Filter list \<Rightarrow> error option" where
  "AndFilter_validate fs =
     (if length fs < 2 then Some (PlainError ''and filter needs minimum 2 filters'') else None)"

definition NewAndFilter :: "Filter list \<Rightarrow> error + Filter" where
  "NewAndFilter fs =
     (case AndFilter_validate fs of Some err \<Rightarrow> Inl err | None \<Rightarrow> Inr (AndFilter fs))"

definition OrFilter_validate :: "Filter list \<Rightarrow> error option" where
  "OrFilter_validate fs =
     (if length fs < 2 then Some (PlainError ''or filter needs minimum 2 filters'') else None)"

definition NewOrFilter :: "Filter list \<Rightarrow> error + Filter" where
  "NewOrFilter fs =
     (case OrFilter_validate fs of Some err \<Rightarrow> Inl err | None \<Rightarrow> Inr (OrFilter fs))"

section \<open>Metadata: names, errors, stores\<close>

type_synonym id32 = "32 word"

text \<open>
  Modelled from the spec: the \<^verbatim>\<open>DatabaseName\<close> type is not part of the sources. The spec
  gives it as a pair (base, branch) in which the branch \<^verbatim>\<open>"main"\<close> is the main branch, and
  says that a request's branch defaults to \<^verbatim>\<open>"main"\<close>. The internal name string that
  \<^verbatim>\<open>Name()\<close> renders and \<^verbatim>\<open>NewDatabaseName\<close> parses back is represented by the pair itself.
\<close>

record DatabaseName =
  dbn_db :: string
  dbn_branch :: string

definition NewDatabaseNameWithBranch :: "string \<Rightarrow> string \<Rightarrow> DatabaseName" where
  "NewDatabaseNameWithBranch d b = \<lparr>dbn_db = d, dbn_branch = (if b = [] then ''main'' else b)\<rparr>"

definition IsMainBranch :: "DatabaseName \<Rightarrow> bool" where
  "IsMainBranch n = (dbn_branch n = ''main'')"

text \<open>
  Modelled from the spec: the constructors of \<^verbatim>\<open>metadata.Error\<close> are not part of the
  sources; each pairs its error code with a message naming the entity. \<^verbatim>\<open>Error()\<close> returns
  the message.
\<close>

definition NewProjectNotFoundErr :: "string \<Rightarrow> error" where
  "NewProjectNotFoundErr n = MetadataError ErrCodeProjectNotFound (''project not found: '' @ n)"

definition NewBranchNotFoundErr :: "string \<Rightarrow> error" where
  "NewBranchNotFoundErr n = MetadataError ErrCodeBranchNotFound (''database branch not found: '' @ n)"

definition NewDatabaseBranchExistsErr :: "string \<Rightarrow> error" where
  "NewDatabaseBranchExistsErr n =
     MetadataError ErrCodeDatabaseBranchExists (''database branch already exists: '' @ n)"

definition NewSearchIndexNotFoundErr :: "string \<Rightarrow> error" where
  "NewSearchIndexNotFoundErr n = MetadataError ErrCodeSearchIndexNotFound (''search index not found: '' @ n)"

text \<open>A name between single quotes, as the messages of the sources show it.\<close>

definition quoted :: "string \<Rightarrow> string" where
  "quoted n = [CHR 0x27] @ n @ [CHR 0x27]"

text \<open>The message of \<^verbatim>\<open>DeleteBranch\<close>: \<^verbatim>\<open>'main' database cannot be deleted.\<close>\<close>

definition main_cannot_be_deleted :: string where
  "main_cannot_be_deleted = quoted ''main'' @ '' database cannot be deleted.''"

text \<open>\<^verbatim>\<open>createApiError\<close> (services/v1/database/errors.go).\<close>

definition createApiError :: "error \<Rightarrow> error" where
  "createApiError err =
     (case err of
        MetadataError code msg \<Rightarrow>
          (case code of
             ErrCodeDatabaseNotFound \<Rightarrow> TigrisError NOT_FOUND msg
           | ErrCodeBranchNotFound \<Rightarrow> TigrisError NOT_FOUND msg
           | ErrCodeDatabaseBranchExists \<Rightarrow> TigrisError ALREADY_EXISTS msg
           | ErrCodeDatabaseExists \<Rightarrow> TigrisError ALREADY_EXISTS msg
           | ErrCodeCannotDeleteBranch \<Rightarrow> TigrisError INVALID_ARGUMENT msg
           | ErrCodeProjectNotFound \<Rightarrow> TigrisError NOT_FOUND msg
           | _ \<Rightarrow> err)
      | _ \<Rightarrow> err)"

section \<open>Metadata: data model (server/metadata/tenant.go)\<close>

text \<open>
  The structs of tenant.go, with the fields the modelled functions read or write. Go maps
  that the code only looks up and assigns are partial functions; Go maps that the code also
  ranges over are association lists (\<^verbatim>\<open>map_of\<close> looks a key up, \<^verbatim>\<open>AList.update\<close> assigns it),
  whose order stands for the order in which Go happens to visit the entries.

  The types of the schema package (\<^verbatim>\<open>schema.Index\<close>, \<^verbatim>\<open>schema.Factory\<close>,
  \<^verbatim>\<open>schema.DefaultCollection\<close>, \<^verbatim>\<open>schema.SearchIndex\<close>) are not part of the sources; they are
  records of the fields tenant.go and query\_runner.go use.
\<close>

record Index =
  idx_Name :: string
  idx_Id :: id32

datatype CollectionType = DocumentsType | OtherCollectionType

record Factory =
  fac_Name :: string
  fac_Schema :: bytes
  fac_Indexes :: "Index list"
  fac_Fields :: "string list"
  fac_IndexingVersion :: string
  fac_CollectionType :: CollectionType

record SearchIndex =
  si_Name :: string
  si_StoreIndexName :: string

record ImplicitSearchIndex =
  isi_Name :: string
  isi_StoreIndexName :: string
  isi_QueryableFields :: "string list"
  isi_FieldsInSearch :: "string list"

record DefaultCollection =
  coll_Id :: id32
  coll_Name :: string
  coll_SchVer :: int
  coll_Schema :: bytes
  coll_Schemas :: "(int \<times> bytes) list"
  coll_Indexes :: "Index list"
  coll_EncodedName :: bytes
  coll_CollectionType :: CollectionType
  coll_ImplicitSearchIndex :: ImplicitSearchIndex
  coll_SearchIndexes :: "(string \<times> SearchIndex) list"

record collectionHolder =
  ch_id :: id32
  ch_name :: string
  ch_collection :: DefaultCollection
  ch_idxNameToId :: "(string \<times> id32) list"

record Database =
  db_id :: id32
  db_name :: DatabaseName
  db_collections :: "(string \<times> collectionHolder) list"
  db_idToCollectionMap :: "id32 \<rightharpoonup> string"

record Project =
  proj_id :: id32
  proj_name :: string
  proj_database :: Database
  proj_databaseBranches :: "DatabaseName \<rightharpoonup> Database"

record Tenant =
  namespace_Id :: id32
  namespace_StrId :: string
  projects :: "string \<rightharpoonup> Project"

definition NewDatabase :: "id32 \<Rightarrow> DatabaseName \<Rightarrow> Database" where
  "NewDatabase i n = \<lparr>db_id = i, db_name = n, db_collections = [], db_idToCollectionMap = Map.empty\<rparr>"

definition newCollectionHolder ::
  "id32 \<Rightarrow> string \<Rightarrow> DefaultCollection \<Rightarrow> (string \<times> id32) list \<Rightarrow> collectionHolder" where
  "newCollectionHolder i n c m = \<lparr>ch_id = i, ch_name = n, ch_collection = c, ch_idxNameToId = m\<rparr>"

definition ListCollection :: "Database \<Rightarrow> DefaultCollection list" where
  "ListCollection d = map (\<lambda>(k, c). ch_collection c) (db_collections d)"

definition baseSchemaVersion :: int where
  "baseSchemaVersion = 1"

section \<open>Metadata: the stores a transaction works on\<close>

text \<open>
  The row of a collection (\<^verbatim>\<open>internal.TableData\<close>), as the spec's data model gives it:
  creation time, optional update time, the schema version it was written under, the raw
  document.
\<close>

record TableData =
  CreatedAt :: nat
  UpdatedAt :: "nat option"
  Ver :: "32 word"
  RawData :: bytes

datatype entity_state = Active | Dropped

datatype event =
    InsertEvent bytes TableData
  | ReplaceEvent bytes TableData
  | UpdateEvent bytes TableData
  | DeleteEvent bytes

text \<open>
  Modelled from the spec: the dictionary (\<^verbatim>\<open>metaStore\<close>), the schema store, the search store,
  the project metadata of the namespace store, the key generator's counters and the
  key-value rows are not part of the sources. \<^verbatim>\<open>Stores\<close> is what one transaction sees of
  them. The dictionary keeps one counter and, per kind, the record
  (parents, name) \<open>\<mapsto>\<close> (id, state); the schema store keeps per collection the list of
  (version, schema) in ascending version order; the search store keeps per index name its
  fields; \<^verbatim>\<open>st_rows\<close> are the rows of the user tables by encoded key and \<^verbatim>\<open>st_events\<close> the
  transaction's event log, which the post-commit hook replays.
\<close>

record Stores =
  st_reserved :: id32
  st_databases :: "(id32 \<times> DatabaseName) \<rightharpoonup> (id32 \<times> entity_state)"
  st_collections :: "(id32 \<times> id32 \<times> string) \<rightharpoonup> (id32 \<times> entity_state)"
  st_indexes :: "(id32 \<times> id32 \<times> id32 \<times> string) \<rightharpoonup> (id32 \<times> entity_state)"
  st_schemas :: "(id32 \<times> id32 \<times> id32) \<Rightarrow> (int \<times> bytes) list"
  st_search :: "string \<rightharpoonup> string list"
  st_projectMetadata :: "(id32 \<times> string) \<rightharpoonup> string list"
  st_searchSchemas :: "(id32 \<times> id32 \<times> string) \<Rightarrow> (int \<times> bytes) list"
  st_counters :: "bytes set"
  st_rows :: "(bytes \<times> TableData) list"
  st_events :: "event list"

definition is_active :: "(id32 \<times> entity_state) option \<Rightarrow> bool" where
  "is_active r = (case r of None \<Rightarrow> False | Some (i, s) \<Rightarrow> s = Active)"

text \<open>
  Modelled from the spec (4.2): a create returns a new id, the counter plus one, and writes
  the name record; a name that is active gives \<^verbatim>\<open>DuplicateKey\<close>. A drop rewrites the record as
  dropped and keeps the id.
\<close>

definition dict_CreateDatabase :: "DatabaseName \<Rightarrow> id32 \<Rightarrow> Stores \<Rightarrow> error + (id32 \<times> Stores)" where
  "dict_CreateDatabase n ns st =
     (if is_active (st_databases st (ns, n)) then Inl ErrDuplicateKey
      else Inr (st_reserved st + 1,
                st\<lparr>st_reserved := st_reserved st + 1,
                   st_databases := (st_databases st)((ns, n) \<mapsto> (st_reserved st + 1, Active))\<rparr>))"

definition dict_CreateCollection :: "string \<Rightarrow> id32 \<Rightarrow> id32 \<Rightarrow> Stores \<Rightarrow> error + (id32 \<times> Stores)" where
  "dict_CreateCollection n ns db st =
     (if is_active (st_collections st (ns, db, n)) then Inl ErrDuplicateKey
      else Inr (st_reserved st + 1,
                st\<lparr>st_reserved := st_reserved st + 1,
                   st_collections := (st_collections st)((ns, db, n) \<mapsto> (st_reserved st + 1, Active))\<rparr>))"

definition dict_CreateIndex ::
  "string \<Rightarrow> id32 \<Rightarrow> id32 \<Rightarrow> id32 \<Rightarrow> Stores \<Rightarrow> error + (id32 \<times> Stores)" where
  "dict_CreateIndex n ns db c st =
     (if is_active (st_indexes st (ns, db, c, n)) then Inl ErrDuplicateKey
      else Inr (st_reserved st + 1,
                st\<lparr>st_reserved := st_reserved st + 1,
                   st_indexes := (st_indexes st)((ns, db, c, n) \<mapsto> (st_reserved st + 1, Active))\<rparr>))"

definition dict_DropDatabase :: "DatabaseName \<Rightarrow> id32 \<Rightarrow> id32 \<Rightarrow> Stores \<Rightarrow> Stores" where
  "dict_DropDatabase n ns i st = st\<lparr>st_databases := (st_databases st)((ns, n) \<mapsto> (i, Dropped))\<rparr>"

definition dict_DropCollection :: "string \<Rightarrow> id32 \<Rightarrow> id32 \<Rightarrow> id32 \<Rightarrow> Stores \<Rightarrow> Stores" where
  "dict_DropCollection n ns db i st =
     st\<lparr>st_collections := (st_collections st)((ns, db, n) \<mapsto> (i, Dropped))\<rparr>"

definition dict_DropIndex :: "string \<Rightarrow> id32 \<Rightarrow> id32 \<Rightarrow> id32 \<Rightarrow> id32 \<Rightarrow> Stores \<Rightarrow> Stores" where
  "dict_DropIndex n ns db c i st =
     st\<lparr>st_indexes := (st_indexes st)((ns, db, c, n) \<mapsto> (i, Dropped))\<rparr>"

text \<open>
  Modelled from the spec (4.3) and the store's test (server/metadata/schema\_test.go):
  \<^verbatim>\<open>Put\<close> rejects a version \<open>\<le> 0\<close>, then an empty schema, and returns \<^verbatim>\<open>DuplicateKey\<close> when the
  collection already has that version; \<^verbatim>\<open>Get\<close> returns all versions in ascending order;
  \<^verbatim>\<open>Delete\<close> removes them all. (The message of the first error ends with the version number.)
\<close>

definition schema_Put :: "id32 \<Rightarrow> id32 \<Rightarrow> id32 \<Rightarrow> bytes \<Rightarrow> int \<Rightarrow> Stores \<Rightarrow> error + Stores" where
  "schema_Put ns db c sch version st =
     (if version \<le> 0 then Inl (TigrisError INVALID_ARGUMENT ''invalid schema version'')
      else if sch = [] then Inl (TigrisError INVALID_ARGUMENT ''empty schema'')
      else if version \<in> fst ` set (st_schemas st (ns, db, c)) then Inl ErrDuplicateKey
      else Inr (st\<lparr>st_schemas := (st_schemas st)
                  ((ns, db, c) := insort_key fst (version, sch) (st_schemas st (ns, db, c)))\<rparr>))"

definition schema_Get :: "id32 \<Rightarrow> id32 \<Rightarrow> id32 \<Rightarrow> Stores \<Rightarrow> (int \<times> bytes) list" where
  "schema_Get ns db c st = st_schemas st (ns, db, c)"

definition schema_Delete :: "id32 \<Rightarrow> id32 \<Rightarrow> id32 \<Rightarrow> Stores \<Rightarrow> Stores" where
  "schema_Delete ns db c st = st\<lparr>st_schemas := (st_schemas st)((ns, db, c) := [])\<rparr>"

text \<open>
  The search store's error type (store/search, among the unnamed sources): an error is a
  duplicate when its HTTP code is 409 and a not-found when it is 404.
\<close>

definition IsErrDuplicateEntity :: "error \<Rightarrow> bool" where
  "IsErrDuplicateEntity e = (case e of SearchError http msg \<Rightarrow> http = 409 | _ \<Rightarrow> False)"

definition IsErrNotFound :: "error \<Rightarrow> bool" where
  "IsErrNotFound e = (case e of SearchError http msg \<Rightarrow> http = 404 | _ \<Rightarrow> False)"

text \<open>
  Modelled from the spec: the search store holds one index per name with its fields;
  creating an existing index is a duplicate (409), describing, updating or dropping a
  missing one is not found (404); an update adds the delta fields.
\<close>

definition search_CreateCollection :: "string \<Rightarrow> string list \<Rightarrow> Stores \<Rightarrow> error + Stores" where
  "search_CreateCollection n flds st =
     (case st_search st n of
        Some fs \<Rightarrow> Inl (SearchError 409 ''already exists'')
      | None \<Rightarrow> Inr (st\<lparr>st_search := (st_search st)(n \<mapsto> flds)\<rparr>))"

definition search_DescribeCollection :: "string \<Rightarrow> Stores \<Rightarrow> error + string list" where
  "search_DescribeCollection n st =
     (case st_search st n of None \<Rightarrow> Inl (SearchError 404 ''not found'') | Some fs \<Rightarrow> Inr fs)"

definition search_UpdateCollection :: "string \<Rightarrow> string list \<Rightarrow> Stores \<Rightarrow> error + Stores" where
  "search_UpdateCollection n delta st =
     (case st_search st n of
        None \<Rightarrow> Inl (SearchError 404 ''not found'')
      | Some fs \<Rightarrow> Inr (st\<lparr>st_search := (st_search st)(n \<mapsto> fs @ delta)\<rparr>))"

definition search_DropCollection :: "string \<Rightarrow> Stores \<Rightarrow> error + Stores" where
  "search_DropCollection n st =
     (case st_search st n of
        None \<Rightarrow> Inl (SearchError 404 ''not found'')
      | Some fs \<Rightarrow> Inr (st\<lparr>st_search := (st_search st)(n := None)\<rparr>))"

section \<open>Metadata: helpers that are not part of the sources\<close>

text \<open>
  The functions of the schema package, the encoder and the configuration that tenant.go
  calls are not part of the sources. They are pure, and are parameters of the model:
  \<^item> \<^verbatim>\<open>d_Name\<close>: \<^verbatim>\<open>DatabaseName.Name()\<close>, the rendering of a database name;
  \<^item> \<^verbatim>\<open>d_Build\<close>: \<^verbatim>\<open>schema.Build(name, schema)\<close>;
  \<^item> \<^verbatim>\<open>d_SetIndexingVersion\<close>: what \<^verbatim>\<open>schema.SetIndexingVersion\<close> makes of the factory's schema;
  \<^item> \<^verbatim>\<open>d_Unmarshal\<close>: \<^verbatim>\<open>jsoniter.Unmarshal\<close>, giving the decoded value in a canonical form;
  \<^item> \<^verbatim>\<open>d_ApplySchemaRules\<close>: \<^verbatim>\<open>schema.ApplySchemaRules\<close>, the compatibility rules;
  \<^item> \<^verbatim>\<open>d_NewDefaultCollection_err\<close>: the error \<^verbatim>\<open>schema.NewDefaultCollection\<close> can return;
  \<^item> \<^verbatim>\<open>d_EncodeTableName\<close>: \<^verbatim>\<open>Encoder.EncodeTableName\<close> on the three ids;
  \<^item> \<^verbatim>\<open>d_GetSearchDeltaFields\<close>: \<^verbatim>\<open>schema.GetSearchDeltaFields\<close>;
  \<^item> the configuration flags \<^verbatim>\<open>Search.WriteEnabled\<close> and \<^verbatim>\<open>Server.FDBHardDrop\<close>.
\<close>

record deps =
  d_Name :: "DatabaseName \<Rightarrow> string"
  d_Build :: "string \<Rightarrow> bytes \<Rightarrow> error + Factory"
  d_SetIndexingVersion :: "bytes \<Rightarrow> error + bytes"
  d_DefaultIndexingSchemaVersion :: string
  d_Unmarshal :: "bytes \<Rightarrow> error + bytes"
  d_ApplySchemaRules :: "DefaultCollection \<Rightarrow> Factory \<Rightarrow> error option"
  d_NewDefaultCollection_err :: "Factory \<Rightarrow> error option"
  d_EncodeTableName :: "id32 \<Rightarrow> id32 \<Rightarrow> id32 \<Rightarrow> error + bytes"
  d_GetSearchDeltaFields :: "string list \<Rightarrow> string list \<Rightarrow> string list \<Rightarrow> string list"
  d_Search_WriteEnabled :: bool
  d_Server_FDBHardDrop :: bool

text \<open>\<^verbatim>\<open>schema.Build(name, schema)\<close> returns a factory for the collection name it is given.\<close>

definition schema_Build :: "deps \<Rightarrow> string \<Rightarrow> bytes \<Rightarrow> error + Factory" where
  "schema_Build d n sch =
     (case d_Build d n sch of Inl e \<Rightarrow> Inl e | Inr f \<Rightarrow> Inr (f\<lparr>fac_Name := n\<rparr>))"

text \<open>\<^verbatim>\<open>schema.SetIndexingVersion(factory)\<close> rewrites the factory's schema in place.\<close>

definition SetIndexingVersion :: "deps \<Rightarrow> Factory \<Rightarrow> error + Factory" where
  "SetIndexingVersion d f =
     (case d_SetIndexingVersion d (fac_Schema f) of
        Inl e \<Rightarrow> Inl e
      | Inr sch \<Rightarrow> Inr (f\<lparr>fac_Schema := sch\<rparr>))"

definition NewImplicitSearchIndex ::
  "string \<Rightarrow> string \<Rightarrow> string list \<Rightarrow> string list \<Rightarrow> ImplicitSearchIndex" where
  "NewImplicitSearchIndex n storeName flds inSearch =
     \<lparr>isi_Name = n, isi_StoreIndexName = storeName, isi_QueryableFields = flds,
      isi_FieldsInSearch = inSearch\<rparr>"

text \<open>
  Modelled from the spec: \<^verbatim>\<open>schema.NewDefaultCollection(id, version, factory, schemas,
  implicitSearchIndex)\<close> builds the collection of the data model from its arguments, or
  returns an error.
\<close>

definition NewDefaultCollection ::
  "deps \<Rightarrow> id32 \<Rightarrow> int \<Rightarrow> Factory \<Rightarrow> (int \<times> bytes) list \<Rightarrow> ImplicitSearchIndex
     \<Rightarrow> error + DefaultCollection" where
  "NewDefaultCollection d i version f schemas isi =
     (case d_NewDefaultCollection_err d f of
        Some e \<Rightarrow> Inl e
      | None \<Rightarrow>
          Inr \<lparr>coll_Id = i, coll_Name = fac_Name f, coll_SchVer = version,
               coll_Schema = fac_Schema f, coll_Schemas = schemas, coll_Indexes = fac_Indexes f,
               coll_EncodedName = [], coll_CollectionType = fac_CollectionType f,
               coll_ImplicitSearchIndex = isi, coll_SearchIndexes = []\<rparr>)"

text \<open>
  Modelled from the spec: \<^verbatim>\<open>DefaultCollection.GetVersion\<close> is not part of the sources. The
  data model gives the version of a collection, and the version a row records, as a 32-bit
  signed integer; the collection keeps \<^verbatim>\<open>SchVer\<close> as a Go \<^verbatim>\<open>int\<close>.
\<close>

definition GetVersion :: "DefaultCollection \<Rightarrow> 32 word" where
  "GetVersion c = word_of_int (coll_SchVer c)"

section \<open>Metadata: creating and updating a collection (server/metadata/tenant.go)\<close>

text \<open>\<^verbatim>\<open>isSchemaEq\<close>: both schemas are decoded and the decoded values compared.\<close>

definition isSchemaEq :: "deps \<Rightarrow> bytes \<Rightarrow> bytes \<Rightarrow> bool \<times> error option" where
  "isSchemaEq d s1 s2 =
     (case d_Unmarshal d s1 of
        Inl e \<Rightarrow> (False, Some e)
      | Inr j \<Rightarrow>
          (case d_Unmarshal d s2 of
             Inl e \<Rightarrow> (False, Some e)
           | Inr j2 \<Rightarrow> (j2 = j, None)))"

definition getSearchCollName :: "deps \<Rightarrow> Tenant \<Rightarrow> DatabaseName \<Rightarrow> string \<Rightarrow> string" where
  "getSearchCollName d t dbName collName =
     namespace_StrId t @ ''-'' @ d_Name d dbName @ ''-'' @ collName"

text \<open>
  The loop of \<^verbatim>\<open>updateCollection\<close> that creates the dictionary entry of each new index and
  adds it to the holder (\<^verbatim>\<open>c.addIndex\<close>); the holder is shared with the database, so the
  additions made before an error stay.
\<close>

fun addNewIndexes ::
  "id32 \<Rightarrow> id32 \<Rightarrow> Index list \<Rightarrow> collectionHolder \<Rightarrow> Stores
     \<Rightarrow> error option \<times> collectionHolder \<times> Stores" where
  "addNewIndexes ns db [] c st = (None, c, st)"
| "addNewIndexes ns db (idx # idxs) c st =
     (case dict_CreateIndex (idx_Name idx) ns db (ch_id c) st of
        Inl e \<Rightarrow> (Some e, c, st)
      | Inr (i, st1) \<Rightarrow>
          addNewIndexes ns db idxs
            (c\<lparr>ch_idxNameToId := AList.update (idx_Name idx) i (ch_idxNameToId c)\<rparr>) st1)"

definition setIndexIds :: "(string \<times> id32) list \<Rightarrow> Index list \<Rightarrow> Index list" where
  "setIndexIds m idxs =
     map (\<lambda>idx. case map_of m (idx_Name idx) of Some i \<Rightarrow> idx\<lparr>idx_Id := i\<rparr> | None \<Rightarrow> idx) idxs"

definition updateCollection ::
  "deps \<Rightarrow> Tenant \<Rightarrow> Database \<Rightarrow> collectionHolder \<Rightarrow> Factory \<Rightarrow> Stores
     \<Rightarrow> error option \<times> Database \<times> Stores" where
  "updateCollection d t database c schFactory0 st0 =
     (let ns = namespace_Id t;
          newIndexes = filter (\<lambda>idx. map_of (ch_idxNameToId c) (idx_Name idx) = None)
                         (fac_Indexes schFactory0)
      in case addNewIndexes ns (db_id database) newIndexes c st0 of
        (Some e, c1, st1) \<Rightarrow>
          (Some e, database\<lparr>db_collections := AList.update (fac_Name schFactory0) c1 (db_collections database)\<rparr>, st1)
      | (None, c1, st1) \<Rightarrow>
      (let database1 = database\<lparr>db_collections :=
                          AList.update (fac_Name schFactory0) c1 (db_collections database)\<rparr>;
           schFactory = schFactory0\<lparr>fac_Indexes :=
                          setIndexIds (ch_idxNameToId c1) (fac_Indexes schFactory0)\<rparr>;
           existingCollection = ch_collection c1
       in case d_ApplySchemaRules d existingCollection schFactory of
         Some e \<Rightarrow> (Some e, database1, st1)
       | None \<Rightarrow>
       (let schRevision = sint (GetVersion (ch_collection c1)) + 1
        in case schema_Put ns (db_id database) (ch_id c1) (fac_Schema schFactory) schRevision st1 of
          Inl e \<Rightarrow> (Some e, database1, st1)
        | Inr st2 \<Rightarrow>
        (let allSchemas = schema_Get ns (db_id database) (ch_id c1) st2
         in case (if d_Search_WriteEnabled d
                  then search_DescribeCollection
                         (isi_StoreIndexName (coll_ImplicitSearchIndex existingCollection)) st2
                  else Inr []) of
           Inl e \<Rightarrow> (Some e, database1, st2)
         | Inr existingSearchFields \<Rightarrow>
         (let updatedSearchIndex = NewImplicitSearchIndex (fac_Name schFactory)
                (isi_StoreIndexName (coll_ImplicitSearchIndex existingCollection))
                (fac_Fields schFactory) existingSearchFields
          in case NewDefaultCollection d (ch_id c1) schRevision schFactory allSchemas updatedSearchIndex of
            Inl e \<Rightarrow> (Some e, database1, st2)
          | Inr collection0 \<Rightarrow>
          (case d_EncodeTableName d ns (db_id database) (coll_Id collection0) of
             Inl e \<Rightarrow> (Some e, database1, st2)
           | Inr encName \<Rightarrow>
           (let collection = collection0\<lparr>coll_EncodedName := encName\<rparr>;
                database2 = database1\<lparr>db_collections :=
                    AList.update (fac_Name schFactory)
                      (newCollectionHolder (ch_id c1) (fac_Name schFactory) collection (ch_idxNameToId c1))
                      (db_collections database1)\<rparr>
            in if d_Search_WriteEnabled d
               then (let deltaFields = d_GetSearchDeltaFields d
                           (isi_QueryableFields (coll_ImplicitSearchIndex existingCollection))
                           (fac_Fields schFactory) existingSearchFields
                     in if length deltaFields > 0
                        then (case search_UpdateCollection
                                     (isi_StoreIndexName (coll_ImplicitSearchIndex collection))
                                     deltaFields st2 of
                                Inl e \<Rightarrow> (Some e, database2, st2)
                              | Inr st3 \<Rightarrow> (None, database2, st3))
                        else (None, database2, st2))
               else (None, database2, st2))))))))"

text \<open>
  The loop of \<^verbatim>\<open>createCollection\<close> that creates the dictionary entry of every index of the
  new collection, sets the id in the index and records it in \<^verbatim>\<open>idxNameToId\<close>.
\<close>

fun createIndexes ::
  "id32 \<Rightarrow> id32 \<Rightarrow> id32 \<Rightarrow> Index list \<Rightarrow> (string \<times> id32) list \<Rightarrow> Stores
     \<Rightarrow> (error + (Index list \<times> (string \<times> id32) list)) \<times> Stores" where
  "createIndexes ns db c [] m st = (Inr ([], m), st)"
| "createIndexes ns db c (i # idxs) m st =
     (case dict_CreateIndex (idx_Name i) ns db c st of
        Inl e \<Rightarrow> (Inl e, st)
      | Inr (n, st1) \<Rightarrow>
          (case createIndexes ns db c idxs (AList.update (idx_Name i) n m) st1 of
             (Inl e, st2) \<Rightarrow> (Inl e, st2)
           | (Inr (idxs', m'), st2) \<Rightarrow> (Inr (i\<lparr>idx_Id := n\<rparr> # idxs', m'), st2)))"

definition createCollection ::
  "deps \<Rightarrow> Tenant \<Rightarrow> Database option \<Rightarrow> Factory \<Rightarrow> Stores
     \<Rightarrow> error option \<times> Database option \<times> Stores" where
  "createCollection d t databaseP schFactory0 st0 =
     (case databaseP of
        None \<Rightarrow> (Some (TigrisError NOT_FOUND ''database missing''), None, st0)
      | Some database \<Rightarrow>
     (case map_of (db_collections database) (fac_Name schFactory0) of
        Some c \<Rightarrow>
          (case isSchemaEq d (coll_Schema (ch_collection c)) (fac_Schema schFactory0) of
             (eq, err) \<Rightarrow>
               if eq \<or> err \<noteq> None then (err, Some database, st0)
               else (case updateCollection d t database c schFactory0 st0 of
                       (e, database', st') \<Rightarrow> (e, Some database', st')))
      | None \<Rightarrow>
     (case SetIndexingVersion d schFactory0 of
        Inl e \<Rightarrow> (Some e, Some database, st0)
      | Inr schFactory1 \<Rightarrow>
     (let schFactory2 = schFactory1\<lparr>fac_IndexingVersion := d_DefaultIndexingSchemaVersion d\<rparr>;
          ns = namespace_Id t
      in case dict_CreateCollection (fac_Name schFactory2) ns (db_id database) st0 of
        Inl e \<Rightarrow> (Some e, Some database, st0)
      | Inr (collectionId, st1) \<Rightarrow>
      (case createIndexes ns (db_id database) collectionId (fac_Indexes schFactory2) [] st1 of
         (Inl e, st2) \<Rightarrow> (Some e, Some database, st2)
       | (Inr (indexes, idxNameToId), st2) \<Rightarrow>
       (let schFactory = schFactory2\<lparr>fac_Indexes := indexes\<rparr>
        in case schema_Put ns (db_id database) collectionId (fac_Schema schFactory)
                  baseSchemaVersion st2 of
          Inl e \<Rightarrow> (Some e, Some database, st2)
        | Inr st3 \<Rightarrow>
        (let implicitSearchIndex = NewImplicitSearchIndex (fac_Name schFactory)
               (getSearchCollName d t (db_name database) (fac_Name schFactory))
               (fac_Fields schFactory) []
         in case NewDefaultCollection d collectionId baseSchemaVersion schFactory []
                   implicitSearchIndex of
           Inl e \<Rightarrow> (Some e, Some database, st3)
         | Inr collection0 \<Rightarrow>
         (case d_EncodeTableName d ns (db_id database) (coll_Id collection0) of
            Inl e \<Rightarrow> (Some e, Some database, st3)
          | Inr encName \<Rightarrow>
          (let collection = collection0\<lparr>coll_EncodedName := encName\<rparr>;
               database' = database\<lparr>db_collections :=
                   AList.update (fac_Name schFactory)
                     (newCollectionHolder collectionId (fac_Name schFactory) collection idxNameToId)
                     (db_collections database)\<rparr>
           in if d_Search_WriteEnabled d
              then (case search_CreateCollection (isi_StoreIndexName implicitSearchIndex)
                           (isi_QueryableFields implicitSearchIndex) st3 of
                      Inl e \<Rightarrow>
                        if \<not> IsErrDuplicateEntity e then (Some e, Some database', st3)
                        else (None, Some database', st3)
                    | Inr st4 \<Rightarrow> (None, Some database', st4))
              else (None, Some database', st3))))))))))"

section \<open>Metadata: branches (server/metadata/tenant.go)\<close>

text \<open>
  The loop of \<^verbatim>\<open>CreateBranch\<close> over the collections of the project's main database: the
  schema factory is built from the collection's name and stored schema, and the collection
  is created in the branch.
\<close>

fun createBranchCollections ::
  "deps \<Rightarrow> Tenant \<Rightarrow> DefaultCollection list \<Rightarrow> Database option \<Rightarrow> Stores
     \<Rightarrow> error option \<times> Database option \<times> Stores" where
  "createBranchCollections d t [] branch st = (None, branch, st)"
| "createBranchCollections d t (coll # colls) branch st =
     (case schema_Build d (coll_Name coll) (coll_Schema coll) of
        Inl e \<Rightarrow> (Some e, branch, st)
      | Inr schFactory \<Rightarrow>
          (case createCollection d t branch schFactory st of
             (Some e, branch', st') \<Rightarrow> (Some e, branch', st')
           | (None, branch', st') \<Rightarrow> createBranchCollections d t colls branch' st'))"

text \<open>
  \<^verbatim>\<open>CreateBranch\<close>. The Go function returns the error only; the model also returns the
  \<^verbatim>\<open>branch\<close> value the function builds (it is a local of the function: the tenant's cache is
  rebuilt from the stores on the next reload) and the stores of the transaction.
\<close>

definition CreateBranch ::
  "deps \<Rightarrow> Tenant \<Rightarrow> string \<Rightarrow> DatabaseName \<Rightarrow> Stores
     \<Rightarrow> error option \<times> Database option \<times> Stores" where
  "CreateBranch d t projName dbName st =
     (case projects t projName of
        None \<Rightarrow> (Some (NewProjectNotFoundErr projName), None, st)
      | Some proj \<Rightarrow>
          (case proj_databaseBranches proj dbName of
             Some b \<Rightarrow> (Some (NewDatabaseBranchExistsErr (dbn_branch dbName)), None, st)
           | None \<Rightarrow>
               (case dict_CreateDatabase dbName (namespace_Id t) st of
                  Inl e \<Rightarrow> (Some e, None, st)
                | Inr (branchId, st1) \<Rightarrow>
                    createBranchCollections d t (ListCollection (proj_database proj))
                      (Some (NewDatabase branchId dbName)) st1)))"

text \<open>
  \<^verbatim>\<open>dropCollection\<close>. The drop of the key-value table (\<^verbatim>\<open>kvStore.DropTable\<close>) removes the rows
  whose key starts with the table's encoded name.
\<close>

fun dropIndexes :: "id32 \<Rightarrow> id32 \<Rightarrow> id32 \<Rightarrow> (string \<times> id32) list \<Rightarrow> Stores \<Rightarrow> Stores" where
  "dropIndexes ns db c [] st = st"
| "dropIndexes ns db c ((idxName, idxId) # m) st =
     dropIndexes ns db c m (dict_DropIndex idxName ns db c idxId st)"

definition kv_DropTable :: "bytes \<Rightarrow> Stores \<Rightarrow> Stores" where
  "kv_DropTable tableName st =
     st\<lparr>st_rows := filter (\<lambda>(k, v). \<not> prefix tableName k) (st_rows st)\<rparr>"

definition removeCounter :: "bytes \<Rightarrow> Stores \<Rightarrow> Stores" where
  "removeCounter tableName st = st\<lparr>st_counters := st_counters st - {tableName}\<rparr>"

definition dropCollection ::
  "deps \<Rightarrow> Tenant \<Rightarrow> Database option \<Rightarrow> string \<Rightarrow> Stores \<Rightarrow> error option \<times> Stores" where
  "dropCollection d t dbP collectionName st =
     (case dbP of
        None \<Rightarrow> (Some (TigrisError NOT_FOUND ''database missing''), st)
      | Some db \<Rightarrow>
     (case map_of (db_collections db) collectionName of
        None \<Rightarrow> (Some (TigrisError NOT_FOUND (''collection doesn't exists '' @ quoted collectionName)), st)
      | Some cHolder \<Rightarrow>
     (let ns = namespace_Id t;
          st1 = dict_DropCollection (ch_name cHolder) ns (db_id db) (ch_id cHolder) st;
          st2 = dropIndexes ns (db_id db) (ch_id cHolder) (ch_idxNameToId cHolder) st1;
          st3 = schema_Delete ns (db_id db) (ch_id cHolder) st2
      in case d_EncodeTableName d ns (db_id db) (coll_Id (ch_collection cHolder)) of
        Inl e \<Rightarrow> (Some e, st3)
      | Inr tableName \<Rightarrow>
     (let st4 = removeCounter tableName st3;
          st5 = (if d_Server_FDBHardDrop d then kv_DropTable tableName st4 else st4)
      in if d_Search_WriteEnabled d
         then (case search_DropCollection
                      (isi_StoreIndexName (coll_ImplicitSearchIndex (ch_collection cHolder))) st5 of
                 Inl e \<Rightarrow> if \<not> IsErrNotFound e then (Some e, st5) else (None, st5)
               | Inr st6 \<Rightarrow> (None, st6))
         else (None, st5)))))"

text \<open>
  \<^verbatim>\<open>deleteSearchIndex\<close>: the index is removed from the project's metadata (the last entry
  takes its place), its schemas are deleted and the index is dropped from the search store.
  A project without metadata makes the Go code dereference a nil pointer.
\<close>

fun indexOfName :: "string \<Rightarrow> string list \<Rightarrow> nat option" where
  "indexOfName n [] = None"
| "indexOfName n (x # xs) =
     (if x = n then Some 0 else map_option Suc (indexOfName n xs))"

definition deleteSearchIndex ::
  "Tenant \<Rightarrow> Project \<Rightarrow> SearchIndex \<Rightarrow> Stores \<Rightarrow> error option \<times> Stores" where
  "deleteSearchIndex t project index st =
     (case st_projectMetadata st (namespace_Id t, proj_name project) of
        None \<Rightarrow> (Some (GoPanic ''nil pointer dereference''), st)
      | Some searchMetadata \<Rightarrow>
          (case indexOfName (si_Name index) searchMetadata of
             None \<Rightarrow> (Some (NewSearchIndexNotFoundErr (si_Name index)), st)
           | Some foundIdx \<Rightarrow>
               (let md = butlast (searchMetadata[foundIdx := last searchMetadata]);
                    st1 = st\<lparr>st_projectMetadata :=
                             (st_projectMetadata st)((namespace_Id t, proj_name project) \<mapsto> md)\<rparr>;
                    st2 = st1\<lparr>st_searchSchemas :=
                             (st_searchSchemas st1)
                               ((namespace_Id t, proj_id project, si_Name index) := [])\<rparr>
                in case search_DropCollection (si_StoreIndexName index) st2 of
                  Inl e \<Rightarrow> if \<not> IsErrNotFound e then (Some e, st2) else (None, st2)
                | Inr st3 \<Rightarrow> (None, st3))))"

fun deleteSearchIndexes ::
  "Tenant \<Rightarrow> Project \<Rightarrow> SearchIndex list \<Rightarrow> Stores \<Rightarrow> error option \<times> Stores" where
  "deleteSearchIndexes t project [] st = (None, st)"
| "deleteSearchIndexes t project (index # rest) st =
     (case deleteSearchIndex t project index st of
        (Some e, st') \<Rightarrow> (Some e, st')
      | (None, st') \<Rightarrow> deleteSearchIndexes t project rest st')"

fun deleteBranchCollections ::
  "deps \<Rightarrow> Tenant \<Rightarrow> Project \<Rightarrow> Database \<Rightarrow> collectionHolder list \<Rightarrow> Stores
     \<Rightarrow> error option \<times> Stores" where
  "deleteBranchCollections d t project branch [] st = (None, st)"
| "deleteBranchCollections d t project branch (c # cs) st =
     (case dropCollection d t (Some branch) (coll_Name (ch_collection c)) st of
        (Some e, st') \<Rightarrow> (Some e, st')
      | (None, st') \<Rightarrow>
          (case deleteSearchIndexes t project (map snd (coll_SearchIndexes (ch_collection c))) st' of
             (Some e, st'') \<Rightarrow> (Some e, st'')
           | (None, st'') \<Rightarrow> deleteBranchCollections d t project branch cs st''))"

definition deleteBranch ::
  "deps \<Rightarrow> Tenant \<Rightarrow> Project \<Rightarrow> DatabaseName \<Rightarrow> Stores \<Rightarrow> error option \<times> Stores" where
  "deleteBranch d t project dbBranch st =
     (case proj_databaseBranches project dbBranch of
        None \<Rightarrow> (Some (NewBranchNotFoundErr (d_Name d dbBranch)), st)
      | Some branch \<Rightarrow>
          deleteBranchCollections d t project branch (map snd (db_collections branch))
            (dict_DropDatabase (db_name branch) (namespace_Id t) (db_id branch) st))"

definition DeleteBranch ::
  "deps \<Rightarrow> Tenant \<Rightarrow> string \<Rightarrow> DatabaseName \<Rightarrow> Stores \<Rightarrow> error option \<times> Stores" where
  "DeleteBranch d t projName dbBranch st =
     (if IsMainBranch dbBranch
      then (Some (MetadataError ErrCodeCannotDeleteBranch main_cannot_be_deleted), st)
      else (case projects t projName of
              None \<Rightarrow> (Some (NewProjectNotFoundErr projName), st)
            | Some proj \<Rightarrow> deleteBranch d t proj dbBranch st))"

text \<open>
  The delete-branch case of \<^verbatim>\<open>BranchQueryRunner.Run\<close> (query\_runner.go): the request's
  project and branch make the database name, and an error of the tenant goes through
  \<^verbatim>\<open>createApiError\<close>. The response is the status, \<^verbatim>\<open>deleted\<close>.
\<close>

definition BranchQueryRunner_Run_delete ::
  "deps \<Rightarrow> Tenant \<Rightarrow> string \<Rightarrow> string \<Rightarrow> Stores \<Rightarrow> (error + string) \<times> Stores" where
  "BranchQueryRunner_Run_delete d t project branch st =
     (case DeleteBranch d t project (NewDatabaseNameWithBranch project branch) st of
        (Some err, st') \<Rightarrow> (Inl (createApiError err), st')
      | (None, st') \<Rightarrow> (Inr ''deleted'', st'))"

section \<open>Metadata: what a branch holds of a collection of the main database\<close>

text \<open>
  \<^verbatim>\<open>branch_has d t branch st c\<close>: the branch database holds, under the name of the collection
  \<^verbatim>\<open>c\<close> of the main database, a collection that was built from the stored schema of \<^verbatim>\<open>c\<close>
  (the factory \<^verbatim>\<open>schema.Build\<close> makes of it, with the indexing version set), at the base
  schema version; the dictionary has the collection's name active under the branch's id,
  and the schema store has the schema as version 1 of the new collection.
\<close>

definition branch_has ::
  "deps \<Rightarrow> Tenant \<Rightarrow> Database \<Rightarrow> Stores \<Rightarrow> DefaultCollection \<Rightarrow> bool" where
  "branch_has d t branch st c =
     (\<exists>f f1 h. schema_Build d (coll_Name c) (coll_Schema c) = Inr f \<and>
        SetIndexingVersion d f = Inr f1 \<and>
        map_of (db_collections branch) (coll_Name c) = Some h \<and>
        coll_Name (ch_collection h) = coll_Name c \<and>
        coll_Schema (ch_collection h) = fac_Schema f1 \<and>
        coll_SchVer (ch_collection h) = 1 \<and>
        st_collections st (namespace_Id t, db_id branch, coll_Name c) = Some (ch_id h, Active) \<and>
        (1, fac_Schema f1) \<in> set (st_schemas st (namespace_Id t, db_id branch, ch_id h)))"

section \<open>Rows, keys and the transaction's key-value operations\<close>

text \<open>
  Modelled from the spec: the keys package is not part of the sources. A key is the
  encoded name of its table followed by the encoded index parts (the spec's key layout);
  the raw key of a row is their concatenation, and \<^verbatim>\<open>keys.FromBinary(table, raw)\<close> splits a raw
  key at the table's name. A raw key that does not start with the table's name is
  malformed.
\<close>

record Key =
  key_table :: bytes
  key_indexParts :: bytes

definition key_raw :: "Key \<Rightarrow> bytes" where
  "key_raw k = key_table k @ key_indexParts k"

definition NewKey :: "bytes \<Rightarrow> Key" where
  "NewKey tbl = \<lparr>key_table = tbl, key_indexParts = []\<rparr>"

definition FromBinary :: "bytes \<Rightarrow> bytes \<Rightarrow> error + Key" where
  "FromBinary tbl raw =
     (if prefix tbl raw then Inr \<lparr>key_table = tbl, key_indexParts = drop (length tbl) raw\<rparr>
      else Inl (TigrisError INTERNAL ''malformed key''))"

text \<open>
  \<^verbatim>\<open>Error()\<close> of an error value. The messages of the two errors of the key-value store are
  not part of the sources; that of \<^verbatim>\<open>kv.ErrDuplicateKey\<close> is the constant
  \<^verbatim>\<open>duplicate_key_message\<close>.
\<close>

definition duplicate_key_message :: string where
  "duplicate_key_message = ''duplicate key value, violates key constraint''"

definition Error_msg :: "error \<Rightarrow> string" where
  "Error_msg e =
     (case e of
        MetadataError c m \<Rightarrow> m
      | TigrisError c m \<Rightarrow> m
      | ErrDuplicateKey \<Rightarrow> duplicate_key_message
      | ErrTransactionMaxDurationReached \<Rightarrow> ''transaction is old to perform reads or be committed''
      | PlainError m \<Rightarrow> m
      | SearchError h m \<Rightarrow> m
      | GoPanic m \<Rightarrow> m)"

text \<open>
  \<^verbatim>\<open>internal.NewTableDataWithTS(createdAt, updatedAt, data)\<close> and \<^verbatim>\<open>SetVersion\<close>: the row of the
  data model.
\<close>

definition NewTableDataWithTS :: "nat \<Rightarrow> nat option \<Rightarrow> bytes \<Rightarrow> TableData" where
  "NewTableDataWithTS createdAt updatedAt raw =
     \<lparr>CreatedAt = createdAt, UpdatedAt = updatedAt, Ver = 0, RawData = raw\<rparr>"

definition SetVersion :: "32 word \<Rightarrow> TableData \<Rightarrow> TableData" where
  "SetVersion v data = data\<lparr>Ver := v\<rparr>"

text \<open>
  Modelled from the spec: the transaction (\<^verbatim>\<open>transaction.Tx\<close>) is not part of the sources.
  \<^verbatim>\<open>Insert\<close> writes a row under a key that has none and returns \<^verbatim>\<open>DuplicateKey\<close> for a key that
  has one; \<^verbatim>\<open>Replace\<close> writes the row under the key whether it has one or not (its flag
  says whether the event is an update); \<^verbatim>\<open>Delete\<close> removes the row of the key. Each adds its
  event to the log of the transaction.
\<close>

definition tx_Insert :: "Key \<Rightarrow> TableData \<Rightarrow> Stores \<Rightarrow> error + Stores" where
  "tx_Insert k data st =
     (case map_of (st_rows st) (key_raw k) of
        Some old \<Rightarrow> Inl ErrDuplicateKey
      | None \<Rightarrow>
          Inr (st\<lparr>st_rows := AList.update (key_raw k) data (st_rows st),
                  st_events := st_events st @ [InsertEvent (key_raw k) data]\<rparr>))"

definition tx_Replace :: "Key \<Rightarrow> TableData \<Rightarrow> bool \<Rightarrow> Stores \<Rightarrow> Stores" where
  "tx_Replace k data isUpdate st =
     st\<lparr>st_rows := AList.update (key_raw k) data (st_rows st),
        st_events := st_events st @
          [if isUpdate then UpdateEvent (key_raw k) data else ReplaceEvent (key_raw k) data]\<rparr>"

definition tx_Delete :: "Key \<Rightarrow> Stores \<Rightarrow> Stores" where
  "tx_Delete k st =
     st\<lparr>st_rows := AList.delete (key_raw k) (st_rows st),
        st_events := st_events st @ [DeleteEvent (key_raw k)]\<rparr>"

section \<open>Iterators and readers\<close>

text \<open>
  Modelled from the spec (4.6): the iterators are not part of the sources. An iterator is
  the list of rows its \<^verbatim>\<open>Next\<close> will return, read from the transaction when the iterator is
  made, and the error \<^verbatim>\<open>Interrupted\<close> returns once \<^verbatim>\<open>Next\<close> has returned false. The rows of
  the store are visited in the order of their encoded keys. \<^verbatim>\<open>budget\<close> is the number of rows
  the transaction can read before the store's limit on its duration is reached
  (\<^verbatim>\<open>None\<close>: the limit is not reached); an iterator that would read more stops after that
  many rows and is interrupted with \<^verbatim>\<open>TransactionMaxDurationReached\<close>.
  \<^item> \<^verbatim>\<open>KeyIterator(keys)\<close>: the rows of exactly these keys, in the order of the keys;
  \<^item> \<^verbatim>\<open>ScanIterator(from)\<close>: the rows of the table of \<^verbatim>\<open>from\<close>, from the key \<^verbatim>\<open>from\<close>
    (inclusive) to the end of the table;
  \<^item> \<^verbatim>\<open>ScanTable(table)\<close>: all rows of the table;
  \<^item> \<^verbatim>\<open>FilteredRead(inner, filter)\<close>: the rows of \<^verbatim>\<open>inner\<close> that match the filter.
\<close>

record Row =
  row_Key :: bytes
  row_Data :: TableData

record Iterator =
  it_rows :: "Row list"
  it_interrupted :: "error option"

definition within_budget :: "nat option \<Rightarrow> Row list \<Rightarrow> Iterator" where
  "within_budget budget rs =
     (case budget of
        None \<Rightarrow> \<lparr>it_rows = rs, it_interrupted = None\<rparr>
      | Some n \<Rightarrow>
          if n < length rs
          then \<lparr>it_rows = take n rs, it_interrupted = Some ErrTransactionMaxDurationReached\<rparr>
          else \<lparr>it_rows = rs, it_interrupted = None\<rparr>)"

definition table_rows :: "bytes \<Rightarrow> Stores \<Rightarrow> Row list" where
  "table_rows tbl st =
     map (\<lambda>(k, v). \<lparr>row_Key = k, row_Data = v\<rparr>)
       (filter (\<lambda>(k, v). prefix tbl k) (sort_key fst (st_rows st)))"

definition KeyIterator :: "nat option \<Rightarrow> Stores \<Rightarrow> Key list \<Rightarrow> Iterator" where
  "KeyIterator budget st ks =
     within_budget budget
       (concat (map (\<lambda>k. case map_of (st_rows st) (key_raw k) of
                            None \<Rightarrow> []
                          | Some v \<Rightarrow> [\<lparr>row_Key = key_raw k, row_Data = v\<rparr>]) ks))"

definition ScanIterator :: "nat option \<Rightarrow> Stores \<Rightarrow> Key \<Rightarrow> Iterator" where
  "ScanIterator budget st from =
     within_budget budget
       (filter (\<lambda>r. key_raw from \<le> row_Key r) (table_rows (key_table from) st))"

definition ScanTable :: "nat option \<Rightarrow> Stores \<Rightarrow> bytes \<Rightarrow> Iterator" where
  "ScanTable budget st tbl = within_budget budget (table_rows tbl st)"

text \<open>
  The filter of a request, once parsed (\<^verbatim>\<open>filter.WrappedFilter\<close>, not part of the sources):
  the filter that matches every document, or a filter. \<^verbatim>\<open>NewWrappedFilter\<close> wraps the list of
  filters the factory returns: none is the match-all filter, one is itself, several are
  their conjunction.
\<close>

datatype WrappedFilter = EmptyFilter | Wrapped Filter

definition NewWrappedFilter :: "Filter list \<Rightarrow> WrappedFilter" where
  "NewWrappedFilter fs =
     (case fs of [] \<Rightarrow> EmptyFilter | [f] \<Rightarrow> Wrapped f | f # g # hs \<Rightarrow> Wrapped (AndFilter fs))"

definition wf_None :: "WrappedFilter \<Rightarrow> bool" where
  "wf_None w = (case w of EmptyFilter \<Rightarrow> True | Wrapped f \<Rightarrow> False)"

definition wf_IsIndexed :: "WrappedFilter \<Rightarrow> bool" where
  "wf_IsIndexed w = (case w of EmptyFilter \<Rightarrow> False | Wrapped f \<Rightarrow> IsIndexed f)"

definition wf_Matches :: "WrappedFilter \<Rightarrow> bytes \<Rightarrow> bool" where
  "wf_Matches w doc = (case w of EmptyFilter \<Rightarrow> True | Wrapped f \<Rightarrow> Matches f doc)"

definition FilteredRead :: "Iterator \<Rightarrow> WrappedFilter \<Rightarrow> Iterator" where
  "FilteredRead inner w =
     inner\<lparr>it_rows := filter (\<lambda>r. wf_Matches w (RawData (row_Data r))) (it_rows inner)\<rparr>"

section \<open>Query runners: helpers that are not part of the sources\<close>

text \<open>
  The packages the runners call (\<^verbatim>\<open>util\<close>, \<^verbatim>\<open>filter\<close>, \<^verbatim>\<open>update\<close>, \<^verbatim>\<open>read\<close>, \<^verbatim>\<open>sort\<close>, the
  payload mutators, the key generator, the methods of the collection) are not part of the
  sources; their functions are parameters of the model. A decoded document (a Go map) is
  represented by its canonical serialisation.
  \<^item> \<^verbatim>\<open>q_filter_None\<close>: \<^verbatim>\<open>filter.None(reqFilter)\<close>, whether the request's filter is the
    match-all filter;
  \<^item> \<^verbatim>\<open>q_Factorize\<close>: \<^verbatim>\<open>filter.NewFactory(fields, collation).Factorize(reqFilter)\<close>;
  \<^item> \<^verbatim>\<open>q_KeyBuilder_Build\<close>: the index parts of the keys \<^verbatim>\<open>KeyBuilder.Build\<close> derives from
    the filters, or its error when the primary key is not bound;
  \<^item> \<^verbatim>\<open>q_JSONToMap\<close>, \<^verbatim>\<open>q_MapToJSON\<close>: \<^verbatim>\<open>util.JSONToMap\<close>, \<^verbatim>\<open>util.MapToJSON\<close>;
  \<^item> \<^verbatim>\<open>q_stringToInt64\<close>, \<^verbatim>\<open>q_setDefaultsInIncomingPayload\<close>: the two passes of a payload
    mutator (for an insert when the flag is true, for an update otherwise) at a timestamp,
    each giving the document and whether it changed it;
    \<^verbatim>\<open>q_setDefaultsInExistingPayload\<close>: the update mutator's pass over an existing row;
  \<^item> \<^verbatim>\<open>q_Validate\<close>: \<^verbatim>\<open>coll.Validate\<close>, the schema validation;
  \<^item> \<^verbatim>\<open>q_generate\<close>: the key generator run on a document, as the \<open>n\<close>-th key of the
    request: the index parts of the key, the document with the generated fields, whether
    the key was generated (\<^verbatim>\<open>forceInsert\<close>), and the keys for the response;
  \<^item> \<^verbatim>\<open>q_BuildFieldOperators\<close>: \<^verbatim>\<open>update.BuildFieldOperators\<close>, giving the input of the \<^verbatim>\<open>$set\<close>
    operator, if any, and the other operators;
  \<^item> \<^verbatim>\<open>q_MergeAndGet\<close>: \<^verbatim>\<open>MergeAndGet\<close>, the merged document and whether a primary-key field
    changed;
  \<^item> \<^verbatim>\<open>q_TaggedDefaultsForUpdate\<close>, \<^verbatim>\<open>q_CompatibleSchemaSince\<close>, \<^verbatim>\<open>q_UpdateRowSchema\<close>,
    \<^verbatim>\<open>q_UpdateRowSchemaRaw\<close>: the collection's methods of these names.
\<close>

record keyGenerator =
  kg_indexParts :: bytes
  kg_document :: bytes
  kg_forceInsert :: bool
  kg_keysForResp :: bytes

record FieldOperatorFactory =
  fo_Set :: "bytes option"
  fo_Others :: bytes

record qdeps =
  q_filter_None :: "bytes \<Rightarrow> bool"
  q_Factorize :: "DefaultCollection \<Rightarrow> bytes \<Rightarrow> bytes \<Rightarrow> error + Filter list"
  q_KeyBuilder_Build :: "DefaultCollection \<Rightarrow> Filter list \<Rightarrow> error + bytes list"
  q_JSONToMap :: "bytes \<Rightarrow> error + bytes"
  q_MapToJSON :: "bytes \<Rightarrow> error + bytes"
  q_stringToInt64 :: "bool \<Rightarrow> DefaultCollection \<Rightarrow> bytes \<Rightarrow> error + (bytes \<times> bool)"
  q_setDefaultsInIncomingPayload ::
    "bool \<Rightarrow> DefaultCollection \<Rightarrow> nat \<Rightarrow> bytes \<Rightarrow> error + (bytes \<times> bool)"
  q_setDefaultsInExistingPayload :: "DefaultCollection \<Rightarrow> nat \<Rightarrow> bytes \<Rightarrow> error + bytes"
  q_Validate :: "DefaultCollection \<Rightarrow> bytes \<Rightarrow> error option"
  q_generate :: "DefaultCollection \<Rightarrow> bytes \<Rightarrow> nat \<Rightarrow> error + keyGenerator"
  q_BuildFieldOperators :: "bytes \<Rightarrow> error + FieldOperatorFactory"
  q_MergeAndGet :: "FieldOperatorFactory \<Rightarrow> bytes \<Rightarrow> DefaultCollection \<Rightarrow> error + (bytes \<times> bool)"
  q_TaggedDefaultsForUpdate :: "DefaultCollection \<Rightarrow> string list"
  q_CompatibleSchemaSince :: "DefaultCollection \<Rightarrow> 32 word \<Rightarrow> bool"
  q_UpdateRowSchema :: "DefaultCollection \<Rightarrow> bytes \<Rightarrow> 32 word \<Rightarrow> bytes"
  q_UpdateRowSchemaRaw :: "DefaultCollection \<Rightarrow> bytes \<Rightarrow> 32 word \<Rightarrow> error + bytes"

section \<open>Query runners: the base runner (services/v1/database/query\_runner.go)\<close>

text \<open>
  \<^verbatim>\<open>Response\<close>, with the fields the runners set. The status strings (\<^verbatim>\<open>InsertedStatus\<close> and
  the others) are not part of the sources; they are the values the spec's scenarios show.
\<close>

record Response =
  resp_Status :: string
  resp_CreatedAt :: "nat option"
  resp_UpdatedAt :: "nat option"
  resp_ModifiedCount :: "32 word"
  resp_AllKeys :: "bytes list"

definition InsertedStatus :: string where "InsertedStatus = ''inserted''"
definition ReplacedStatus :: string where "ReplacedStatus = ''replaced''"
definition UpdatedStatus :: string where "UpdatedStatus = ''updated''"

definition emptyResponse :: Response where
  "emptyResponse = \<lparr>resp_Status = [], resp_CreatedAt = None, resp_UpdatedAt = None,
                     resp_ModifiedCount = 0, resp_AllKeys = []\<rparr>"

definition Project_GetDatabase :: "Project \<Rightarrow> DatabaseName \<Rightarrow> error + Database" where
  "Project_GetDatabase p databaseName =
     (if IsMainBranch databaseName then Inr (proj_database p)
      else (case proj_databaseBranches p databaseName of
              None \<Rightarrow> Inl (NewBranchNotFoundErr (dbn_branch databaseName))
            | Some branch \<Rightarrow> Inr branch))"

definition GetProject :: "Tenant \<Rightarrow> string \<Rightarrow> error + Project" where
  "GetProject t projName =
     (case projects t projName of None \<Rightarrow> Inl (NewProjectNotFoundErr projName) | Some p \<Rightarrow> Inr p)"

text \<open>
  \<^verbatim>\<open>getDatabase\<close>: the database a DDL operation staged in the transaction, if there is one
  (\<^verbatim>\<open>staged\<close>; a read outside a transaction has none), or the tenant's.
\<close>

definition getDatabase ::
  "Tenant \<Rightarrow> Database option \<Rightarrow> string \<Rightarrow> string \<Rightarrow> error + Database" where
  "getDatabase t staged projName branch =
     (case staged of
        Some db \<Rightarrow> Inr db
      | None \<Rightarrow>
          (case GetProject t projName of
             Inl err \<Rightarrow> Inl (createApiError err)
           | Inr project \<Rightarrow>
               (case Project_GetDatabase project (NewDatabaseNameWithBranch projName branch) of
                  Inl err \<Rightarrow> Inl (createApiError err)
                | Inr db \<Rightarrow> Inr db)))"

definition GetCollection :: "Database \<Rightarrow> string \<Rightarrow> DefaultCollection option" where
  "GetCollection db cname = map_option ch_collection (map_of (db_collections db) cname)"

definition getCollection :: "Database \<Rightarrow> string \<Rightarrow> error + DefaultCollection" where
  "getCollection db collName =
     (case GetCollection db collName of
        None \<Rightarrow> Inl (TigrisError NOT_FOUND (''collection doesn't exist '' @ quoted collName))
      | Some collection \<Rightarrow> Inr collection)"

definition getDBAndCollection ::
  "Tenant \<Rightarrow> Database option \<Rightarrow> string \<Rightarrow> string \<Rightarrow> string
     \<Rightarrow> error + (Database \<times> DefaultCollection)" where
  "getDBAndCollection t staged dbName collName branch =
     (case getDatabase t staged dbName branch of
        Inl err \<Rightarrow> Inl err
      | Inr db \<Rightarrow>
          (case getCollection db collName of
             Inl err \<Rightarrow> Inl err
           | Inr collection \<Rightarrow> Inr (db, collection)))"

definition mustBeDocumentsCollection :: "DefaultCollection \<Rightarrow> string \<Rightarrow> error option" where
  "mustBeDocumentsCollection collection method =
     (if coll_CollectionType collection \<noteq> DocumentsType
      then Some (TigrisError INVALID_ARGUMENT
                   (method @ '' is only supported on collection type of '' @ quoted ''documents''))
      else None)"

text \<open>
  \<^verbatim>\<open>mutateAndValidatePayload\<close> with the insert mutator (\<^verbatim>\<open>ins\<close> true) or the update mutator at
  the timestamp \<^verbatim>\<open>ts\<close>: the document is decoded, mutated, validated, and serialised again if
  a mutation changed it.
\<close>

definition mutateAndValidatePayload ::
  "qdeps \<Rightarrow> DefaultCollection \<Rightarrow> bool \<Rightarrow> nat \<Rightarrow> bytes \<Rightarrow> error + bytes" where
  "mutateAndValidatePayload q coll ins ts doc =
     (case q_JSONToMap q doc of
        Inl err \<Rightarrow> Inl err
      | Inr deserializedDoc \<Rightarrow>
          (case q_stringToInt64 q ins coll deserializedDoc of
             Inl err \<Rightarrow> Inl err
           | Inr (doc1, m1) \<Rightarrow>
               (case q_setDefaultsInIncomingPayload q ins coll ts doc1 of
                  Inl err \<Rightarrow> Inl err
                | Inr (doc2, m2) \<Rightarrow>
                    (case q_Validate q coll doc2 of
                       Some err \<Rightarrow> Inl err
                     | None \<Rightarrow> if m1 \<or> m2 then q_MapToJSON q doc2 else Inr doc))))"

text \<open>
  The loop of \<^verbatim>\<open>insertOrReplace\<close> over the documents; \<^verbatim>\<open>n\<close> counts the keys generated so
  far and \<^verbatim>\<open>allKeys\<close> collects the keys for the response.
\<close>

fun insertOrReplace_loop ::
  "qdeps \<Rightarrow> DefaultCollection \<Rightarrow> nat \<Rightarrow> bool \<Rightarrow> nat \<Rightarrow> bytes list \<Rightarrow> bytes list \<Rightarrow> Stores
     \<Rightarrow> (error + bytes list) \<times> Stores" where
  "insertOrReplace_loop q coll ts insrt n [] allKeys st = (Inr allKeys, st)"
| "insertOrReplace_loop q coll ts insrt n (doc # documents) allKeys st =
     (case mutateAndValidatePayload q coll True ts doc of
        Inl err \<Rightarrow> (Inl err, st)
      | Inr doc' \<Rightarrow>
          (case q_generate q coll doc' n of
             Inl err \<Rightarrow> (Inl err, st)
           | Inr keyGen \<Rightarrow>
               (let key = \<lparr>key_table = coll_EncodedName coll, key_indexParts = kg_indexParts keyGen\<rparr>;
                    tableData = SetVersion (GetVersion coll)
                                  (NewTableDataWithTS ts None (kg_document keyGen))
                in case (if insrt \<or> kg_forceInsert keyGen
                         then tx_Insert key tableData st
                         else Inr (tx_Replace key tableData False st)) of
                     Inl err \<Rightarrow> (Inl err, st)
                   | Inr st' \<Rightarrow>
                       insertOrReplace_loop q coll ts insrt (Suc n) documents
                         (allKeys @ [kg_keysForResp keyGen]) st')))"

definition insertOrReplace ::
  "qdeps \<Rightarrow> DefaultCollection \<Rightarrow> nat \<Rightarrow> bytes list \<Rightarrow> bool \<Rightarrow> Stores
     \<Rightarrow> (error + (nat \<times> bytes list)) \<times> Stores" where
  "insertOrReplace q coll ts documents insrt st =
     (case insertOrReplace_loop q coll ts insrt 0 documents [] st of
        (Inl err, st') \<Rightarrow> (Inl err, st')
      | (Inr allKeys, st') \<Rightarrow> (Inr (ts, allKeys), st'))"

section \<open>Query runners: insert and replace\<close>

record InsertRequest =
  ir_Project :: string
  ir_Branch :: string
  ir_Collection :: string
  ir_Documents :: "bytes list"

text \<open>
  \<^verbatim>\<open>InsertQueryRunner.Run\<close> in the transaction whose staged database is \<^verbatim>\<open>staged\<close> and whose
  stores are \<^verbatim>\<open>st\<close>; \<^verbatim>\<open>ts\<close> is the reading of the clock (\<^verbatim>\<open>internal.NewTimestamp()\<close>). The
  context, the metrics and the change-stream wrapper do not bear on the result.
\<close>

definition InsertQueryRunner_Run ::
  "qdeps \<Rightarrow> Tenant \<Rightarrow> Database option \<Rightarrow> nat \<Rightarrow> InsertRequest \<Rightarrow> Stores
     \<Rightarrow> (error + Response) \<times> Stores" where
  "InsertQueryRunner_Run q t staged ts req st =
     (case getDBAndCollection t staged (ir_Project req) (ir_Collection req) (ir_Branch req) of
        Inl err \<Rightarrow> (Inl err, st)
      | Inr (db, coll) \<Rightarrow>
          (case mustBeDocumentsCollection coll ''insert'' of
             Some err \<Rightarrow> (Inl err, st)
           | None \<Rightarrow>
               (case insertOrReplace q coll ts (ir_Documents req) True st of
                  (Inl err, st') \<Rightarrow>
                    if err = ErrDuplicateKey
                    then (Inl (TigrisError ALREADY_EXISTS (Error_msg err)), st')
                    else (Inl err, st')
                | (Inr (ts', allKeys), st') \<Rightarrow>
                    (Inr (emptyResponse\<lparr>resp_CreatedAt := Some ts', resp_AllKeys := allKeys,
                                         resp_Status := InsertedStatus\<rparr>), st'))))"

definition ReplaceQueryRunner_Run ::
  "qdeps \<Rightarrow> Tenant \<Rightarrow> Database option \<Rightarrow> nat \<Rightarrow> InsertRequest \<Rightarrow> Stores
     \<Rightarrow> (error + Response) \<times> Stores" where
  "ReplaceQueryRunner_Run q t staged ts req st =
     (case getDBAndCollection t staged (ir_Project req) (ir_Collection req) (ir_Branch req) of
        Inl err \<Rightarrow> (Inl err, st)
      | Inr (db, coll) \<Rightarrow>
          (case mustBeDocumentsCollection coll ''replace'' of
             Some err \<Rightarrow> (Inl err, st)
           | None \<Rightarrow>
               (case insertOrReplace q coll ts (ir_Documents req) False st of
                  (Inl err, st') \<Rightarrow> (Inl err, st')
                | (Inr (ts', allKeys), st') \<Rightarrow>
                    (Inr (emptyResponse\<lparr>resp_CreatedAt := Some ts', resp_AllKeys := allKeys,
                                         resp_Status := ReplacedStatus\<rparr>), st'))))"

section \<open>Query runners: update\<close>

record UpdateRequestOptions =
  uo_Collation :: bytes
  uo_Limit :: "64 word"

record UpdateRequest =
  ur_Project :: string
  ur_Branch :: string
  ur_Collection :: string
  ur_Fields :: bytes
  ur_Filter :: bytes
  ur_Options :: "UpdateRequestOptions option"

text \<open>
  \<^verbatim>\<open>updateDefaultsAndSchema\<close>: a row written under an older schema is brought to the latest
  one, and the fields tagged for update get their defaults.
\<close>

definition updateDefaultsAndSchema ::
  "qdeps \<Rightarrow> DefaultCollection \<Rightarrow> bytes \<Rightarrow> 32 word \<Rightarrow> nat \<Rightarrow> error + bytes" where
  "updateDefaultsAndSchema q collection doc version ts =
     (if length (q_TaggedDefaultsForUpdate q collection) = 0 \<and>
         q_CompatibleSchemaSince q collection version
      then Inr doc
      else (case q_JSONToMap q doc of
              Inl err \<Rightarrow> Inl err
            | Inr decDoc0 \<Rightarrow>
                (let decDoc1 = (if \<not> q_CompatibleSchemaSince q collection version
                                then q_UpdateRowSchema q collection decDoc0 version else decDoc0)
                 in case (if length (q_TaggedDefaultsForUpdate q collection) > 0
                          then q_setDefaultsInExistingPayload q collection ts decDoc1
                          else Inr decDoc1) of
                      Inl err \<Rightarrow> Inl err
                    | Inr decDoc \<Rightarrow> q_MapToJSON q decDoc)))"

definition buildKeysUsingFilter ::
  "qdeps \<Rightarrow> DefaultCollection \<Rightarrow> bytes \<Rightarrow> bytes \<Rightarrow> error + Key list" where
  "buildKeysUsingFilter q coll reqFilter collation =
     (case q_Factorize q coll collation reqFilter of
        Inl err \<Rightarrow> Inl err
      | Inr filters \<Rightarrow>
          (case q_KeyBuilder_Build q coll filters of
             Inl err \<Rightarrow> Inl err
           | Inr parts \<Rightarrow>
               Inr (map (\<lambda>p. \<lparr>key_table = coll_EncodedName coll, key_indexParts = p\<rparr>) parts)))"

definition getWriteIterator ::
  "qdeps \<Rightarrow> nat option \<Rightarrow> Stores \<Rightarrow> DefaultCollection \<Rightarrow> bytes \<Rightarrow> bytes \<Rightarrow> error + Iterator" where
  "getWriteIterator q budget st collection reqFilter collation =
     (case buildKeysUsingFilter q collection reqFilter collation of
        Inr iKeys \<Rightarrow> Inr (KeyIterator budget st iKeys)
      | Inl err0 \<Rightarrow>
          (case q_Factorize q collection collation reqFilter of
             Inl err \<Rightarrow> Inl err
           | Inr filters \<Rightarrow>
               Inr (FilteredRead (ScanTable budget st (coll_EncodedName collection))
                      (NewWrappedFilter filters))))"

text \<open>
  The body of the loop of \<^verbatim>\<open>UpdateQueryRunner.Run\<close> for one row of the iterator: the row is
  merged with the update and written back; \<^verbatim>\<open>n\<close> is the number of rows handled before it.
\<close>

definition UpdateQueryRunner_Run_row ::
  "qdeps \<Rightarrow> DefaultCollection \<Rightarrow> nat \<Rightarrow> FieldOperatorFactory \<Rightarrow> nat \<Rightarrow> Row \<Rightarrow> Stores
     \<Rightarrow> error option \<times> Stores" where
  "UpdateQueryRunner_Run_row q coll ts factory n row st =
     (case FromBinary (coll_EncodedName coll) (row_Key row) of
        Inl err \<Rightarrow> (Some err, st)
      | Inr key \<Rightarrow>
          (case updateDefaultsAndSchema q coll (RawData (row_Data row)) (Ver (row_Data row)) ts of
             Inl err \<Rightarrow> (Some err, st)
           | Inr merged0 \<Rightarrow>
               (case q_MergeAndGet q factory merged0 coll of
                  Inl err \<Rightarrow> (Some err, st)
                | Inr (merged, primaryKeyMutation) \<Rightarrow>
                    (let newData = SetVersion (GetVersion coll)
                                     (NewTableDataWithTS (CreatedAt (row_Data row)) (Some ts) merged)
                     in if primaryKeyMutation
                        then (case q_generate q coll (RawData newData) n of
                                Inl err \<Rightarrow> (Some err, st)
                              | Inr keyGen \<Rightarrow>
                                  (let newKey = \<lparr>key_table = coll_EncodedName coll,
                                                 key_indexParts = kg_indexParts keyGen\<rparr>
                                   in (None, tx_Replace newKey newData False (tx_Delete key st))))
                        else (None, tx_Replace key newData True st)))))"

fun UpdateQueryRunner_Run_loop ::
  "qdeps \<Rightarrow> DefaultCollection \<Rightarrow> nat \<Rightarrow> FieldOperatorFactory \<Rightarrow> 32 word \<Rightarrow> nat \<Rightarrow> Row list
     \<Rightarrow> 32 word \<Rightarrow> Stores \<Rightarrow> error option \<times> 32 word \<times> Stores" where
  "UpdateQueryRunner_Run_loop q coll ts factory limit n [] modifiedCount st =
     (None, modifiedCount, st)"
| "UpdateQueryRunner_Run_loop q coll ts factory limit n (row # rows) modifiedCount st =
     (if limit = 0 \<or> sint modifiedCount < sint limit
      then (case UpdateQueryRunner_Run_row q coll ts factory n row st of
              (Some err, st') \<Rightarrow> (Some err, modifiedCount, st')
            | (None, st') \<Rightarrow>
                UpdateQueryRunner_Run_loop q coll ts factory limit (Suc n) rows
                  (modifiedCount + 1) st')
      else (None, modifiedCount, st))"

text \<open>
  \<^verbatim>\<open>UpdateQueryRunner.Run\<close> in the transaction with the staged database \<^verbatim>\<open>staged\<close>, the read
  budget \<^verbatim>\<open>budget\<close> and the stores \<^verbatim>\<open>st\<close>, at the clock reading \<^verbatim>\<open>ts\<close>.
\<close>

definition UpdateQueryRunner_Run ::
  "qdeps \<Rightarrow> Tenant \<Rightarrow> Database option \<Rightarrow> nat option \<Rightarrow> nat \<Rightarrow> UpdateRequest \<Rightarrow> Stores
     \<Rightarrow> (error + Response) \<times> Stores" where
  "UpdateQueryRunner_Run q t staged budget ts req st =
     (case getDBAndCollection t staged (ur_Project req) (ur_Collection req) (ur_Branch req) of
        Inl err \<Rightarrow> (Inl err, st)
      | Inr (db, coll) \<Rightarrow>
     (if q_filter_None q (ur_Filter req)
      then (Inl (TigrisError INVALID_ARGUMENT ''updating all documents is not allowed''), st)
      else
     (case mustBeDocumentsCollection coll ''update'' of
        Some err \<Rightarrow> (Inl err, st)
      | None \<Rightarrow>
     (case q_BuildFieldOperators q (ur_Fields req) of
        Inl err \<Rightarrow> (Inl err, st)
      | Inr factory0 \<Rightarrow>
     (case (case fo_Set factory0 of
              None \<Rightarrow> Inr factory0
            | Some input \<Rightarrow>
                (case mutateAndValidatePayload q coll False ts input of
                   Inl err \<Rightarrow> Inl err
                 | Inr input' \<Rightarrow> Inr (factory0\<lparr>fo_Set := Some input'\<rparr>))) of
        Inl err \<Rightarrow> (Inl err, st)
      | Inr factory \<Rightarrow>
     (let collation = (case ur_Options req of None \<Rightarrow> [] | Some opts \<Rightarrow> uo_Collation opts);
          limit = (case ur_Options req of None \<Rightarrow> 0 | Some opts \<Rightarrow> ucast (uo_Limit opts))
      in case getWriteIterator q budget st coll (ur_Filter req) collation of
        Inl err \<Rightarrow> (Inl err, st)
      | Inr iterator \<Rightarrow>
          (case UpdateQueryRunner_Run_loop q coll ts factory limit 0 (it_rows iterator) 0 st of
             (Some err, modifiedCount, st') \<Rightarrow> (Inl err, st')
           | (None, modifiedCount, st') \<Rightarrow>
               (Inr (emptyResponse\<lparr>resp_Status := UpdatedStatus, resp_UpdatedAt := Some ts,
                                    resp_ModifiedCount := modifiedCount\<rparr>), st'))))))))"

section \<open>Query runners: notions used to state their properties\<close>

text \<open>
  The primary key of a document of an insert request: the key the runner makes for it as
  the \<open>n\<close>-th key of the request, when the document passes mutation and validation and
  the key generator accepts it.
\<close>

definition doc_key :: "qdeps \<Rightarrow> DefaultCollection \<Rightarrow> nat \<Rightarrow> nat \<Rightarrow> bytes \<Rightarrow> Key option" where
  "doc_key q coll ts n doc =
     (case mutateAndValidatePayload q coll True ts doc of
        Inl err \<Rightarrow> None
      | Inr doc' \<Rightarrow>
          (case q_generate q coll doc' n of
             Inl err \<Rightarrow> None
           | Inr keyGen \<Rightarrow>
               Some \<lparr>key_table = coll_EncodedName coll, key_indexParts = kg_indexParts keyGen\<rparr>))"

fun is_InsertEvent :: "event \<Rightarrow> bool" where
  "is_InsertEvent (InsertEvent k d) = True"
| "is_InsertEvent (ReplaceEvent k d) = False"
| "is_InsertEvent (UpdateEvent k d) = False"
| "is_InsertEvent (DeleteEvent k) = False"

text \<open>
  What the log of a transaction says about its rows. Every write of the transaction logs
  its event, so the rows after the transaction are the rows before it with the events of
  the log applied in order; \<^verbatim>\<open>written\<close> lists the rows the events wrote, with their keys.
\<close>

fun apply_event :: "(bytes \<times> TableData) list \<Rightarrow> event \<Rightarrow> (bytes \<times> TableData) list" where
  "apply_event rs (InsertEvent k d) = AList.update k d rs"
| "apply_event rs (ReplaceEvent k d) = AList.update k d rs"
| "apply_event rs (UpdateEvent k d) = AList.update k d rs"
| "apply_event rs (DeleteEvent k) = AList.delete k rs"

fun written :: "event list \<Rightarrow> (bytes \<times> TableData) list" where
  "written [] = []"
| "written (InsertEvent k d # evs) = (k, d) # written evs"
| "written (ReplaceEvent k d # evs) = (k, d) # written evs"
| "written (UpdateEvent k d # evs) = (k, d) # written evs"
| "written (DeleteEvent k # evs) = written evs"

text \<open>
  The limit and the collation \<^verbatim>\<open>UpdateQueryRunner.Run\<close> takes from the options of the request
  (\<^verbatim>\<open>limit = int32(runner.req.Options.Limit)\<close>), and the rows of the iterator its loop handles
  when no row fails: all of them when the limit is 0, the first \<^verbatim>\<open>limit\<close> otherwise (none
  when the limit is negative).
\<close>

definition update_limit :: "UpdateRequest \<Rightarrow> 32 word" where
  "update_limit req = (case ur_Options req of None \<Rightarrow> 0 | Some opts \<Rightarrow> ucast (uo_Limit opts))"

definition update_collation :: "UpdateRequest \<Rightarrow> bytes" where
  "update_collation req = (case ur_Options req of None \<Rightarrow> [] | Some opts \<Rightarrow> uo_Collation opts)"

definition rows_within :: "32 word \<Rightarrow> Row list \<Rightarrow> Row list" where
  "rows_within limit rows = (if limit = 0 then rows else take (nat (sint limit)) rows)"

text \<open>
  The row the loop of \<^verbatim>\<open>UpdateQueryRunner.Run\<close> writes for a row it read, given the merged
  document (\<^verbatim>\<open>newData\<close>), and the events the body of the loop logs for the row: \<^verbatim>\<open>n\<close> is the
  number of rows handled before it.
\<close>

definition newData_of :: "DefaultCollection \<Rightarrow> nat \<Rightarrow> Row \<Rightarrow> bytes \<Rightarrow> TableData" where
  "newData_of coll ts row merged =
     SetVersion (GetVersion coll) (NewTableDataWithTS (CreatedAt (row_Data row)) (Some ts) merged)"

definition row_step ::
  "qdeps \<Rightarrow> DefaultCollection \<Rightarrow> nat \<Rightarrow> FieldOperatorFactory \<Rightarrow> nat \<Rightarrow> Row \<Rightarrow> event list \<Rightarrow> bool" where
  "row_step q coll ts factory n row evs =
     (\<exists>merged0 merged pkm.
        updateDefaultsAndSchema q coll (RawData (row_Data row)) (Ver (row_Data row)) ts = Inr merged0 \<and>
        q_MergeAndGet q factory merged0 coll = Inr (merged, pkm) \<and>
        (if pkm
         then (\<exists>keyGen. q_generate q coll merged n = Inr keyGen \<and>
                 evs = [DeleteEvent (row_Key row),
                        ReplaceEvent (coll_EncodedName coll @ kg_indexParts keyGen)
                          (newData_of coll ts row merged)])
         else evs = [UpdateEvent (row_Key row) (newData_of coll ts row merged)]))"

section \<open>Query runners: streaming read\<close>

text \<open>
  More helpers that are not part of the sources, parameters of the model:
  \<^item> \<^verbatim>\<open>r_UnmarshalSort\<close>: \<^verbatim>\<open>sort.UnmarshalSort\<close>, the ordering of the request, if it has one;
  \<^item> \<^verbatim>\<open>r_GetQueryableField\<close>: \<^verbatim>\<open>coll.GetQueryableField\<close>;
  \<^item> \<^verbatim>\<open>r_BuildFields\<close>, \<^verbatim>\<open>r_Apply\<close>: \<^verbatim>\<open>read.BuildFields\<close> and the projection \<^verbatim>\<open>FieldFactory.Apply\<close>;
  \<^item> \<^verbatim>\<open>r_Search_IsReadEnabled\<close>: the configuration's \<^verbatim>\<open>Search.IsReadEnabled()\<close>;
  \<^item> \<^verbatim>\<open>r_Send\<close>: the error of \<^verbatim>\<open>streaming.Send\<close> for a response, given the responses sent
    before it;
  \<^item> \<^verbatim>\<open>r_SearchIterator\<close>: the iterator of the search reader over the search store.
\<close>

record SortField =
  sf_Name :: string
  sf_Ascending :: bool
  sf_MissingValuesFirst :: bool

record QueryableField =
  qf_Name :: string
  qf_InMemoryName :: string
  qf_Sortable :: bool

record ReadRequestOptions =
  rro_Limit :: int
  rro_Offset :: bytes
  rro_Collation :: bytes

record ReadRequest =
  rr_Project :: string
  rr_Branch :: string
  rr_Collection :: string
  rr_Filter :: bytes
  rr_Fields :: bytes
  rr_Sort :: bytes
  rr_Options :: "ReadRequestOptions option"

record ReadResponse =
  rsp_Data :: bytes
  rsp_CreatedAt :: nat
  rsp_UpdatedAt :: "nat option"
  rsp_ResumeToken :: bytes

record rdeps =
  r_UnmarshalSort :: "bytes \<Rightarrow> error + SortField list option"
  r_GetQueryableField :: "DefaultCollection \<Rightarrow> string \<Rightarrow> error + QueryableField"
  r_BuildFields :: "bytes \<Rightarrow> error + bytes"
  r_Apply :: "bytes \<Rightarrow> bytes \<Rightarrow> error + bytes"
  r_Search_IsReadEnabled :: bool
  r_Send :: "ReadResponse list \<Rightarrow> ReadResponse \<Rightarrow> error option"
  r_SearchIterator ::
    "DefaultCollection \<Rightarrow> WrappedFilter \<Rightarrow> SortField list option \<Rightarrow> Stores \<Rightarrow> Iterator"

record readerOptions =
  ro_from :: "Key option"
  ro_ikeys :: "Key list"
  ro_table :: bytes
  ro_noFilter :: bool
  ro_inMemoryStore :: bool
  ro_sorting :: "SortField list option"
  ro_filter :: WrappedFilter
  ro_fieldFactory :: bytes

text \<open>The loop of \<^verbatim>\<open>getSortOrdering\<close> over the fields of the ordering.\<close>

fun getSortOrdering_loop ::
  "rdeps \<Rightarrow> DefaultCollection \<Rightarrow> SortField list \<Rightarrow> error + SortField list" where
  "getSortOrdering_loop r coll [] = Inr []"
| "getSortOrdering_loop r coll (sf # rest) =
     (case r_GetQueryableField r coll (sf_Name sf) of
        Inl err \<Rightarrow> Inl err
      | Inr cf \<Rightarrow>
          if \<not> qf_Sortable cf
          then Inl (TigrisError INVALID_ARGUMENT (''Cannot sort on `'' @ sf_Name sf @ ''` field''))
          else (case getSortOrdering_loop r coll rest of
                  Inl err \<Rightarrow> Inl err
                | Inr rest' \<Rightarrow>
                    Inr ((if qf_InMemoryName cf \<noteq> qf_Name cf
                          then sf\<lparr>sf_Name := qf_InMemoryName cf\<rparr> else sf) # rest')))"

definition getSortOrdering ::
  "rdeps \<Rightarrow> DefaultCollection \<Rightarrow> bytes \<Rightarrow> error + SortField list option" where
  "getSortOrdering r coll sortReq =
     (case r_UnmarshalSort r sortReq of
        Inl err \<Rightarrow> Inl err
      | Inr None \<Rightarrow> Inr None
      | Inr (Some ordering0) \<Rightarrow>
          (case getSortOrdering_loop r coll ordering0 of
             Inl err \<Rightarrow> Inl err
           | Inr ordering' \<Rightarrow> Inr (Some ordering')))"

text \<open>
  \<^verbatim>\<open>buildReaderOptions\<close>. The factory's \<^verbatim>\<open>WrappedFilter(reqFilter)\<close> is the wrapping of the
  filters it makes of the request's filter.
\<close>

definition buildReaderOptions ::
  "rdeps \<Rightarrow> qdeps \<Rightarrow> DefaultCollection \<Rightarrow> ReadRequest \<Rightarrow> error + readerOptions" where
  "buildReaderOptions r q collection req =
     (let collation = (case rr_Options req of None \<Rightarrow> [] | Some opts \<Rightarrow> rro_Collation opts)
      in case getSortOrdering r collection (rr_Sort req) of
        Inl err \<Rightarrow> Inl err
      | Inr sorting \<Rightarrow>
     (case q_Factorize q collection collation (rr_Filter req) of
        Inl err \<Rightarrow> Inl err
      | Inr filters \<Rightarrow>
     (case r_BuildFields r (rr_Fields req) of
        Inl err \<Rightarrow> Inl err
      | Inr fieldFactory \<Rightarrow>
     (case (case rr_Options req of
              None \<Rightarrow> Inr None
            | Some opts \<Rightarrow>
                if length (rro_Offset opts) > 0
                then (case FromBinary (coll_EncodedName collection) (rro_Offset opts) of
                        Inl err \<Rightarrow> Inl err
                      | Inr k \<Rightarrow> Inr (Some k))
                else Inr None) of
        Inl err \<Rightarrow> Inl err
      | Inr from \<Rightarrow>
     (let options = \<lparr>ro_from = from, ro_ikeys = [], ro_table = coll_EncodedName collection,
                      ro_noFilter = False, ro_inMemoryStore = False, ro_sorting = sorting,
                      ro_filter = NewWrappedFilter filters, ro_fieldFactory = fieldFactory\<rparr>
      in if wf_None (ro_filter options) \<or> \<not> wf_IsIndexed (ro_filter options)
         then (if ro_sorting options \<noteq> None
               then Inr (options\<lparr>ro_inMemoryStore := True\<rparr>)
               else Inr (options\<lparr>ro_noFilter := True\<rparr>))
         else (case buildKeysUsingFilter q collection (rr_Filter req) collation of
                 Inr ikeys \<Rightarrow> Inr (options\<lparr>ro_ikeys := ikeys\<rparr>)
               | Inl err \<Rightarrow>
                   if \<not> r_Search_IsReadEnabled r
                   then (if ro_from options = None
                         then Inr (options\<lparr>ro_from := Some (NewKey (ro_table options))\<rparr>)
                         else Inr options)
                   else Inr (options\<lparr>ro_inMemoryStore := True\<rparr>)))))))"

text \<open>
  The loop of \<^verbatim>\<open>iterate\<close>: \<^verbatim>\<open>i\<close> counts the rows sent, \<^verbatim>\<open>lastKey\<close> is the key of the row
  variable (empty before the first row), \<^verbatim>\<open>stream\<close> the responses sent so far. The function
  returns the key of the last row it took from the iterator and the error: its own, or what
  \<^verbatim>\<open>Interrupted\<close> returns once \<^verbatim>\<open>Next\<close> has returned false. The limit is a 64-bit integer;
  the counter cannot overflow before it reaches it.
\<close>

fun iterate_loop ::
  "rdeps \<Rightarrow> qdeps \<Rightarrow> DefaultCollection \<Rightarrow> bytes \<Rightarrow> int \<Rightarrow> error option \<Rightarrow> Row list \<Rightarrow> int
     \<Rightarrow> bytes \<Rightarrow> ReadResponse list \<Rightarrow> (bytes \<times> error option) \<times> ReadResponse list" where
  "iterate_loop r q coll fieldFactory limit interrupted [] i lastKey stream =
     (if limit = 0 \<or> i < limit then ((lastKey, interrupted), stream)
      else ((lastKey, None), stream))"
| "iterate_loop r q coll fieldFactory limit interrupted (row # rows) i lastKey stream =
     (if limit = 0 \<or> i < limit
      then (case (if \<not> q_CompatibleSchemaSince q coll (Ver (row_Data row))
                  then q_UpdateRowSchemaRaw q coll (RawData (row_Data row)) (Ver (row_Data row))
                  else Inr (RawData (row_Data row))) of
              Inl err \<Rightarrow> ((row_Key row, Some err), stream)
            | Inr rawData \<Rightarrow>
                (case r_Apply r fieldFactory rawData of
                   Inl err \<Rightarrow> ((row_Key row, Some err), stream)
                 | Inr newValue \<Rightarrow>
                     (let response = \<lparr>rsp_Data = newValue,
                                       rsp_CreatedAt = CreatedAt (row_Data row),
                                       rsp_UpdatedAt = UpdatedAt (row_Data row),
                                       rsp_ResumeToken = row_Key row\<rparr>
                      in case r_Send r stream response of
                           Some err \<Rightarrow> ((row_Key row, Some err), stream)
                         | None \<Rightarrow>
                             iterate_loop r q coll fieldFactory limit interrupted rows (i + 1)
                               (row_Key row) (stream @ [response]))))
      else ((lastKey, None), stream))"

definition iterate ::
  "rdeps \<Rightarrow> qdeps \<Rightarrow> ReadRequest \<Rightarrow> DefaultCollection \<Rightarrow> Iterator \<Rightarrow> bytes \<Rightarrow> ReadResponse list
     \<Rightarrow> (bytes \<times> error option) \<times> ReadResponse list" where
  "iterate r q req coll iterator fieldFactory stream =
     iterate_loop r q coll fieldFactory
       (case rr_Options req of None \<Rightarrow> 0 | Some opts \<Rightarrow> rro_Limit opts)
       (it_interrupted iterator) (it_rows iterator) 0 [] stream"

definition iterateOnKvStore ::
  "rdeps \<Rightarrow> qdeps \<Rightarrow> nat option \<Rightarrow> Stores \<Rightarrow> ReadRequest \<Rightarrow> DefaultCollection \<Rightarrow> readerOptions
     \<Rightarrow> ReadResponse list \<Rightarrow> (bytes \<times> error option) \<times> ReadResponse list" where
  "iterateOnKvStore r q budget st req coll options stream =
     iterate r q req coll
       (if length (ro_ikeys options) > 0 then KeyIterator budget st (ro_ikeys options)
        else (case ro_from options of
                Some from \<Rightarrow> FilteredRead (ScanIterator budget st from) (ro_filter options)
              | None \<Rightarrow> FilteredRead (ScanTable budget st (ro_table options)) (ro_filter options)))
       (ro_fieldFactory options) stream"

definition iterateOnIndexingStore ::
  "rdeps \<Rightarrow> qdeps \<Rightarrow> Stores \<Rightarrow> ReadRequest \<Rightarrow> DefaultCollection \<Rightarrow> readerOptions
     \<Rightarrow> ReadResponse list \<Rightarrow> error option \<times> ReadResponse list" where
  "iterateOnIndexingStore r q st req coll options stream =
     (case iterate r q req coll
             (r_SearchIterator r coll (ro_filter options) (ro_sorting options) st)
             (ro_fieldFactory options) stream of
        ((lastKey, err), stream') \<Rightarrow> (err, stream'))"

text \<open>
  The loop of \<^verbatim>\<open>ReadOnly\<close>. Each round starts a transaction; \<^verbatim>\<open>txs\<close> lists, for the
  transactions the request starts one after the other, the error of \<^verbatim>\<open>StartTx\<close> or the
  transaction's read budget. The stores are the same in every transaction (no other writer
  commits during the read). The Go loop runs until a round ends without
  \<^verbatim>\<open>TransactionMaxDurationReached\<close>; the model returns \<^verbatim>\<open>None\<close> when the request needs more
  transactions than \<^verbatim>\<open>txs\<close> lists. When \<^verbatim>\<open>keys.FromBinary\<close> fails on the last key, the
  error is dropped and \<^verbatim>\<open>options.from\<close> is nil.
\<close>

fun ReadOnly_loop ::
  "rdeps \<Rightarrow> qdeps \<Rightarrow> Stores \<Rightarrow> ReadRequest \<Rightarrow> DefaultCollection \<Rightarrow> (error + nat option) list
     \<Rightarrow> readerOptions \<Rightarrow> ReadResponse list \<Rightarrow> (error option \<times> ReadResponse list) option" where
  "ReadOnly_loop r q st req coll [] options stream = None"
| "ReadOnly_loop r q st req coll (tx # txs) options stream =
     (case tx of
        Inl err \<Rightarrow> Some (Some err, stream)
      | Inr budget \<Rightarrow>
          (case iterateOnKvStore r q budget st req coll options stream of
             ((lastKey, err), stream') \<Rightarrow>
               if err = Some ErrTransactionMaxDurationReached
               then ReadOnly_loop r q st req coll txs
                      (options\<lparr>ro_from := (case FromBinary (ro_table options) lastKey of
                                               Inl e \<Rightarrow> None
                                             | Inr k \<Rightarrow> Some k)\<rparr>)
                      stream'
               else Some (err, stream')))"

definition StreamingQueryRunner_ReadOnly ::
  "rdeps \<Rightarrow> qdeps \<Rightarrow> Tenant \<Rightarrow> (error + nat option) list \<Rightarrow> ReadRequest \<Rightarrow> Stores
     \<Rightarrow> (error option \<times> ReadResponse list) option" where
  "StreamingQueryRunner_ReadOnly r q t txs req st =
     (case getDatabase t None (rr_Project req) (rr_Branch req) of
        Inl err \<Rightarrow> Some (Some err, [])
      | Inr db \<Rightarrow>
          (case getCollection db (rr_Collection req) of
             Inl err \<Rightarrow> Some (Some err, [])
           | Inr collection \<Rightarrow>
               (case buildReaderOptions r q collection req of
                  Inl err \<Rightarrow> Some (Some err, [])
                | Inr options \<Rightarrow>
                    if ro_inMemoryStore options
                    then Some (iterateOnIndexingStore r q st req collection options [])
                    else ReadOnly_loop r q st req collection txs options [])))"

text \<open>
  \<^verbatim>\<open>StreamingQueryRunner.Run\<close>: the read in the transaction of the session, with the staged
  database \<^verbatim>\<open>staged\<close> and the read budget \<^verbatim>\<open>budget\<close>.
\<close>

definition StreamingQueryRunner_Run ::
  "rdeps \<Rightarrow> qdeps \<Rightarrow> Tenant \<Rightarrow> Database option \<Rightarrow> nat option \<Rightarrow> ReadRequest \<Rightarrow> Stores
     \<Rightarrow> error option \<times> ReadResponse list" where
  "StreamingQueryRunner_Run r q t staged budget req st =
     (case getDBAndCollection t staged (rr_Project req) (rr_Collection req) (rr_Branch req) of
        Inl err \<Rightarrow> (Some err, [])
      | Inr (db, coll) \<Rightarrow>
          (case buildReaderOptions r q coll req of
             Inl err \<Rightarrow> (Some err, [])
           | Inr options \<Rightarrow>
               if ro_inMemoryStore options
               then iterateOnIndexingStore r q st req coll options []
               else (case iterateOnKvStore r q budget st req coll options [] of
                       ((lastKey, err), stream) \<Rightarrow> (err, stream))))"

section \<open>Streaming read: notions used to state its properties\<close>

text \<open>
  \<^verbatim>\<open>TransactionMaxDurationReached\<close> is an error of the key-value store: the helpers of the
  read path (the schema upgrade of a row, the projection, the send) do not return it.
\<close>

definition no_max_duration :: "rdeps \<Rightarrow> qdeps \<Rightarrow> bool" where
  "no_max_duration r q =
     ((\<forall>sent response. r_Send r sent response \<noteq> Some ErrTransactionMaxDurationReached) \<and>
      (\<forall>ff raw. r_Apply r ff raw \<noteq> Inl ErrTransactionMaxDurationReached) \<and>
      (\<forall>coll raw v. q_UpdateRowSchemaRaw q coll raw v \<noteq> Inl ErrTransactionMaxDurationReached))"

text \<open>
  What the body of the loop of \<^verbatim>\<open>iterate\<close> makes of a row before it sends it: the response,
  or the error of the schema upgrade or of the projection.
\<close>

definition row_response ::
  "rdeps \<Rightarrow> qdeps \<Rightarrow> DefaultCollection \<Rightarrow> bytes \<Rightarrow> Row \<Rightarrow> error + ReadResponse" where
  "row_response r q coll fieldFactory row =
     (case (if \<not> q_CompatibleSchemaSince q coll (Ver (row_Data row))
            then q_UpdateRowSchemaRaw q coll (RawData (row_Data row)) (Ver (row_Data row))
            else Inr (RawData (row_Data row))) of
        Inl err \<Rightarrow> Inl err
      | Inr rawData \<Rightarrow>
          (case r_Apply r fieldFactory rawData of
             Inl err \<Rightarrow> Inl err
           | Inr newValue \<Rightarrow>
               Inr \<lparr>rsp_Data = newValue,
                    rsp_CreatedAt = CreatedAt (row_Data row),
                    rsp_UpdatedAt = UpdatedAt (row_Data row),
                    rsp_ResumeToken = row_Key row\<rparr>))"

text \<open>
  The keys the responses of a read carry, with the error of the read: what the client sees
  of the order of the rows.
\<close>

definition tokens ::
  "(error option \<times> ReadResponse list) option \<Rightarrow> (error option \<times> bytes list) option" where
  "tokens res = map_option (\<lambda>(err, stream). (err, map rsp_ResumeToken stream)) res"

section \<open>A concrete tenant\<close>

text \<open>
  One namespace with the project \<^verbatim>\<open>p1\<close>, whose main database has the collections \<^verbatim>\<open>users\<close> and
  \<^verbatim>\<open>orders\<close>, each with one primary-key index and one stored schema version; the theorems
  below are run on it.
\<close>

definition ex_deps :: deps where
  "ex_deps =
     \<lparr>d_Name = (\<lambda>n. if IsMainBranch n then dbn_db n else dbn_db n @ ''_branch_'' @ dbn_branch n),
      d_Build = (\<lambda>n sch.
         if sch = [] then Inl (TigrisError INVALID_ARGUMENT ''empty schema'')
         else Inr \<lparr>fac_Name = n, fac_Schema = sch,
                   fac_Indexes = [\<lparr>idx_Name = ''pkey'', idx_Id = 0\<rparr>],
                   fac_Fields = [''K1'', ''D1''], fac_IndexingVersion = [],
                   fac_CollectionType = DocumentsType\<rparr>),
      d_SetIndexingVersion = (\<lambda>sch. Inr sch),
      d_DefaultIndexingSchemaVersion = ''v1'',
      d_Unmarshal = (\<lambda>b. if b = [] then Inl (PlainError ''unexpected end of JSON input'') else Inr b),
      d_ApplySchemaRules = (\<lambda>c f.
         if \<not> set (isi_QueryableFields (coll_ImplicitSearchIndex c)) \<subseteq> set (fac_Fields f)
         then Some (TigrisError INVALID_ARGUMENT ''field removed'') else None),
      d_NewDefaultCollection_err = (\<lambda>f. None),
      d_EncodeTableName = (\<lambda>ns db c.
         Inr (if c = 2 then ''data/users/'' else if c = 3 then ''data/orders/'' else ''data/new/'')),
      d_GetSearchDeltaFields = (\<lambda>old new inSearch. filter (\<lambda>f. f \<notin> set inSearch) new),
      d_Search_WriteEnabled = True,
      d_Server_FDBHardDrop = False\<rparr>"

definition ex_collection :: "id32 \<Rightarrow> string \<Rightarrow> bytes \<Rightarrow> bytes \<Rightarrow> DefaultCollection" where
  "ex_collection i n sch enc =
     \<lparr>coll_Id = i, coll_Name = n, coll_SchVer = 1, coll_Schema = sch,
      coll_Schemas = [(1, sch)], coll_Indexes = [\<lparr>idx_Name = ''pkey'', idx_Id = i + 100\<rparr>],
      coll_EncodedName = enc, coll_CollectionType = DocumentsType,
      coll_ImplicitSearchIndex =
        \<lparr>isi_Name = n, isi_StoreIndexName = ''ns1-p1-'' @ n, isi_QueryableFields = [''K1''],
         isi_FieldsInSearch = [''K1'']\<rparr>,
      coll_SearchIndexes = []\<rparr>"

definition ex_users :: DefaultCollection where
  "ex_users = ex_collection 2 ''users'' ''{users:K1}'' ''data/users/''"

definition ex_orders :: DefaultCollection where
  "ex_orders = ex_collection 3 ''orders'' ''{orders:K1}'' ''data/orders/''"

definition ex_main :: Database where
  "ex_main =
     \<lparr>db_id = 1, db_name = \<lparr>dbn_db = ''p1'', dbn_branch = ''main''\<rparr>,
      db_collections =
        [(''users'', newCollectionHolder 2 ''users'' ex_users [(''pkey'', 102)]),
         (''orders'', newCollectionHolder 3 ''orders'' ex_orders [(''pkey'', 103)])],
      db_idToCollectionMap = [2 \<mapsto> ''users'', 3 \<mapsto> ''orders'']\<rparr>"

text \<open>
  The main database as a transaction has staged it after making \<^verbatim>\<open>users\<close> a collection of
  another type than documents.
\<close>

definition ex_staged_other :: Database where
  "ex_staged_other =
     ex_main\<lparr>db_collections :=
       [(''users'', newCollectionHolder 2 ''users''
                      (ex_users\<lparr>coll_CollectionType := OtherCollectionType\<rparr>) [(''pkey'', 102)]),
        (''orders'', newCollectionHolder 3 ''orders'' ex_orders [(''pkey'', 103)])]\<rparr>"

definition ex_project :: Project where
  "ex_project =
     \<lparr>proj_id = 1, proj_name = ''p1'', proj_database = ex_main, proj_databaseBranches = Map.empty\<rparr>"

definition ex_tenant :: Tenant where
  "ex_tenant = \<lparr>namespace_Id = 1, namespace_StrId = ''ns1'', projects = [''p1'' \<mapsto> ex_project]\<rparr>"

definition ex_row :: "bytes \<Rightarrow> TableData" where
  "ex_row doc = \<lparr>CreatedAt = 100, UpdatedAt = None, Ver = 1, RawData = doc\<rparr>"

definition ex_stores :: Stores where
  "ex_stores =
     \<lparr>st_reserved = 103,
      st_databases = [(1, \<lparr>dbn_db = ''p1'', dbn_branch = ''main''\<rparr>) \<mapsto> (1, Active)],
      st_collections = [(1, 1, ''users'') \<mapsto> (2, Active), (1, 1, ''orders'') \<mapsto> (3, Active)],
      st_indexes = [(1, 1, 2, ''pkey'') \<mapsto> (102, Active), (1, 1, 3, ''pkey'') \<mapsto> (103, Active)],
      st_schemas = (\<lambda>k. if k = (1, 1, 2) then [(1, ''{users:K1}'')]
                         else if k = (1, 1, 3) then [(1, ''{orders:K1}'')] else []),
      st_search = [''ns1-p1-users'' \<mapsto> [''K1''], ''ns1-p1-orders'' \<mapsto> [''K1'']],
      st_projectMetadata = Map.empty,
      st_searchSchemas = (\<lambda>k. []),
      st_counters = {},
      st_rows = [(''data/users/a'', ex_row ''{K1:a,D1:x}''), (''data/users/b'', ex_row ''{K1:b,D1:y}''),
                 (''data/users/c'', ex_row ''{K1:c,D1:x}'')],
      st_events = []\<rparr>"

text \<open>A new schema for \<^verbatim>\<open>users\<close>, with the field \<^verbatim>\<open>D1\<close> added.\<close>

definition ex_users_v2 :: Factory where
  "ex_users_v2 =
     \<lparr>fac_Name = ''users'', fac_Schema = ''{users:K1,D1}'',
      fac_Indexes = [\<lparr>idx_Name = ''pkey'', idx_Id = 0\<rparr>],
      fac_Fields = [''K1'', ''D1''], fac_IndexingVersion = [],
      fac_CollectionType = DocumentsType\<rparr>"

text \<open>
  Stand-ins for the helpers of the query runners on the documents of the example, which
  are written \<^verbatim>\<open>{K1:a,D1:x}\<close>: the primary key is the field \<^verbatim>\<open>K1\<close>, one character long; a
  filter is \<^verbatim>\<open>{}\<close>, \<^verbatim>\<open>{K1:abc}\<close> (\<^verbatim>\<open>K1\<close> is one of the characters given) or \<^verbatim>\<open>{D1:x}\<close>; an update sets \<^verbatim>\<open>D1\<close> (\<^verbatim>\<open>{set:D1:y}\<close>) or
  \<^verbatim>\<open>K1\<close> (\<^verbatim>\<open>{set:K1:z}\<close>).
\<close>

definition ex_Factorize :: "bytes \<Rightarrow> error + Filter list" where
  "ex_Factorize f =
     (if f = ''{}'' \<or> f = [] then Inr []
      else if take 4 f = ''{K1:''
           then Inr [Selector (\<lambda>d. take 4 d = ''{K1:'' \<and> d ! 4 \<in> set (butlast (drop 4 f))) True]
      else if take 4 f = ''{D1:'' then Inr [Selector (\<lambda>d. drop 6 d = tl f) False]
      else Inl (TigrisError INVALID_ARGUMENT ''bad filter''))"

definition ex_KeyBuilder_Build :: "Filter list \<Rightarrow> error + bytes list" where
  "ex_KeyBuilder_Build fs =
     (if fs \<noteq> [] \<and> all_IsIndexed fs
      then Inr (filter (\<lambda>p. AndFilter_Matches fs (''{K1:'' @ p @ '',D1:?}'')) [''a'', ''b'', ''c'', ''z''])
      else Inl (TigrisError INVALID_ARGUMENT ''primary key is not bound''))"

definition ex_generate :: "bytes \<Rightarrow> error + keyGenerator" where
  "ex_generate doc =
     (if take 4 doc = ''{K1:'' \<and> 5 < length doc
      then Inr \<lparr>kg_indexParts = [doc ! 4], kg_document = doc, kg_forceInsert = False,
                kg_keysForResp = [doc ! 4]\<rparr>
      else Inl (TigrisError INVALID_ARGUMENT ''missing primary key''))"

definition ex_MergeAndGet :: "FieldOperatorFactory \<Rightarrow> bytes \<Rightarrow> error + (bytes \<times> bool)" where
  "ex_MergeAndGet factory doc =
     (case fo_Set factory of
        None \<Rightarrow> Inr (doc, False)
      | Some input \<Rightarrow>
          if take 4 input = ''{D1:'' then Inr (take 6 doc @ tl input, False)
          else if take 4 input = ''{K1:'' then Inr (butlast input @ drop 5 doc, True)
          else Inl (TigrisError INVALID_ARGUMENT ''unknown field''))"

definition ex_qdeps :: qdeps where
  "ex_qdeps =
     \<lparr>q_filter_None = (\<lambda>f. f = ''{}''),
      q_Factorize = (\<lambda>coll collation f. ex_Factorize f),
      q_KeyBuilder_Build = (\<lambda>coll fs. ex_KeyBuilder_Build fs),
      q_JSONToMap = (\<lambda>doc. if doc = [] then Inl (PlainError ''unexpected end of JSON input'')
                             else Inr doc),
      q_MapToJSON = (\<lambda>doc. Inr doc),
      q_stringToInt64 = (\<lambda>ins coll doc. Inr (doc, False)),
      q_setDefaultsInIncomingPayload = (\<lambda>ins coll ts doc. Inr (doc, False)),
      q_setDefaultsInExistingPayload = (\<lambda>coll ts doc. Inr doc),
      q_Validate = (\<lambda>coll doc. if last doc \<noteq> CHR ''}''
                                 then Some (TigrisError INVALID_ARGUMENT ''json schema validation failed'')
                                 else None),
      q_generate = (\<lambda>coll doc n. ex_generate doc),
      q_BuildFieldOperators = (\<lambda>flds.
         if take 5 flds = ''{set:''
         then Inr \<lparr>fo_Set = Some (''{'' @ drop 5 flds), fo_Others = []\<rparr>
         else Inl (TigrisError INVALID_ARGUMENT ''unknown operator'')),
      q_MergeAndGet = (\<lambda>factory doc coll. ex_MergeAndGet factory doc),
      q_TaggedDefaultsForUpdate = (\<lambda>coll. []),
      q_CompatibleSchemaSince = (\<lambda>coll v. True),
      q_UpdateRowSchema = (\<lambda>coll doc v. doc),
      q_UpdateRowSchemaRaw = (\<lambda>coll doc v. Inr doc)\<rparr>"

definition ex_insert :: "bytes list \<Rightarrow> InsertRequest" where
  "ex_insert docs =
     \<lparr>ir_Project = ''p1'', ir_Branch = ''main'', ir_Collection = ''users'', ir_Documents = docs\<rparr>"

definition ex_update :: "string \<Rightarrow> bytes \<Rightarrow> bytes \<Rightarrow> UpdateRequest" where
  "ex_update c flt flds =
     \<lparr>ur_Project = ''p1'', ur_Branch = ''main'', ur_Collection = c, ur_Fields = flds,
      ur_Filter = flt, ur_Options = None\<rparr>"

definition ex_rdeps :: rdeps where
  "ex_rdeps =
     \<lparr>r_UnmarshalSort = (\<lambda>s. if s = [] then Inr None
                              else Inr (Some [\<lparr>sf_Name = s, sf_Ascending = True,
                                                sf_MissingValuesFirst = False\<rparr>])),
      r_GetQueryableField = (\<lambda>coll n.
         Inr \<lparr>qf_Name = n, qf_InMemoryName = n, qf_Sortable = True\<rparr>),
      r_BuildFields = (\<lambda>flds. Inr flds),
      r_Apply = (\<lambda>fieldFactory raw. Inr raw),
      r_Search_IsReadEnabled = False,
      r_Send = (\<lambda>sent response. None),
      r_SearchIterator = (\<lambda>coll w sorting st. \<lparr>it_rows = [], it_interrupted = None\<rparr>)\<rparr>"

definition ex_read :: "bytes \<Rightarrow> int \<Rightarrow> bytes \<Rightarrow> ReadRequest" where
  "ex_read flt limit offset =
     \<lparr>rr_Project = ''p1'', rr_Branch = ''main'', rr_Collection = ''users'', rr_Filter = flt,
      rr_Fields = [], rr_Sort = [],
      rr_Options = Some \<lparr>rro_Limit = limit, rro_Offset = offset, rro_Collation = []\<rparr>\<rparr>"

section \<open>Properties of the logical filters\<close>

lemma AndFilter_Matches_all: "AndFilter_Matches fs doc \<longleftrightarrow> (\<forall>f\<in>set fs. Matches f doc)"
  by (induction fs) auto

lemma OrFilter_Matches_some: "OrFilter_Matches fs doc \<longleftrightarrow> (\<exists>f\<in>set fs. Matches f doc)"
  by (induction fs) auto

text \<open>
  Claim C10. Constructing an \<^verbatim>\<open>AndFilter\<close> or an \<^verbatim>\<open>OrFilter\<close> from fewer than two sub-filters
  returns an error; a constructor that succeeds returns a filter holding the given
  sub-filters, at least two of them; the \<^verbatim>\<open>AndFilter\<close> then matches a document exactly
  when every sub-filter matches it, and the \<^verbatim>\<open>OrFilter\<close> exactly when some sub-filter does.
\<close>

theorem logical_filter_min_two_and_matches:
  "(length fs < 2 \<longrightarrow>
      NewAndFilter fs = Inl (PlainError ''and filter needs minimum 2 filters'') \<and>
      NewOrFilter fs = Inl (PlainError ''or filter needs minimum 2 filters'')) \<and>
   (\<forall>a. NewAndFilter fs = Inr a \<longrightarrow>
      2 \<le> length (GetFilters a) \<and> GetFilters a = fs \<and>
      (Matches a doc \<longleftrightarrow> (\<forall>f\<in>set fs. Matches f doc))) \<and>
   (\<forall>o'. NewOrFilter fs = Inr o' \<longrightarrow>
      2 \<le> length (GetFilters o') \<and> GetFilters o' = fs \<and>
      (Matches o' doc \<longleftrightarrow> (\<exists>f\<in>set fs. Matches f doc)))"
  by (auto simp: NewAndFilter_def NewOrFilter_def AndFilter_validate_def OrFilter_validate_def
      AndFilter_Matches_all OrFilter_Matches_some split: if_splits)

theorem logical_filter_min_two_and_matches_witness:
  "NewAndFilter [Selector (\<lambda>d. d = ''a'') True] = Inl (PlainError ''and filter needs minimum 2 filters'') \<and>
   NewOrFilter [Selector (\<lambda>d. d = ''a'') True] = Inl (PlainError ''or filter needs minimum 2 filters'') \<and>
   NewAndFilter [Selector (\<lambda>d. d = ''a'') True, Selector (\<lambda>d. d \<noteq> ''b'') False] =
     Inr (AndFilter [Selector (\<lambda>d. d = ''a'') True, Selector (\<lambda>d. d \<noteq> ''b'') False]) \<and>
   Matches (AndFilter [Selector (\<lambda>d. d = ''a'') True, Selector (\<lambda>d. d \<noteq> ''b'') False]) ''a'' \<and>
   \<not> Matches (AndFilter [Selector (\<lambda>d. d = ''a'') True, Selector (\<lambda>d. d \<noteq> ''b'') False]) ''c'' \<and>
   NewOrFilter [Selector (\<lambda>d. d = ''a'') True, Selector (\<lambda>d. d \<noteq> ''b'') False] =
     Inr (OrFilter [Selector (\<lambda>d. d = ''a'') True, Selector (\<lambda>d. d \<noteq> ''b'') False]) \<and>
   Matches (OrFilter [Selector (\<lambda>d. d = ''a'') True, Selector (\<lambda>d. d \<noteq> ''b'') False]) ''c'' \<and>
   \<not> Matches (OrFilter [Selector (\<lambda>d. d = ''a'') True, Selector (\<lambda>d. d \<noteq> ''b'') False]) ''b''"
  using logical_filter_min_two_and_matches [of "[Selector (\<lambda>d. d = ''a'') True]" "''a''"]
    logical_filter_min_two_and_matches
      [of "[Selector (\<lambda>d. d = ''a'') True, Selector (\<lambda>d. d \<noteq> ''b'') False]" "''a''"]
  by (simp add: NewAndFilter_def NewOrFilter_def AndFilter_validate_def OrFilter_validate_def)

section \<open>Metadata: properties\<close>

lemma createIndexes_frame:
  "createIndexes ns db c idxs m st = (r, st') \<Longrightarrow>
     st_rows st' = st_rows st \<and> st_events st' = st_events st \<and>
     st_databases st' = st_databases st \<and> st_schemas st' = st_schemas st \<and>
     st_collections st' = st_collections st \<and> st_search st' = st_search st"
proof (induction idxs arbitrary: m st r st')
  case Nil
  then show ?case by simp
next
  case (Cons i idxs)
  show ?case
  proof (cases "dict_CreateIndex (idx_Name i) ns db c st")
    case (Inl e)
    with Cons.prems show ?thesis by simp
  next
    case (Inr p)
    obtain n st1 where p: "p = (n, st1)" by (cases p)
    obtain r2 st2 where rec: "createIndexes ns db c idxs (AList.update (idx_Name i) n m) st1 = (r2, st2)"
      by (cases "createIndexes ns db c idxs (AList.update (idx_Name i) n m) st1")
    have st2: "st' = st2" using Cons.prems Inr p rec by (auto split: sum.splits)
    have f1: "st_rows st1 = st_rows st \<and> st_events st1 = st_events st \<and>
     st_databases st1 = st_databases st \<and> st_schemas st1 = st_schemas st \<and>
     st_collections st1 = st_collections st \<and> st_search st1 = st_search st"
      using Inr p by (auto simp: dict_CreateIndex_def split: if_splits)
    from Cons.IH[OF rec] f1 st2 show ?thesis by simp
  qed
qed

lemma createCollection_fresh:
  assumes fresh: "map_of (db_collections database) (fac_Name f) = None"
      and ok: "createCollection d t (Some database) f st = (None, dbo, st')"
  shows "\<exists>f1 h. SetIndexingVersion d f = Inr f1 \<and>
           dbo = Some (database\<lparr>db_collections := AList.update (fac_Name f) h (db_collections database)\<rparr>) \<and>
           coll_Schema (ch_collection h) = fac_Schema f1 \<and>
           coll_Name (ch_collection h) = fac_Name f \<and>
           coll_SchVer (ch_collection h) = 1 \<and>
           ch_id h = st_reserved st + 1 \<and>
           st_collections st' (namespace_Id t, db_id database, fac_Name f) = Some (ch_id h, Active) \<and>
           (1, fac_Schema f1) \<in> set (st_schemas st' (namespace_Id t, db_id database, ch_id h)) \<and>
           st_rows st' = st_rows st \<and> st_events st' = st_events st \<and>
           st_databases st' = st_databases st \<and>
           (\<forall>k. set (st_schemas st k) \<subseteq> set (st_schemas st' k)) \<and>
           (\<forall>k. k \<noteq> (namespace_Id t, db_id database, fac_Name f) \<longrightarrow> st_collections st' k = st_collections st k)"
proof -
  obtain f1 where f1: "SetIndexingVersion d f = Inr f1"
    using ok fresh by (cases "SetIndexingVersion d f") (auto simp: createCollection_def)
  have n1: "fac_Name f1 = fac_Name f" and i1: "fac_Indexes f1 = fac_Indexes f"
    using f1 by (auto simp: SetIndexingVersion_def split: sum.splits)
  define f2 where "f2 = f1\<lparr>fac_IndexingVersion := d_DefaultIndexingSchemaVersion d\<rparr>"
  define ns where "ns = namespace_Id t"
  obtain cid st1 where c1: "dict_CreateCollection (fac_Name f) ns (db_id database) st = Inr (cid, st1)"
    using ok fresh f1 n1
    by (cases "dict_CreateCollection (fac_Name f) ns (db_id database) st")
       (auto simp: createCollection_def Let_def ns_def)
  have cid: "cid = st_reserved st + 1"
    and st1: "st1 = st\<lparr>st_reserved := st_reserved st + 1,
                   st_collections := (st_collections st)((ns, db_id database, fac_Name f) \<mapsto> (st_reserved st + 1, Active))\<rparr>"
    using c1 by (auto simp: dict_CreateCollection_def split: if_splits)
  obtain r2 st2 where ci: "createIndexes ns (db_id database) cid (fac_Indexes f) [] st1 = (r2, st2)"
    by (cases "createIndexes ns (db_id database) cid (fac_Indexes f) [] st1")
  obtain indexes m where r2: "r2 = Inr (indexes, m)"
    using ok fresh f1 n1 i1 c1 ci
    by (cases r2) (auto simp: createCollection_def Let_def ns_def)
  note fr = createIndexes_frame[OF ci]
  define fF where "fF = f2\<lparr>fac_Indexes := indexes\<rparr>"
  obtain st3 where put: "schema_Put ns (db_id database) cid (fac_Schema f1) baseSchemaVersion st2 = Inr st3"
    using ok fresh f1 n1 i1 c1 ci r2
    by (cases "schema_Put ns (db_id database) cid (fac_Schema f1) baseSchemaVersion st2")
       (auto simp: createCollection_def Let_def ns_def)
  have st3: "st3 = st2\<lparr>st_schemas := (st_schemas st2)
                  ((ns, db_id database, cid) := insort_key fst (1, fac_Schema f1) (st_schemas st2 (ns, db_id database, cid)))\<rparr>"
    using put by (auto simp: schema_Put_def baseSchemaVersion_def split: if_splits)
  define isi where "isi = NewImplicitSearchIndex (fac_Name f)
               (getSearchCollName d t (db_name database) (fac_Name f)) (fac_Fields f2) []"
  have nerr: "d_NewDefaultCollection_err d fF = None"
    using ok fresh f1 n1 i1 c1 ci r2 put
    by (cases "d_NewDefaultCollection_err d fF")
       (auto simp: createCollection_def Let_def ns_def fF_def f2_def NewDefaultCollection_def)
  define c0 where "c0 = \<lparr>coll_Id = cid, coll_Name = fac_Name f, coll_SchVer = 1,
               coll_Schema = fac_Schema f1, coll_Schemas = [], coll_Indexes = indexes,
               coll_EncodedName = [], coll_CollectionType = fac_CollectionType f1,
               coll_ImplicitSearchIndex = isi, coll_SearchIndexes = []\<rparr>"
  have ndc: "NewDefaultCollection d cid baseSchemaVersion fF [] isi = Inr c0"
    using nerr n1 by (simp add: NewDefaultCollection_def c0_def fF_def f2_def baseSchemaVersion_def)
  obtain encName where enc: "d_EncodeTableName d ns (db_id database) cid = Inr encName"
    using ok fresh f1 n1 i1 c1 ci r2 put ndc
    by (cases "d_EncodeTableName d ns (db_id database) cid")
       (auto simp: createCollection_def Let_def ns_def fF_def f2_def isi_def c0_def)
  define h where "h = newCollectionHolder cid (fac_Name f) (c0\<lparr>coll_EncodedName := encName\<rparr>) m"
  have res: "dbo = Some (database\<lparr>db_collections := AList.update (fac_Name f) h (db_collections database)\<rparr>) \<and>
             (st' = st3 \<or> (\<exists>n flds. st' = st3\<lparr>st_search := (st_search st3)(n \<mapsto> flds)\<rparr>))"
    using ok fresh f1 n1 i1 c1 ci r2 put ndc enc
    by (auto simp: createCollection_def Let_def ns_def fF_def f2_def isi_def c0_def h_def
          search_CreateCollection_def split: if_splits sum.splits option.splits)
  have hprops: "coll_Schema (ch_collection h) = fac_Schema f1 \<and>
           coll_Name (ch_collection h) = fac_Name f \<and>
           coll_SchVer (ch_collection h) = 1 \<and> ch_id h = st_reserved st + 1"
    by (simp add: h_def newCollectionHolder_def c0_def cid)
  have s3: "st_collections st3 (ns, db_id database, fac_Name f) = Some (cid, Active) \<and>
           (1, fac_Schema f1) \<in> set (st_schemas st3 (ns, db_id database, cid)) \<and>
           st_rows st3 = st_rows st \<and> st_events st3 = st_events st \<and>
           st_databases st3 = st_databases st \<and>
           (\<forall>k. set (st_schemas st k) \<subseteq> set (st_schemas st3 k)) \<and>
           (\<forall>k. k \<noteq> (ns, db_id database, fac_Name f) \<longrightarrow> st_collections st3 k = st_collections st k)"
    using fr by (auto simp: st3 st1 cid set_insort_key)
  have s': "st_collections st' = st_collections st3 \<and> st_schemas st' = st_schemas st3 \<and>
            st_rows st' = st_rows st3 \<and> st_events st' = st_events st3 \<and>
            st_databases st' = st_databases st3"
    using res by auto
  show ?thesis
    apply (rule exI[of _ f1], rule exI[of _ h])
    using f1 res hprops s3 s' by (simp add: ns_def cid)
qed

lemma length_update_fresh:
  "map_of al k = None \<Longrightarrow> length (AList.update k v al) = Suc (length al)"
  by (induction al) (auto split: if_splits)

lemma createBranchCollections_ok:
  assumes "createBranchCollections d t colls (Some branch) st = (None, bo, st')"
      and "distinct (map coll_Name colls)"
      and "\<forall>c\<in>set colls. map_of (db_collections branch) (coll_Name c) = None"
  shows "\<exists>branch'. bo = Some branch' \<and> db_id branch' = db_id branch \<and>
           db_name branch' = db_name branch \<and>
           length (db_collections branch') = length (db_collections branch) + length colls \<and>
           (\<forall>c\<in>set colls. branch_has d t branch' st' c) \<and>
           (\<forall>n. n \<notin> coll_Name ` set colls \<longrightarrow>
                map_of (db_collections branch') n = map_of (db_collections branch) n \<and>
                st_collections st' (namespace_Id t, db_id branch, n) =
                  st_collections st (namespace_Id t, db_id branch, n)) \<and>
           st_rows st' = st_rows st \<and> st_events st' = st_events st \<and>
           st_databases st' = st_databases st \<and>
           (\<forall>k. set (st_schemas st k) \<subseteq> set (st_schemas st' k))"
  using assms
proof (induction colls arbitrary: branch st)
  case Nil
  then show ?case by auto
next
  case (Cons c colls)
  obtain f where f: "schema_Build d (coll_Name c) (coll_Schema c) = Inr f"
    using Cons.prems(1) by (cases "schema_Build d (coll_Name c) (coll_Schema c)") auto
  have fn: "fac_Name f = coll_Name c"
    using f by (auto simp: schema_Build_def split: sum.splits)
  obtain e1 b1 st1 where cc: "createCollection d t (Some branch) f st = (e1, b1, st1)"
    by (cases "createCollection d t (Some branch) f st")
  have e1: "e1 = None" using Cons.prems(1) f cc by (cases e1) auto
  have rec: "createBranchCollections d t colls b1 st1 = (None, bo, st')"
    using Cons.prems(1) f cc e1 by simp
  have fresh: "map_of (db_collections branch) (fac_Name f) = None"
    using Cons.prems(3) fn by simp
  from createCollection_fresh[OF fresh cc[unfolded e1]]
  obtain f1 h where f1: "SetIndexingVersion d f = Inr f1"
    and b1: "b1 = Some (branch\<lparr>db_collections := AList.update (fac_Name f) h (db_collections branch)\<rparr>)"
    and h: "coll_Schema (ch_collection h) = fac_Schema f1" "coll_Name (ch_collection h) = fac_Name f"
           "coll_SchVer (ch_collection h) = 1"
    and sc: "st_collections st1 (namespace_Id t, db_id branch, fac_Name f) = Some (ch_id h, Active)"
    and ss: "(1, fac_Schema f1) \<in> set (st_schemas st1 (namespace_Id t, db_id branch, ch_id h))"
    and fr: "st_rows st1 = st_rows st" "st_events st1 = st_events st" "st_databases st1 = st_databases st"
    and sub: "\<forall>k. set (st_schemas st k) \<subseteq> set (st_schemas st1 k)"
    and oth: "\<forall>k. k \<noteq> (namespace_Id t, db_id branch, fac_Name f) \<longrightarrow> st_collections st1 k = st_collections st k"
    by blast
  define branch1 where "branch1 = branch\<lparr>db_collections := AList.update (fac_Name f) h (db_collections branch)\<rparr>"
  have m1: "map_of (db_collections branch1) = (map_of (db_collections branch))(coll_Name c \<mapsto> h)"
    by (simp add: branch1_def update_conv' fn)
  have notin: "coll_Name c \<notin> coll_Name ` set colls" using Cons.prems(2) by simp
  have pre3: "\<forall>c'\<in>set colls. map_of (db_collections branch1) (coll_Name c') = None"
    using Cons.prems(3) notin by (auto simp: m1 image_iff)
  have d2: "distinct (map coll_Name colls)" using Cons.prems(2) by simp
  from Cons.IH[OF rec[unfolded b1 branch1_def[symmetric]] d2 pre3]
  obtain branch' where bo: "bo = Some branch'" and ids: "db_id branch' = db_id branch1" "db_name branch' = db_name branch1"
    and len: "length (db_collections branch') = length (db_collections branch1) + length colls"
    and has: "\<forall>c\<in>set colls. branch_has d t branch' st' c"
    and keep: "\<forall>n. n \<notin> coll_Name ` set colls \<longrightarrow>
                map_of (db_collections branch') n = map_of (db_collections branch1) n \<and>
                st_collections st' (namespace_Id t, db_id branch1, n) =
                  st_collections st1 (namespace_Id t, db_id branch1, n)"
    and fr2: "st_rows st' = st_rows st1" "st_events st' = st_events st1" "st_databases st' = st_databases st1"
    and sub2: "\<forall>k. set (st_schemas st1 k) \<subseteq> set (st_schemas st' k)"
    by blast
  have idb: "db_id branch1 = db_id branch" "db_name branch1 = db_name branch"
    by (simp_all add: branch1_def)
  have len1: "length (db_collections branch1) = Suc (length (db_collections branch))"
    using fresh by (simp add: branch1_def length_update_fresh)
  have ss': "(1, fac_Schema f1) \<in> set (st_schemas st' (namespace_Id t, db_id branch', ch_id h))"
    using ss sub2 ids idb by auto
  have mc: "map_of (db_collections branch') (coll_Name c) = Some h"
    using keep notin by (simp add: m1)
  have sc': "st_collections st' (namespace_Id t, db_id branch', coll_Name c) = Some (ch_id h, Active)"
    using keep notin sc fn ids idb by simp
  have hasc: "branch_has d t branch' st' c"
    unfolding branch_has_def
    apply (rule exI[of _ f], rule exI[of _ f1], rule exI[of _ h])
    using f f1 h fn ss' mc sc' by simp
  have keep': "\<forall>n. n \<notin> coll_Name ` set (c # colls) \<longrightarrow>
                map_of (db_collections branch') n = map_of (db_collections branch) n \<and>
                st_collections st' (namespace_Id t, db_id branch, n) =
                  st_collections st (namespace_Id t, db_id branch, n)"
    using keep oth idb fn by (auto simp: m1)
  have sub3: "\<forall>k. set (st_schemas st k) \<subseteq> set (st_schemas st' k)"
    using sub sub2 by blast
  show ?case
    apply (rule exI[of _ branch'])
    using bo ids idb len len1 has hasc keep' fr fr2 sub3 by simp
qed

text \<open>
  Claim C8. For every project name, tenant and state of the stores, \<^verbatim>\<open>DeleteBranch\<close> on a
  main branch returns the metadata error \<^verbatim>\<open>ErrCodeCannotDeleteBranch\<close> with the message
  \<^verbatim>\<open>'main' database cannot be deleted.\<close> and leaves the stores as they were (it returns before
  the project is looked up, so no branch is deleted); \<^verbatim>\<open>createApiError\<close> turns the error into
  \<^verbatim>\<open>InvalidArgument\<close> with the same message, which is what the branch runner returns for the
  branch \<^verbatim>\<open>main\<close>.
\<close>

theorem DeleteBranch_main_rejected:
  "IsMainBranch dbBranch \<longrightarrow>
     DeleteBranch d t projName dbBranch st =
       (Some (MetadataError ErrCodeCannotDeleteBranch main_cannot_be_deleted), st) \<and>
     createApiError (MetadataError ErrCodeCannotDeleteBranch main_cannot_be_deleted) =
       TigrisError INVALID_ARGUMENT main_cannot_be_deleted \<and>
     BranchQueryRunner_Run_delete d t projName ''main'' st =
       (Inl (TigrisError INVALID_ARGUMENT main_cannot_be_deleted), st) \<and>
     main_cannot_be_deleted =
       [CHR 0x27, CHR ''m'', CHR ''a'', CHR ''i'', CHR ''n'', CHR 0x27] @ '' database cannot be deleted.''"
  by (simp add: DeleteBranch_def createApiError_def BranchQueryRunner_Run_delete_def
      NewDatabaseNameWithBranch_def IsMainBranch_def main_cannot_be_deleted_def quoted_def)

theorem DeleteBranch_main_rejected_witness:
  "IsMainBranch (NewDatabaseNameWithBranch ''p1'' ''main'') \<and>
   IsMainBranch (NewDatabaseNameWithBranch ''p1'' []) \<and>
   DeleteBranch ex_deps ex_tenant ''p1'' (NewDatabaseNameWithBranch ''p1'' ''main'') ex_stores =
     (Some (MetadataError ErrCodeCannotDeleteBranch main_cannot_be_deleted), ex_stores) \<and>
   fst (BranchQueryRunner_Run_delete ex_deps ex_tenant ''p1'' ''main'' ex_stores) =
     Inl (TigrisError INVALID_ARGUMENT main_cannot_be_deleted)"
  using DeleteBranch_main_rejected
          [of "NewDatabaseNameWithBranch ''p1'' ''main''" ex_deps ex_tenant "''p1''" ex_stores]
  by (simp add: IsMainBranch_def NewDatabaseNameWithBranch_def)

lemma addNewIndexes_frame:
  "addNewIndexes ns db idxs c st = (r, c', st') \<Longrightarrow>
     ch_id c' = ch_id c \<and> ch_collection c' = ch_collection c \<and> ch_name c' = ch_name c \<and>
     st_schemas st' = st_schemas st \<and> st_rows st' = st_rows st \<and>
     st_events st' = st_events st \<and> st_search st' = st_search st"
proof (induction idxs arbitrary: c st)
  case Nil
  then show ?case by simp
next
  case (Cons idx idxs)
  show ?case
  proof (cases "dict_CreateIndex (idx_Name idx) ns db (ch_id c) st")
    case (Inl e)
    with Cons.prems show ?thesis by simp
  next
    case (Inr p)
    obtain i st1 where p: "p = (i, st1)" by (cases p)
    have fr: "st_schemas st1 = st_schemas st \<and> st_rows st1 = st_rows st \<and>
              st_events st1 = st_events st \<and> st_search st1 = st_search st"
      using Inr p by (auto simp: dict_CreateIndex_def split: if_splits)
    have rec: "addNewIndexes ns db idxs
                 (c\<lparr>ch_idxNameToId := AList.update (idx_Name idx) i (ch_idxNameToId c)\<rparr>) st1 = (r, c', st')"
      using Cons.prems Inr p by simp
    from Cons.IH[OF rec] fr show ?thesis by simp
  qed
qed

lemma updateCollection_ok:
  assumes ok: "updateCollection d t database c f st = (None, database', st')"
  shows "(sint (GetVersion (ch_collection c)) + 1, fac_Schema f)
           \<in> set (st_schemas st' (namespace_Id t, db_id database, ch_id c)) \<and>
         sint (GetVersion (ch_collection c)) + 1
           \<notin> fst ` set (st_schemas st (namespace_Id t, db_id database, ch_id c)) \<and>
         0 < sint (GetVersion (ch_collection c)) + 1 \<and>
         (\<exists>h. map_of (db_collections database') (fac_Name f) = Some h \<and> ch_id h = ch_id c \<and>
              coll_Schema (ch_collection h) = fac_Schema f \<and>
              coll_SchVer (ch_collection h) = sint (GetVersion (ch_collection c)) + 1) \<and>
         st_rows st' = st_rows st"
proof -
  define ns where "ns = namespace_Id t"
  define newIndexes where "newIndexes = filter (\<lambda>idx. map_of (ch_idxNameToId c) (idx_Name idx) = None) (fac_Indexes f)"
  obtain e1 c1 st1 where an: "addNewIndexes ns (db_id database) newIndexes c st = (e1, c1, st1)"
    by (cases "addNewIndexes ns (db_id database) newIndexes c st")
  have e1: "e1 = None"
    using ok an by (cases e1) (auto simp: updateCollection_def Let_def ns_def newIndexes_def)
  note fr = addNewIndexes_frame[OF an]
  define fF where "fF = f\<lparr>fac_Indexes := setIndexIds (ch_idxNameToId c1) (fac_Indexes f)\<rparr>"
  define rev where "rev = sint (GetVersion (ch_collection c)) + 1"
  have rules: "d_ApplySchemaRules d (ch_collection c) fF = None"
    using ok an e1 fr
    by (cases "d_ApplySchemaRules d (ch_collection c) fF")
       (auto simp: updateCollection_def Let_def ns_def newIndexes_def fF_def)
  obtain st2 where put: "schema_Put ns (db_id database) (ch_id c) (fac_Schema f) rev st1 = Inr st2"
    using ok an e1 fr rules
    by (cases "schema_Put ns (db_id database) (ch_id c) (fac_Schema f) rev st1")
       (auto simp: updateCollection_def Let_def ns_def newIndexes_def fF_def rev_def)
  have pos: "0 < rev" and new: "rev \<notin> fst ` set (st_schemas st1 (ns, db_id database, ch_id c))"
    and st2: "st2 = st1\<lparr>st_schemas := (st_schemas st1)
                  ((ns, db_id database, ch_id c) := insort_key fst (rev, fac_Schema f) (st_schemas st1 (ns, db_id database, ch_id c)))\<rparr>"
    using put by (auto simp: schema_Put_def split: if_splits)
  have res: "(\<exists>h. map_of (db_collections database') (fac_Name f) = Some h \<and> ch_id h = ch_id c \<and>
              coll_Schema (ch_collection h) = fac_Schema f \<and>
              coll_SchVer (ch_collection h) = rev) \<and>
             st_schemas st' = st_schemas st2 \<and> st_rows st' = st_rows st2"
    using ok an e1 fr rules put
    by (auto simp: updateCollection_def Let_def ns_def newIndexes_def fF_def rev_def
          NewDefaultCollection_def newCollectionHolder_def update_conv'
          search_UpdateCollection_def
          split: sum.splits option.splits if_splits)
  show ?thesis
    using res pos new fr by (simp add: st2 rev_def ns_def set_insort_key)
qed

lemma sint_succ_32:
  "sint (w :: 32 word) < 2147483647 \<Longrightarrow> sint (word_of_int (sint w + 1) :: 32 word) = sint w + 1"
proof -
  assume a: "sint w < 2147483647"
  have lo: "- 2147483648 \<le> sint w" using sint_ge[of w] by simp
  have "sint (word_of_int (sint w + 1) :: 32 word) = signed_take_bit 31 (sint w + 1)"
    by (subst sint_sbintrunc') simp
  also have "\<dots> = sint w + 1"
    using a lo by (intro signed_take_bit_int_eq_self) simp_all
  finally show ?thesis .
qed

text \<open>
  Claim C7. When \<^verbatim>\<open>createCollection\<close> (the body of \<^verbatim>\<open>CreateCollection\<close>, which
  \<^verbatim>\<open>CreateOrUpdateCollection\<close> runs) finds the collection in the database with a schema that
  differs from the new one, and returns no error (so the compatibility rules passed), the
  new schema is in the schema store under the version of the existing collection plus one,
  a version the collection did not have before; the collection the database then holds has
  that version, which is greater than the previous one.
\<close>

theorem createCollection_update_persists_next_version:
  assumes "map_of (db_collections database) (fac_Name schFactory) = Some c"
      and "isSchemaEq d (coll_Schema (ch_collection c)) (fac_Schema schFactory) = (False, None)"
      and "createCollection d t (Some database) schFactory st = (None, dbo, st')"
  shows "(sint (GetVersion (ch_collection c)) + 1, fac_Schema schFactory)
           \<in> set (st_schemas st' (namespace_Id t, db_id database, ch_id c)) \<and>
         sint (GetVersion (ch_collection c)) + 1
           \<notin> fst ` set (st_schemas st (namespace_Id t, db_id database, ch_id c)) \<and>
         (\<exists>database' h. dbo = Some database' \<and>
              map_of (db_collections database') (fac_Name schFactory) = Some h \<and>
              ch_id h = ch_id c \<and>
              coll_Schema (ch_collection h) = fac_Schema schFactory \<and>
              coll_SchVer (ch_collection h) = sint (GetVersion (ch_collection c)) + 1 \<and>
              sint (GetVersion (ch_collection c)) < coll_SchVer (ch_collection h) \<and>
              (sint (GetVersion (ch_collection c)) < 2147483647 \<longrightarrow>
                 sint (GetVersion (ch_collection h)) = sint (GetVersion (ch_collection c)) + 1))"
proof -
  obtain database' where uc: "updateCollection d t database c schFactory st = (None, database', st')"
    and dbo: "dbo = Some database'"
    using assms by (auto simp: createCollection_def split: prod.splits)
  from updateCollection_ok[OF uc]
  obtain h where h: "map_of (db_collections database') (fac_Name schFactory) = Some h" "ch_id h = ch_id c"
      "coll_Schema (ch_collection h) = fac_Schema schFactory"
      "coll_SchVer (ch_collection h) = sint (GetVersion (ch_collection c)) + 1"
    and p: "(sint (GetVersion (ch_collection c)) + 1, fac_Schema schFactory)
           \<in> set (st_schemas st' (namespace_Id t, db_id database, ch_id c))"
      "sint (GetVersion (ch_collection c)) + 1
           \<notin> fst ` set (st_schemas st (namespace_Id t, db_id database, ch_id c))"
    by blast
  have v: "sint (GetVersion (ch_collection c)) < 2147483647 \<longrightarrow>
                 sint (GetVersion (ch_collection h)) = sint (GetVersion (ch_collection c)) + 1"
    using sint_succ_32[of "GetVersion (ch_collection c)"] h(4) by (simp add: GetVersion_def)
  show ?thesis
    using p dbo h v by auto
qed

lemma ex_createCollection_update:
  "fst (createCollection ex_deps ex_tenant (Some ex_main) ex_users_v2 ex_stores) = None"
  by (simp add: createCollection_def ex_deps_def ex_tenant_def ex_main_def ex_users_v2_def
      ex_stores_def ex_users_def ex_orders_def ex_collection_def newCollectionHolder_def
      isSchemaEq_def updateCollection_def Let_def GetVersion_def schema_Put_def schema_Get_def
      search_DescribeCollection_def NewDefaultCollection_def NewImplicitSearchIndex_def
      search_UpdateCollection_def setIndexIds_def)

theorem createCollection_update_persists_next_version_witness:
  "map_of (db_collections ex_main) (fac_Name ex_users_v2) =
     Some (newCollectionHolder 2 ''users'' ex_users [(''pkey'', 102)]) \<and>
   isSchemaEq ex_deps (coll_Schema ex_users) (fac_Schema ex_users_v2) = (False, None) \<and>
   fst (createCollection ex_deps ex_tenant (Some ex_main) ex_users_v2 ex_stores) = None \<and>
   (2, ''{users:K1,D1}'') \<in> set (st_schemas
      (snd (snd (createCollection ex_deps ex_tenant (Some ex_main) ex_users_v2 ex_stores))) (1, 1, 2))"
proof -
  have a: "map_of (db_collections ex_main) (fac_Name ex_users_v2) =
     Some (newCollectionHolder 2 ''users'' ex_users [(''pkey'', 102)])"
    by (simp add: ex_main_def ex_users_v2_def)
  have b: "isSchemaEq ex_deps (coll_Schema (ch_collection (newCollectionHolder 2 ''users'' ex_users [(''pkey'', 102)])))
             (fac_Schema ex_users_v2) = (False, None)"
    by (simp add: isSchemaEq_def ex_deps_def ex_users_def ex_collection_def ex_users_v2_def
        newCollectionHolder_def)
  obtain dbo st' where r: "createCollection ex_deps ex_tenant (Some ex_main) ex_users_v2 ex_stores = (None, dbo, st')"
    using ex_createCollection_update
    by (cases "createCollection ex_deps ex_tenant (Some ex_main) ex_users_v2 ex_stores") auto
  have v: "sint (GetVersion (ch_collection (newCollectionHolder 2 ''users'' ex_users [(''pkey'', 102)]))) = 1"
    by (simp add: GetVersion_def newCollectionHolder_def ex_users_def ex_collection_def)
  from createCollection_update_persists_next_version[OF a b r]
  show ?thesis
    using a b r v
    by (simp add: ex_tenant_def ex_main_def ex_users_v2_def newCollectionHolder_def)
qed

text \<open>
  Claim C9. When \<^verbatim>\<open>CreateBranch\<close> returns no error for a project of the tenant (whose main
  database has one collection per name), the branch name was not a branch of the project
  and not an active database of the dictionary; the branch database has the id the
  dictionary has just allocated for that name; it holds exactly one collection per
  collection of the main database, each built from the stored schema of that collection
  and persisted as version 1 of a new collection of the branch; the rows of the key-value
  store and the event log are unchanged: no row data is copied.
\<close>

theorem CreateBranch_clones_schemas:
  assumes "CreateBranch d t projName dbName st = (None, bo, st')"
      and "projects t projName = Some proj"
      and "distinct (map coll_Name (ListCollection (proj_database proj)))"
  shows "proj_databaseBranches proj dbName = None \<and>
         \<not> is_active (st_databases st (namespace_Id t, dbName)) \<and>
         (\<exists>branch. bo = Some branch \<and>
            db_name branch = dbName \<and>
            db_id branch = st_reserved st + 1 \<and>
            st_databases st' (namespace_Id t, dbName) = Some (db_id branch, Active) \<and>
            length (db_collections branch) = length (ListCollection (proj_database proj)) \<and>
            (\<forall>c\<in>set (ListCollection (proj_database proj)). branch_has d t branch st' c) \<and>
            (\<forall>n. n \<notin> coll_Name ` set (ListCollection (proj_database proj)) \<longrightarrow>
                 map_of (db_collections branch) n = None)) \<and>
         st_rows st' = st_rows st \<and> st_events st' = st_events st"
proof -
  have nb: "proj_databaseBranches proj dbName = None"
    using assms(1,2) by (cases "proj_databaseBranches proj dbName") (auto simp: CreateBranch_def)
  obtain branchId st1 where cd: "dict_CreateDatabase dbName (namespace_Id t) st = Inr (branchId, st1)"
    using assms(1,2) nb
    by (cases "dict_CreateDatabase dbName (namespace_Id t) st") (auto simp: CreateBranch_def)
  have na: "\<not> is_active (st_databases st (namespace_Id t, dbName))"
    and bid: "branchId = st_reserved st + 1"
    and st1: "st_databases st1 (namespace_Id t, dbName) = Some (branchId, Active)"
             "st_rows st1 = st_rows st" "st_events st1 = st_events st"
    using cd by (auto simp: dict_CreateDatabase_def split: if_splits)
  have loop: "createBranchCollections d t (ListCollection (proj_database proj))
                (Some (NewDatabase branchId dbName)) st1 = (None, bo, st')"
    using assms(1,2) nb cd by (simp add: CreateBranch_def)
  have empty: "\<forall>c\<in>set (ListCollection (proj_database proj)).
                 map_of (db_collections (NewDatabase branchId dbName)) (coll_Name c) = None"
    by (simp add: NewDatabase_def)
  from createBranchCollections_ok[OF loop assms(3) empty]
  obtain branch where b: "bo = Some branch" "db_id branch = db_id (NewDatabase branchId dbName)"
      "db_name branch = db_name (NewDatabase branchId dbName)"
      "length (db_collections branch) =
         length (db_collections (NewDatabase branchId dbName)) + length (ListCollection (proj_database proj))"
      "\<forall>c\<in>set (ListCollection (proj_database proj)). branch_has d t branch st' c"
      "\<forall>n. n \<notin> coll_Name ` set (ListCollection (proj_database proj)) \<longrightarrow>
                map_of (db_collections branch) n = map_of (db_collections (NewDatabase branchId dbName)) n"
      "st_rows st' = st_rows st1" "st_events st' = st_events st1" "st_databases st' = st_databases st1"
    by blast
  show ?thesis
    using nb na b bid st1 by (simp add: NewDatabase_def)
qed

lemma ex_CreateBranch_ok:
  "fst (CreateBranch ex_deps ex_tenant ''p1'' (NewDatabaseNameWithBranch ''p1'' ''dev'') ex_stores) = None"
  by (simp add: CreateBranch_def ex_tenant_def ex_project_def ex_main_def ListCollection_def
      NewDatabaseNameWithBranch_def dict_CreateDatabase_def is_active_def ex_stores_def
      newCollectionHolder_def ex_users_def ex_orders_def ex_collection_def schema_Build_def
      ex_deps_def createCollection_def NewDatabase_def SetIndexingVersion_def Let_def
      dict_CreateCollection_def dict_CreateIndex_def schema_Put_def baseSchemaVersion_def
      NewDefaultCollection_def NewImplicitSearchIndex_def getSearchCollName_def IsMainBranch_def
      search_CreateCollection_def)

theorem CreateBranch_clones_schemas_witness:
  "fst (CreateBranch ex_deps ex_tenant ''p1'' (NewDatabaseNameWithBranch ''p1'' ''dev'') ex_stores) = None \<and>
   projects ex_tenant ''p1'' = Some ex_project \<and>
   distinct (map coll_Name (ListCollection (proj_database ex_project))) \<and>
   (\<exists>branch. fst (snd (CreateBranch ex_deps ex_tenant ''p1''
                (NewDatabaseNameWithBranch ''p1'' ''dev'') ex_stores)) = Some branch \<and>
      db_id branch = 104 \<and> length (db_collections branch) = 2 \<and>
      branch_has ex_deps ex_tenant branch
        (snd (snd (CreateBranch ex_deps ex_tenant ''p1''
                (NewDatabaseNameWithBranch ''p1'' ''dev'') ex_stores))) ex_users) \<and>
   st_rows (snd (snd (CreateBranch ex_deps ex_tenant ''p1''
                (NewDatabaseNameWithBranch ''p1'' ''dev'') ex_stores))) = st_rows ex_stores"
proof -
  obtain bo st' where r: "CreateBranch ex_deps ex_tenant ''p1''
      (NewDatabaseNameWithBranch ''p1'' ''dev'') ex_stores = (None, bo, st')"
    using ex_CreateBranch_ok
    by (cases "CreateBranch ex_deps ex_tenant ''p1'' (NewDatabaseNameWithBranch ''p1'' ''dev'') ex_stores")
       auto
  have p: "projects ex_tenant ''p1'' = Some ex_project"
    by (simp add: ex_tenant_def)
  have dist: "distinct (map coll_Name (ListCollection (proj_database ex_project)))"
    by (simp add: ex_project_def ex_main_def ListCollection_def newCollectionHolder_def
        ex_users_def ex_orders_def ex_collection_def)
  have u: "ex_users \<in> set (ListCollection (proj_database ex_project))"
    by (simp add: ex_project_def ex_main_def ListCollection_def newCollectionHolder_def)
  have len: "length (ListCollection (proj_database ex_project)) = 2"
    by (simp add: ex_project_def ex_main_def ListCollection_def)
  have res: "st_reserved ex_stores + 1 = 104" by (simp add: ex_stores_def)
  from CreateBranch_clones_schemas[OF r p dist]
  show ?thesis
    using r p dist u len res by auto
qed

section \<open>Query runners: properties of insert\<close>

lemma tx_Insert_events:
  "tx_Insert k data st = Inr st' \<Longrightarrow>
     st_events st' = st_events st @ [InsertEvent (key_raw k) data] \<and>
     map_of (st_rows st') = (map_of (st_rows st))(key_raw k \<mapsto> data) \<and>
     map_of (st_rows st) (key_raw k) = None"
  by (auto simp: tx_Insert_def update_conv' split: option.splits)

lemma tx_Insert_exists: "map_of (st_rows st) (key_raw k) \<noteq> None \<Longrightarrow> tx_Insert k data st = Inl ErrDuplicateKey"
  by (auto simp: tx_Insert_def split: option.splits)

lemma tx_Insert_err: "tx_Insert k data st = Inl e \<Longrightarrow> e = ErrDuplicateKey"
  by (auto simp: tx_Insert_def split: option.splits)

lemma insert_loop_events:
  "insertOrReplace_loop q coll ts True n docs acc st = (r, st') \<Longrightarrow>
     (\<exists>evs. st_events st' = st_events st @ evs \<and> (\<forall>ev\<in>set evs. is_InsertEvent ev)) \<and>
     (\<forall>k. map_of (st_rows st) k \<noteq> None \<longrightarrow> map_of (st_rows st') k = map_of (st_rows st) k)"
proof (induction docs arbitrary: n acc st)
  case Nil
  then show ?case by simp
next
  case (Cons doc docs)
  show ?case
  proof (cases "mutateAndValidatePayload q coll True ts doc")
    case (Inl e)
    with Cons.prems show ?thesis by simp
  next
    case (Inr doc')
    show ?thesis
    proof (cases "q_generate q coll doc' n")
      case (Inl e)
      with Cons.prems Inr show ?thesis by simp
    next
      case kg: (Inr keyGen)
      define key where "key = \<lparr>key_table = coll_EncodedName coll, key_indexParts = kg_indexParts keyGen\<rparr>"
      define tableData where "tableData = SetVersion (GetVersion coll) (NewTableDataWithTS ts None (kg_document keyGen))"
      show ?thesis
      proof (cases "tx_Insert key tableData st")
        case (Inl e)
        with Cons.prems Inr kg show ?thesis by (simp add: key_def tableData_def Let_def)
      next
        case ins: (Inr st1)
        have rec: "insertOrReplace_loop q coll ts True (Suc n) docs (acc @ [kg_keysForResp keyGen]) st1 = (r, st')"
          using Cons.prems Inr kg ins by (simp add: key_def tableData_def Let_def)
        from Cons.IH[OF rec] tx_Insert_events[OF ins] show ?thesis
          by (auto simp: fun_upd_def)
      qed
    qed
  qed
qed

lemma insert_loop_duplicate:
  assumes "insertOrReplace_loop q coll ts True n docs acc st = (r, st')"
      and "i < length docs"
      and "doc_key q coll ts (n + i) (docs ! i) = Some k"
      and "map_of (st_rows st) (key_raw k) \<noteq> None"
  shows "(\<exists>e. r = Inl e) \<and>
         ((\<forall>j<i. doc_key q coll ts (n + j) (docs ! j) \<noteq> None) \<longrightarrow> r = Inl ErrDuplicateKey)"
  using assms
proof (induction docs arbitrary: n acc st i)
  case Nil
  then show ?case by simp
next
  case (Cons doc docs)
  have first: "(\<forall>j<i. doc_key q coll ts (n + j) ((doc # docs) ! j) \<noteq> None) \<longrightarrow>
                 doc_key q coll ts n doc \<noteq> None"
    using Cons.prems(3) by (cases i) auto
  show ?case
  proof (cases "mutateAndValidatePayload q coll True ts doc")
    case (Inl e)
    have "doc_key q coll ts n doc = None" using Inl by (simp add: doc_key_def)
    with Cons.prems(1) Inl first show ?thesis by auto
  next
    case (Inr doc')
    show ?thesis
    proof (cases "q_generate q coll doc' n")
      case (Inl e)
      have "doc_key q coll ts n doc = None" using Inl Inr by (simp add: doc_key_def)
      with Cons.prems(1) Inl Inr first show ?thesis by auto
    next
      case kg: (Inr keyGen)
      define key where "key = \<lparr>key_table = coll_EncodedName coll, key_indexParts = kg_indexParts keyGen\<rparr>"
      define tableData where "tableData = SetVersion (GetVersion coll) (NewTableDataWithTS ts None (kg_document keyGen))"
      have dk: "doc_key q coll ts n doc = Some key" using Inr kg by (simp add: doc_key_def key_def)
      show ?thesis
      proof (cases "tx_Insert key tableData st")
        case (Inl e)
        have "e = ErrDuplicateKey" using Inl by (rule tx_Insert_err)
        with Cons.prems(1) Inr kg Inl show ?thesis by (auto simp: key_def tableData_def Let_def)
      next
        case ins: (Inr st1)
        have rec: "insertOrReplace_loop q coll ts True (Suc n) docs (acc @ [kg_keysForResp keyGen]) st1 = (r, st')"
          using Cons.prems(1) Inr kg ins by (simp add: key_def tableData_def Let_def)
        have i0: "i \<noteq> 0"
        proof
          assume "i = 0"
          with Cons.prems(3) dk have "k = key" by simp
          with Cons.prems(4) tx_Insert_exists[of st key tableData] ins show False by simp
        qed
        then obtain j where j: "i = Suc j" by (cases i) auto
        have jl: "j < length docs" using Cons.prems(2) j by simp
        have dkj: "doc_key q coll ts (Suc n + j) (docs ! j) = Some k" using Cons.prems(3) j by simp
        have ex1: "map_of (st_rows st1) (key_raw k) \<noteq> None"
          using tx_Insert_events[OF ins] Cons.prems(4) by auto
        from Cons.IH[OF rec jl dkj ex1]
        have a: "\<exists>e. r = Inl e"
          and b: "(\<forall>j'<j. doc_key q coll ts (Suc n + j') (docs ! j') \<noteq> None) \<longrightarrow> r = Inl ErrDuplicateKey"
          by auto
        have "(\<forall>j'<i. doc_key q coll ts (n + j') ((doc # docs) ! j') \<noteq> None)
                \<longrightarrow> (\<forall>j'<j. doc_key q coll ts (Suc n + j') (docs ! j') \<noteq> None)"
        proof (intro impI allI)
          fix j' assume all: "\<forall>j'<i. doc_key q coll ts (n + j') ((doc # docs) ! j') \<noteq> None"
            and lt: "j' < j"
          from lt j have "Suc j' < i" by simp
          with all have "doc_key q coll ts (n + Suc j') ((doc # docs) ! Suc j') \<noteq> None" by blast
          then show "doc_key q coll ts (Suc n + j') (docs ! j') \<noteq> None" by simp
        qed
        with a b show ?thesis by blast
      qed
    qed
  qed
qed

text \<open>
  Claim C3, as amended. An insert request on an existing collection in which some
  document's primary key already has a row never returns a response: the runner returns an
  error. The insert path writes through the transaction's \<^verbatim>\<open>Insert\<close> only (every event it
  logs is an insert event, never a replace), so the row under the existing key stays as it
  was. When the collection is a documents collection and every document before that one
  passes mutation, validation and key generation, the error is the store's \<^verbatim>\<open>DuplicateKey\<close>
  translated into \<^verbatim>\<open>AlreadyExists\<close>, whatever the documents after it are.
\<close>

theorem Insert_existing_key_first_failure_AlreadyExists:
  assumes "getDBAndCollection t staged (ir_Project req) (ir_Collection req) (ir_Branch req) = Inr (db, coll)"
      and "i < length (ir_Documents req)"
      and "doc_key q coll ts i (ir_Documents req ! i) = Some k"
      and "map_of (st_rows st) (key_raw k) \<noteq> None"
  shows "(\<exists>e. fst (InsertQueryRunner_Run q t staged ts req st) = Inl e) \<and>
         (coll_CollectionType coll = DocumentsType \<and>
          (\<forall>j<i. doc_key q coll ts j (ir_Documents req ! j) \<noteq> None) \<longrightarrow>
            fst (InsertQueryRunner_Run q t staged ts req st) =
              Inl (TigrisError ALREADY_EXISTS duplicate_key_message)) \<and>
         (\<exists>evs. st_events (snd (InsertQueryRunner_Run q t staged ts req st)) = st_events st @ evs \<and>
                (\<forall>ev\<in>set evs. is_InsertEvent ev)) \<and>
         map_of (st_rows (snd (InsertQueryRunner_Run q t staged ts req st))) (key_raw k) =
           map_of (st_rows st) (key_raw k)"
proof (cases "mustBeDocumentsCollection coll ''insert''")
  case (Some e)
  then show ?thesis using assms(1)
    by (auto simp: InsertQueryRunner_Run_def mustBeDocumentsCollection_def split: if_splits)
next
  case None
  obtain r st' where loop: "insertOrReplace_loop q coll ts True 0 (ir_Documents req) [] st = (r, st')"
    by (cases "insertOrReplace_loop q coll ts True 0 (ir_Documents req) [] st")
  from insert_loop_duplicate[OF loop assms(2)] assms(3,4)
  obtain e where e: "r = Inl e"
    and d: "(\<forall>j<i. doc_key q coll ts j (ir_Documents req ! j) \<noteq> None) \<longrightarrow> r = Inl ErrDuplicateKey"
    by auto
  note ev = insert_loop_events[OF loop]
  have run: "InsertQueryRunner_Run q t staged ts req st =
      (if e = ErrDuplicateKey then (Inl (TigrisError ALREADY_EXISTS (Error_msg e)), st') else (Inl e, st'))"
    using assms(1) None loop e by (simp add: InsertQueryRunner_Run_def insertOrReplace_def)
  have keep: "map_of (st_rows st') (key_raw k) = map_of (st_rows st) (key_raw k)"
    using ev assms(4) by simp
  show ?thesis
    using run ev d e keep by (auto simp: Error_msg_def)
qed

text \<open>
  Claim C3 as stated fails on the example, where the key \<^verbatim>\<open>b\<close> has a row. A request whose
  first document does not pass validation and whose second has the key \<^verbatim>\<open>b\<close> returns the
  error of the validation, \<^verbatim>\<open>InvalidArgument\<close>: \<^verbatim>\<open>insertOrReplace\<close> returns at the first
  document that fails and never reaches the \<^verbatim>\<open>Insert\<close> of \<^verbatim>\<open>b\<close>. And when the collection is not
  a documents collection (here in the database staged in the transaction), the request
  with the key \<^verbatim>\<open>b\<close> is refused as \<^verbatim>\<open>InvalidArgument\<close> before \<^verbatim>\<open>insertOrReplace\<close> is called.
\<close>

theorem Insert_existing_key_counterexample:
  "fst (InsertQueryRunner_Run ex_qdeps ex_tenant None 200
          (ex_insert [''{K1:e,D1:new'', ''{K1:b,D1:new}'']) ex_stores)
     = Inl (TigrisError INVALID_ARGUMENT ''json schema validation failed'') \<and>
   fst (InsertQueryRunner_Run ex_qdeps ex_tenant (Some ex_staged_other) 200
          (ex_insert [''{K1:b,D1:new}'']) ex_stores)
     = Inl (TigrisError INVALID_ARGUMENT
              (''insert is only supported on collection type of '' @ quoted ''documents'')) \<and>
   map_of (st_rows ex_stores) ''data/users/b'' = Some (ex_row ''{K1:b,D1:y}'')"
  by code_simp

lemma ex_getDBAndCollection_users:
  "getDBAndCollection ex_tenant None ''p1'' ''users'' ''main'' = Inr (ex_main, ex_users)"
  by (simp add: getDBAndCollection_def getDatabase_def GetProject_def ex_tenant_def
      Project_GetDatabase_def NewDatabaseNameWithBranch_def IsMainBranch_def ex_project_def
      getCollection_def GetCollection_def ex_main_def newCollectionHolder_def)

lemma ex_doc_key:
  "doc_key ex_qdeps ex_users 200 n ''{K1:b,D1:new}'' =
     Some \<lparr>key_table = ''data/users/'', key_indexParts = ''b''\<rparr>"
  "doc_key ex_qdeps ex_users 200 n ''{K1:d,D1:new}'' =
     Some \<lparr>key_table = ''data/users/'', key_indexParts = ''d''\<rparr>"
  by (simp_all add: doc_key_def mutateAndValidatePayload_def ex_qdeps_def ex_generate_def
      ex_users_def ex_collection_def)

text \<open>
  On the example: the first document is new, the second has the key \<^verbatim>\<open>b\<close>, the third does not
  pass validation; the request is answered \<^verbatim>\<open>AlreadyExists\<close>.
\<close>

theorem Insert_existing_key_first_failure_AlreadyExists_witness:
  "getDBAndCollection ex_tenant None ''p1'' ''users'' ''main'' = Inr (ex_main, ex_users) \<and>
   doc_key ex_qdeps ex_users 200 1 ''{K1:b,D1:new}'' =
     Some \<lparr>key_table = ''data/users/'', key_indexParts = ''b''\<rparr> \<and>
   doc_key ex_qdeps ex_users 200 0 ''{K1:d,D1:new}'' =
     Some \<lparr>key_table = ''data/users/'', key_indexParts = ''d''\<rparr> \<and>
   doc_key ex_qdeps ex_users 200 2 ''{K1:e,D1:new'' = None \<and>
   map_of (st_rows ex_stores) ''data/users/b'' = Some (ex_row ''{K1:b,D1:y}'') \<and>
   fst (InsertQueryRunner_Run ex_qdeps ex_tenant None 200
          (ex_insert [''{K1:d,D1:new}'', ''{K1:b,D1:new}'', ''{K1:e,D1:new'']) ex_stores) =
     Inl (TigrisError ALREADY_EXISTS duplicate_key_message) \<and>
   map_of (st_rows (snd (InsertQueryRunner_Run ex_qdeps ex_tenant None 200
          (ex_insert [''{K1:d,D1:new}'', ''{K1:b,D1:new}'', ''{K1:e,D1:new'']) ex_stores)))
       ''data/users/b'' = Some (ex_row ''{K1:b,D1:y}'')"
proof -
  let ?req = "ex_insert [''{K1:d,D1:new}'', ''{K1:b,D1:new}'', ''{K1:e,D1:new'']"
  let ?k = "\<lparr>key_table = ''data/users/'', key_indexParts = ''b''\<rparr>"
  have a: "getDBAndCollection ex_tenant None (ir_Project ?req) (ir_Collection ?req) (ir_Branch ?req)
             = Inr (ex_main, ex_users)"
    using ex_getDBAndCollection_users by (simp add: ex_insert_def)
  have b: "(1::nat) < length (ir_Documents ?req)" by (simp add: ex_insert_def)
  have c: "doc_key ex_qdeps ex_users 200 1 (ir_Documents ?req ! 1) = Some ?k"
    using ex_doc_key(1)[of 1] by (simp add: ex_insert_def)
  have d: "map_of (st_rows ex_stores) (key_raw ?k) \<noteq> None"
    by (simp add: ex_stores_def key_raw_def)
  have e: "coll_CollectionType ex_users = DocumentsType"
    by (simp add: ex_users_def ex_collection_def)
  have f: "\<forall>j<1. doc_key ex_qdeps ex_users 200 j (ir_Documents ?req ! j) \<noteq> None"
    using ex_doc_key(2)[of 0] by (simp add: ex_insert_def)
  have g: "doc_key ex_qdeps ex_users 200 2 ''{K1:e,D1:new'' = None"
    by (simp add: doc_key_def mutateAndValidatePayload_def ex_qdeps_def)
  have h: "key_raw ?k = ''data/users/b''" by (simp add: key_raw_def)
  from Insert_existing_key_first_failure_AlreadyExists[OF a b c d] e f
  show ?thesis
    using ex_getDBAndCollection_users ex_doc_key(1)[of 1] ex_doc_key(2)[of 0] g h
    by (simp add: ex_stores_def)
qed

section \<open>Query runners: properties of update\<close>

lemma FromBinary_raw: "FromBinary tbl raw = Inr key \<Longrightarrow> key_raw key = raw \<and> key_table key = tbl"
  by (auto simp: FromBinary_def key_raw_def prefix_def split: if_splits)

lemma Update_row_cases:
  assumes "UpdateQueryRunner_Run_row q coll ts factory n row st = (None, st')"
  shows "\<exists>key merged0 merged pkm.
    FromBinary (coll_EncodedName coll) (row_Key row) = Inr key \<and>
    updateDefaultsAndSchema q coll (RawData (row_Data row)) (Ver (row_Data row)) ts = Inr merged0 \<and>
    q_MergeAndGet q factory merged0 coll = Inr (merged, pkm) \<and>
    (pkm \<longrightarrow> (\<exists>keyGen. q_generate q coll merged n = Inr keyGen \<and>
        st' = tx_Replace \<lparr>key_table = coll_EncodedName coll, key_indexParts = kg_indexParts keyGen\<rparr>
                (SetVersion (GetVersion coll)
                   (NewTableDataWithTS (CreatedAt (row_Data row)) (Some ts) merged))
                False (tx_Delete key st))) \<and>
    (\<not> pkm \<longrightarrow> st' = tx_Replace key
                (SetVersion (GetVersion coll)
                   (NewTableDataWithTS (CreatedAt (row_Data row)) (Some ts) merged))
                True st)"
proof -
  obtain key where k: "FromBinary (coll_EncodedName coll) (row_Key row) = Inr key"
    using assms by (cases "FromBinary (coll_EncodedName coll) (row_Key row)")
      (auto simp: UpdateQueryRunner_Run_row_def)
  obtain merged0 where m0: "updateDefaultsAndSchema q coll (RawData (row_Data row)) (Ver (row_Data row)) ts = Inr merged0"
    using assms k
    by (cases "updateDefaultsAndSchema q coll (RawData (row_Data row)) (Ver (row_Data row)) ts")
      (auto simp: UpdateQueryRunner_Run_row_def)
  obtain merged pkm where m: "q_MergeAndGet q factory merged0 coll = Inr (merged, pkm)"
    using assms k m0
    by (cases "q_MergeAndGet q factory merged0 coll")
      (auto simp: UpdateQueryRunner_Run_row_def)
  show ?thesis
    apply (rule exI[of _ key], rule exI[of _ merged0], rule exI[of _ merged], rule exI[of _ pkm])
    using assms k m0 m
    by (auto simp: UpdateQueryRunner_Run_row_def Let_def SetVersion_def NewTableDataWithTS_def
          split: sum.splits)
qed

text \<open>
  The body of the loop, for a row it handles without error, logs the events of
  \<^verbatim>\<open>row_step\<close>, and the rows of the store change as the events say.
\<close>

lemma Update_row_step:
  assumes "UpdateQueryRunner_Run_row q coll ts factory n row st = (None, st')"
  shows "\<exists>evs. row_step q coll ts factory n row evs \<and>
               st_events st' = st_events st @ evs \<and>
               st_rows st' = foldl apply_event (st_rows st) evs"
proof -
  from Update_row_cases[OF assms] obtain key merged0 merged pkm where
    k: "FromBinary (coll_EncodedName coll) (row_Key row) = Inr key" and
    m0: "updateDefaultsAndSchema q coll (RawData (row_Data row)) (Ver (row_Data row)) ts = Inr merged0" and
    m: "q_MergeAndGet q factory merged0 coll = Inr (merged, pkm)" and
    p: "pkm \<Longrightarrow> \<exists>keyGen. q_generate q coll merged n = Inr keyGen \<and>
        st' = tx_Replace \<lparr>key_table = coll_EncodedName coll, key_indexParts = kg_indexParts keyGen\<rparr>
                (SetVersion (GetVersion coll)
                   (NewTableDataWithTS (CreatedAt (row_Data row)) (Some ts) merged))
                False (tx_Delete key st)" and
    np: "\<not> pkm \<Longrightarrow> st' = tx_Replace key
                (SetVersion (GetVersion coll)
                   (NewTableDataWithTS (CreatedAt (row_Data row)) (Some ts) merged))
                True st"
    by blast
  have raw: "key_raw key = row_Key row" using FromBinary_raw[OF k] by simp
  show ?thesis
  proof (cases pkm)
    case True
    from p[OF True] obtain keyGen :: keyGenerator where
      g: "q_generate q coll merged n = Inr keyGen" and
      s: "st' = tx_Replace \<lparr>key_table = coll_EncodedName coll, key_indexParts = kg_indexParts keyGen\<rparr>
                (newData_of coll ts row merged) False (tx_Delete key st)"
      unfolding newData_of_def by blast
    let ?evs = "[DeleteEvent (row_Key row),
                 ReplaceEvent (coll_EncodedName coll @ kg_indexParts keyGen) (newData_of coll ts row merged)]"
    have "row_step q coll ts factory n row ?evs"
      unfolding row_step_def using m0 m True g by auto
    moreover have "st_events st' = st_events st @ ?evs"
      using raw by (simp add: s tx_Replace_def tx_Delete_def key_raw_def)
    moreover have "st_rows st' = foldl apply_event (st_rows st) ?evs"
      using raw by (simp add: s tx_Replace_def tx_Delete_def key_raw_def)
    ultimately show ?thesis by blast
  next
    case False
    from np[OF False] have s: "st' = tx_Replace key (newData_of coll ts row merged) True st"
      unfolding newData_of_def .
    let ?evs = "[UpdateEvent (row_Key row) (newData_of coll ts row merged)]"
    have "row_step q coll ts factory n row ?evs"
      unfolding row_step_def using m0 m False by auto
    moreover have "st_events st' = st_events st @ ?evs"
      using raw by (simp add: s tx_Replace_def)
    moreover have "st_rows st' = foldl apply_event (st_rows st) ?evs"
      using raw by (simp add: s tx_Replace_def)
    ultimately show ?thesis by blast
  qed
qed

text \<open>
  The loop: \<^verbatim>\<open>modifiedCount\<close> counts up to the limit without overflow, and the loop handles
  the rows of the iterator in order, the first \<^verbatim>\<open>limit\<close> of them when there is a limit.
\<close>

lemma sint_succ_below:
  fixes mc limit :: "32 word"
  assumes "sint mc < sint limit"
  shows "sint (mc + 1) = sint mc + 1"
proof -
  have "sint limit \<le> 2147483647" using sint_lt[of limit] by simp
  then have a: "sint mc < 2147483647" using assms by simp
  have "mc + 1 = word_of_int (sint mc + 1)" by simp
  then show ?thesis using sint_succ_32[OF a] by simp
qed

lemma Update_loop_effect:
  assumes "UpdateQueryRunner_Run_loop q coll ts factory limit n rows mc st = (None, mc', st')"
      and "limit \<noteq> 0 \<longrightarrow> 0 \<le> sint mc"
  shows "\<exists>evs. length evs = length (if limit = 0 then rows else take (nat (sint limit - sint mc)) rows) \<and>
           mc' = mc + of_nat (length evs) \<and>
           st_events st' = st_events st @ concat evs \<and>
           st_rows st' = foldl apply_event (st_rows st) (concat evs) \<and>
           (\<forall>i<length evs. row_step q coll ts factory (n + i) (rows ! i) (evs ! i))"
  using assms
proof (induction rows arbitrary: n mc st)
  case Nil
  then show ?case by simp
next
  case (Cons row rows)
  show ?case
  proof (cases "limit = 0 \<or> sint mc < sint limit")
    case False
    then have "st' = st" "mc' = mc" using Cons.prems(1) by auto
    moreover have "nat (sint limit - sint mc) = 0" using False by simp
    ultimately show ?thesis using False by simp
  next
    case True
    obtain st1 where row: "UpdateQueryRunner_Run_row q coll ts factory n row st = (None, st1)"
      and rec: "UpdateQueryRunner_Run_loop q coll ts factory limit (Suc n) rows (mc + 1) st1 = (None, mc', st')"
      using Cons.prems(1) True
      by (cases "UpdateQueryRunner_Run_row q coll ts factory n row st")
         (auto split: option.splits)
    have inv: "limit \<noteq> 0 \<longrightarrow> 0 \<le> sint (mc + 1)"
      using True Cons.prems(2) sint_succ_below[of mc limit] by auto
    from Update_row_step[OF row] obtain ev where
      e1: "row_step q coll ts factory n row ev" and
      e2: "st_events st1 = st_events st @ ev" and
      e3: "st_rows st1 = foldl apply_event (st_rows st) ev" by blast
    from Cons.IH[OF rec inv] obtain evs where
      l: "length evs = length (if limit = 0 then rows else take (nat (sint limit - sint (mc + 1))) rows)" and
      c: "mc' = mc + 1 + of_nat (length evs)" and
      s1: "st_events st' = st_events st1 @ concat evs" and
      s2: "st_rows st' = foldl apply_event (st_rows st1) (concat evs)" and
      a: "\<forall>i<length evs. row_step q coll ts factory (Suc n + i) (rows ! i) (evs ! i)"
      by blast
    have len: "length (ev # evs) =
                 length (if limit = 0 then row # rows else take (nat (sint limit - sint mc)) (row # rows))"
    proof (cases "limit = 0")
      case True
      then show ?thesis using l by simp
    next
      case False
      with True have lt: "sint mc < sint limit" by simp
      then have "nat (sint limit - sint mc) = Suc (nat (sint limit - sint (mc + 1)))"
        using sint_succ_below[OF lt] by simp
      then show ?thesis using l False by simp
    qed
    have all: "\<forall>i<length (ev # evs). row_step q coll ts factory (n + i) ((row # rows) ! i) ((ev # evs) ! i)"
      using e1 a by (auto simp: nth_Cons split: nat.splits)
    have cnt: "mc' = mc + of_nat (length (ev # evs))" using c by simp
    have ev1: "st_events st' = st_events st @ concat (ev # evs)" using s1 e2 by simp
    have ev2: "st_rows st' = foldl apply_event (st_rows st) (concat (ev # evs))" using s2 e3 by simp
    show ?thesis
      using len cnt ev1 ev2 all by (intro exI[of _ "ev # evs"] conjI)
  qed
qed

text \<open>
  The runner, when it returns a response: the collection, the field operators (validated
  when there is a \<^verbatim>\<open>$set\<close>) and the iterator it made, and for each row it handled the events
  it logged.
\<close>

lemma rows_within_length:
  "length (if limit = 0 then rows else take (nat (sint limit - sint (0 :: 32 word))) rows)
     = length (rows_within limit rows)"
  by (simp add: rows_within_def)

lemma rows_within_nth: "i < length (rows_within limit rows) \<Longrightarrow> rows_within limit rows ! i = rows ! i"
  by (simp add: rows_within_def split: if_splits)

lemma Update_Run_effect:
  assumes "UpdateQueryRunner_Run q t staged budget ts req st = (Inr resp, st')"
  shows "\<exists>db coll factory0 factory iterator evs.
     getDBAndCollection t staged (ur_Project req) (ur_Collection req) (ur_Branch req) = Inr (db, coll) \<and>
     q_BuildFieldOperators q (ur_Fields req) = Inr factory0 \<and>
     (case fo_Set factory0 of
        None \<Rightarrow> factory = factory0
      | Some input \<Rightarrow>
          (\<exists>input'. mutateAndValidatePayload q coll False ts input = Inr input' \<and>
                    factory = factory0\<lparr>fo_Set := Some input'\<rparr>)) \<and>
     getWriteIterator q budget st coll (ur_Filter req) (update_collation req) = Inr iterator \<and>
     length evs = length (rows_within (update_limit req) (it_rows iterator)) \<and>
     resp = emptyResponse\<lparr>resp_Status := UpdatedStatus, resp_UpdatedAt := Some ts,
                          resp_ModifiedCount := of_nat (length evs)\<rparr> \<and>
     st_events st' = st_events st @ concat evs \<and>
     st_rows st' = foldl apply_event (st_rows st) (concat evs) \<and>
     (\<forall>i<length evs. row_step q coll ts factory i
                        (rows_within (update_limit req) (it_rows iterator) ! i) (evs ! i))"
proof -
  obtain db coll where lk: "getDBAndCollection t staged (ur_Project req) (ur_Collection req) (ur_Branch req) = Inr (db, coll)"
    using assms
    by (cases "getDBAndCollection t staged (ur_Project req) (ur_Collection req) (ur_Branch req)")
       (auto simp: UpdateQueryRunner_Run_def)
  have nn: "\<not> q_filter_None q (ur_Filter req)" and doc: "mustBeDocumentsCollection coll ''update'' = None"
    using assms lk by (auto simp: UpdateQueryRunner_Run_def split: if_splits option.splits)
  obtain factory0 where f0: "q_BuildFieldOperators q (ur_Fields req) = Inr factory0"
    using assms lk nn doc
    by (cases "q_BuildFieldOperators q (ur_Fields req)") (auto simp: UpdateQueryRunner_Run_def)
  define fres where "fres = (case fo_Set factory0 of
              None \<Rightarrow> Inr factory0
            | Some input \<Rightarrow>
                (case mutateAndValidatePayload q coll False ts input of
                   Inl err \<Rightarrow> Inl err
                 | Inr input' \<Rightarrow> Inr (factory0\<lparr>fo_Set := Some input'\<rparr>)))"
  obtain factory where f: "fres = Inr factory"
    using assms lk nn doc f0
    by (cases fres) (auto simp: UpdateQueryRunner_Run_def fres_def)
  have fcase: "(case fo_Set factory0 of
        None \<Rightarrow> factory = factory0
      | Some input \<Rightarrow>
          (\<exists>input'. mutateAndValidatePayload q coll False ts input = Inr input' \<and>
                    factory = factory0\<lparr>fo_Set := Some input'\<rparr>))"
    using f by (auto simp: fres_def split: option.splits sum.splits)
  obtain iterator where it: "getWriteIterator q budget st coll (ur_Filter req) (update_collation req) = Inr iterator"
    using assms lk nn doc f0 f
    by (cases "getWriteIterator q budget st coll (ur_Filter req) (update_collation req)")
       (auto simp: UpdateQueryRunner_Run_def fres_def update_collation_def Let_def)
  obtain mc where loop: "UpdateQueryRunner_Run_loop q coll ts factory (update_limit req) 0 (it_rows iterator) 0 st
                    = (None, mc, st')"
    and resp: "resp = emptyResponse\<lparr>resp_Status := UpdatedStatus, resp_UpdatedAt := Some ts,
                                    resp_ModifiedCount := mc\<rparr>"
    using assms lk nn doc f0 f it
    by (cases "UpdateQueryRunner_Run_loop q coll ts factory (update_limit req) 0 (it_rows iterator) 0 st")
       (auto simp: UpdateQueryRunner_Run_def fres_def update_collation_def update_limit_def Let_def
             split: option.splits)
  from Update_loop_effect[OF loop] obtain evs where
    l: "length evs = length (if update_limit req = 0 then it_rows iterator
                             else take (nat (sint (update_limit req) - sint (0 :: 32 word))) (it_rows iterator))" and
    c: "mc = 0 + of_nat (length evs)" and
    s1: "st_events st' = st_events st @ concat evs" and
    s2: "st_rows st' = foldl apply_event (st_rows st) (concat evs)" and
    a: "\<forall>i<length evs. row_step q coll ts factory (0 + i) (it_rows iterator ! i) (evs ! i)"
    by auto
  have l': "length evs = length (rows_within (update_limit req) (it_rows iterator))"
    using l by (simp add: rows_within_def)
  have a': "\<forall>i<length evs. row_step q coll ts factory i
                        (rows_within (update_limit req) (it_rows iterator) ! i) (evs ! i)"
    using a l' by (simp add: rows_within_nth)
  have r': "resp = emptyResponse\<lparr>resp_Status := UpdatedStatus, resp_UpdatedAt := Some ts,
                          resp_ModifiedCount := of_nat (length evs)\<rparr>"
    using resp c by simp
  show ?thesis
    using lk f0 fcase it l' r' s1 s2 a' by blast
qed

lemma newData_of_fields:
  "RawData (newData_of coll ts row merged) = merged"
  "CreatedAt (newData_of coll ts row merged) = CreatedAt (row_Data row)"
  "UpdatedAt (newData_of coll ts row merged) = Some ts"
  "Ver (newData_of coll ts row merged) = GetVersion coll"
  by (simp_all add: newData_of_def SetVersion_def NewTableDataWithTS_def)

text \<open>
  Claim C5. When \<^verbatim>\<open>UpdateQueryRunner.Run\<close> returns a response, the rows it processed are the
  rows of its iterator within the limit of the request, as many as the response counts.
  The log of the transaction grows by the events of these rows, in order, and the rows of
  the store change as those events say. For each processed row the stored document is
  merged with the update; if the merge reports a changed primary key the events of the
  row are the delete of its old key and the replace of the merged document under the key
  generated from it; otherwise the one event is the update of the merged document under
  the row's own key.
\<close>

theorem Update_rekeys_or_replaces_each_row:
  assumes "UpdateQueryRunner_Run q t staged budget ts req st = (Inr resp, st')"
  shows "\<exists>db coll factory0 factory iterator rows evs.
     getDBAndCollection t staged (ur_Project req) (ur_Collection req) (ur_Branch req) = Inr (db, coll) \<and>
     q_BuildFieldOperators q (ur_Fields req) = Inr factory0 \<and>
     (case fo_Set factory0 of
        None \<Rightarrow> factory = factory0
      | Some input \<Rightarrow>
          (\<exists>input'. mutateAndValidatePayload q coll False ts input = Inr input' \<and>
                    factory = factory0\<lparr>fo_Set := Some input'\<rparr>)) \<and>
     getWriteIterator q budget st coll (ur_Filter req) (update_collation req) = Inr iterator \<and>
     rows = rows_within (update_limit req) (it_rows iterator) \<and>
     resp_ModifiedCount resp = of_nat (length rows) \<and>
     length evs = length rows \<and>
     st_events st' = st_events st @ concat evs \<and>
     st_rows st' = foldl apply_event (st_rows st) (concat evs) \<and>
     (\<forall>i<length rows. \<exists>merged0 merged pkm newData.
         updateDefaultsAndSchema q coll (RawData (row_Data (rows ! i))) (Ver (row_Data (rows ! i))) ts
           = Inr merged0 \<and>
         q_MergeAndGet q factory merged0 coll = Inr (merged, pkm) \<and>
         RawData newData = merged \<and>
         (pkm \<longrightarrow>
            (\<exists>keyGen. q_generate q coll merged i = Inr keyGen \<and>
               evs ! i = [DeleteEvent (row_Key (rows ! i)),
                          ReplaceEvent (coll_EncodedName coll @ kg_indexParts keyGen) newData])) \<and>
         (\<not> pkm \<longrightarrow> evs ! i = [UpdateEvent (row_Key (rows ! i)) newData]))"
proof -
  from Update_Run_effect[OF assms] obtain db coll factory0 factory iterator evs where
    lk: "getDBAndCollection t staged (ur_Project req) (ur_Collection req) (ur_Branch req) = Inr (db, coll)" and
    f0: "q_BuildFieldOperators q (ur_Fields req) = Inr factory0" and
    f: "(case fo_Set factory0 of
        None \<Rightarrow> factory = factory0
      | Some input \<Rightarrow>
          (\<exists>input'. mutateAndValidatePayload q coll False ts input = Inr input' \<and>
                    factory = factory0\<lparr>fo_Set := Some input'\<rparr>))" and
    it: "getWriteIterator q budget st coll (ur_Filter req) (update_collation req) = Inr iterator" and
    l: "length evs = length (rows_within (update_limit req) (it_rows iterator))" and
    r: "resp = emptyResponse\<lparr>resp_Status := UpdatedStatus, resp_UpdatedAt := Some ts,
                          resp_ModifiedCount := of_nat (length evs)\<rparr>" and
    s1: "st_events st' = st_events st @ concat evs" and
    s2: "st_rows st' = foldl apply_event (st_rows st) (concat evs)" and
    a: "\<forall>i<length evs. row_step q coll ts factory i
                        (rows_within (update_limit req) (it_rows iterator) ! i) (evs ! i)"
    by blast
  define rows where "rows = rows_within (update_limit req) (it_rows iterator)"
  have mc: "resp_ModifiedCount resp = of_nat (length rows)" using r l by (simp add: rows_def)
  have each: "\<forall>i<length rows. \<exists>merged0 merged pkm newData.
         updateDefaultsAndSchema q coll (RawData (row_Data (rows ! i))) (Ver (row_Data (rows ! i))) ts
           = Inr merged0 \<and>
         q_MergeAndGet q factory merged0 coll = Inr (merged, pkm) \<and>
         RawData newData = merged \<and>
         (pkm \<longrightarrow>
            (\<exists>keyGen. q_generate q coll merged i = Inr keyGen \<and>
               evs ! i = [DeleteEvent (row_Key (rows ! i)),
                          ReplaceEvent (coll_EncodedName coll @ kg_indexParts keyGen) newData])) \<and>
         (\<not> pkm \<longrightarrow> evs ! i = [UpdateEvent (row_Key (rows ! i)) newData])"
  proof (intro allI impI)
    fix i assume "i < length rows"
    then have "row_step q coll ts factory i (rows ! i) (evs ! i)" using a l by (simp add: rows_def)
    then obtain merged0 merged pkm where
      m0: "updateDefaultsAndSchema q coll (RawData (row_Data (rows ! i))) (Ver (row_Data (rows ! i))) ts
             = Inr merged0" and
      m: "q_MergeAndGet q factory merged0 coll = Inr (merged, pkm)" and
      e: "if pkm
          then (\<exists>keyGen. q_generate q coll merged i = Inr keyGen \<and>
                 evs ! i = [DeleteEvent (row_Key (rows ! i)),
                        ReplaceEvent (coll_EncodedName coll @ kg_indexParts keyGen)
                          (newData_of coll ts (rows ! i) merged)])
          else evs ! i = [UpdateEvent (row_Key (rows ! i)) (newData_of coll ts (rows ! i) merged)]"
      unfolding row_step_def by blast
    show "\<exists>merged0 merged pkm newData.
         updateDefaultsAndSchema q coll (RawData (row_Data (rows ! i))) (Ver (row_Data (rows ! i))) ts
           = Inr merged0 \<and>
         q_MergeAndGet q factory merged0 coll = Inr (merged, pkm) \<and>
         RawData newData = merged \<and>
         (pkm \<longrightarrow>
            (\<exists>keyGen. q_generate q coll merged i = Inr keyGen \<and>
               evs ! i = [DeleteEvent (row_Key (rows ! i)),
                          ReplaceEvent (coll_EncodedName coll @ kg_indexParts keyGen) newData])) \<and>
         (\<not> pkm \<longrightarrow> evs ! i = [UpdateEvent (row_Key (rows ! i)) newData])"
      apply (rule exI[of _ merged0], rule exI[of _ merged], rule exI[of _ pkm],
             rule exI[of _ "newData_of coll ts (rows ! i) merged"])
      using m0 m e by (auto simp: newData_of_fields)
  qed
  show ?thesis
    using lk f0 f it mc l s1 s2 each unfolding rows_def by blast
qed

text \<open>The rows a log wrote, and where the rows of a store come from after a log.\<close>

lemma written_append: "written (xs @ ys) = written xs @ written ys"
  by (induction xs rule: written.induct) simp_all

lemma written_concat_singletons:
  "length ws = length evs \<Longrightarrow> \<forall>i<length evs. written (evs ! i) = [ws ! i] \<Longrightarrow>
     written (concat evs) = ws"
proof (induction evs arbitrary: ws)
  case Nil
  then show ?case by simp
next
  case (Cons e evs)
  then obtain w ws' where ws: "ws = w # ws'" by (cases ws) auto
  have "written e = [w]" using Cons.prems(2) ws by auto
  moreover have "written (concat evs) = ws'"
    using Cons.prems ws by (intro Cons.IH) auto
  ultimately show ?case by (simp add: written_append ws)
qed

lemma replay_rows:
  "map_of (foldl apply_event rs evs) k = Some d \<Longrightarrow>
     map_of rs k = Some d \<or> (k, d) \<in> set (written evs)"
proof (induction evs arbitrary: rs)
  case Nil
  then show ?case by simp
next
  case (Cons e evs)
  from Cons.IH[of "apply_event rs e"] Cons.prems
  have "map_of (apply_event rs e) k = Some d \<or> (k, d) \<in> set (written evs)" by simp
  then show ?case
    by (cases e) (auto simp: update_conv' delete_conv' split: if_splits)
qed

text \<open>
  Claim C6. When \<^verbatim>\<open>UpdateQueryRunner.Run\<close> returns a response, the timestamp of the update is
  the one the response carries (\<^verbatim>\<open>UpdatedAt\<close>). The runner wrote one row for each row it
  processed, in order; the row written for a processed row has the creation time of that
  row and the timestamp of the update as its update time. Every row of the store after
  the update is a row that was there before, unchanged, or one of the rows written.
\<close>

theorem Update_keeps_created_at_sets_updated_at:
  assumes "UpdateQueryRunner_Run q t staged budget ts req st = (Inr resp, st')"
  shows "resp_UpdatedAt resp = Some ts \<and>
     (\<exists>db coll iterator rows ws.
        getDBAndCollection t staged (ur_Project req) (ur_Collection req) (ur_Branch req) = Inr (db, coll) \<and>
        getWriteIterator q budget st coll (ur_Filter req) (update_collation req) = Inr iterator \<and>
        rows = rows_within (update_limit req) (it_rows iterator) \<and>
        resp_ModifiedCount resp = of_nat (length rows) \<and>
        ws = written (drop (length (st_events st)) (st_events st')) \<and>
        length ws = length rows \<and>
        (\<forall>i<length rows. CreatedAt (snd (ws ! i)) = CreatedAt (row_Data (rows ! i)) \<and>
                          UpdatedAt (snd (ws ! i)) = resp_UpdatedAt resp) \<and>
        (\<forall>k d. map_of (st_rows st') k = Some d \<longrightarrow>
                 map_of (st_rows st) k = Some d \<or> (k, d) \<in> set ws))"
proof -
  from Update_Run_effect[OF assms] obtain db coll factory iterator evs where
    lk: "getDBAndCollection t staged (ur_Project req) (ur_Collection req) (ur_Branch req) = Inr (db, coll)" and
    it: "getWriteIterator q budget st coll (ur_Filter req) (update_collation req) = Inr iterator" and
    l: "length evs = length (rows_within (update_limit req) (it_rows iterator))" and
    r: "resp = emptyResponse\<lparr>resp_Status := UpdatedStatus, resp_UpdatedAt := Some ts,
                          resp_ModifiedCount := of_nat (length evs)\<rparr>" and
    s1: "st_events st' = st_events st @ concat evs" and
    s2: "st_rows st' = foldl apply_event (st_rows st) (concat evs)" and
    a: "\<forall>i<length evs. row_step q coll ts factory i
                        (rows_within (update_limit req) (it_rows iterator) ! i) (evs ! i)"
    by blast
  define rows where "rows = rows_within (update_limit req) (it_rows iterator)"
  define ws where "ws = map (\<lambda>e. hd (written e)) evs"
  have up: "resp_UpdatedAt resp = Some ts" using r by simp
  have mc: "resp_ModifiedCount resp = of_nat (length rows)" using r l by (simp add: rows_def)
  have one: "written (evs ! i) = [ws ! i] \<and>
             CreatedAt (snd (ws ! i)) = CreatedAt (row_Data (rows ! i)) \<and>
             UpdatedAt (snd (ws ! i)) = Some ts" if "i < length evs" for i
  proof -
    have "row_step q coll ts factory i (rows ! i) (evs ! i)" using a that by (simp add: rows_def)
    then obtain merged k where "written (evs ! i) = [(k, newData_of coll ts (rows ! i) merged)]"
      unfolding row_step_def by (auto split: if_splits)
    then show ?thesis using that by (simp add: ws_def newData_of_fields)
  qed
  have wl: "length ws = length evs" by (simp add: ws_def)
  have w: "written (concat evs) = ws"
    using wl one by (intro written_concat_singletons) auto
  have wd: "ws = written (drop (length (st_events st)) (st_events st'))" using s1 w by simp
  have ts: "\<forall>i<length rows. CreatedAt (snd (ws ! i)) = CreatedAt (row_Data (rows ! i)) \<and>
                          UpdatedAt (snd (ws ! i)) = resp_UpdatedAt resp"
    using one l up by (simp add: rows_def)
  have st: "\<forall>k d. map_of (st_rows st') k = Some d \<longrightarrow>
                 map_of (st_rows st) k = Some d \<or> (k, d) \<in> set ws"
    using replay_rows[of "st_rows st" "concat evs"] s2 w by auto
  have "length ws = length rows" using wl l by (simp add: rows_def)
  then show ?thesis
    using up lk it mc wd ts st unfolding rows_def by blast
qed

text \<open>
  On the example: the update of \<^verbatim>\<open>K1\<close> of the row \<^verbatim>\<open>a\<close> moves it to the key \<^verbatim>\<open>z\<close>, and the
  update of \<^verbatim>\<open>D1\<close> of the rows \<^verbatim>\<open>a\<close> and \<^verbatim>\<open>b\<close> rewrites them in place.
\<close>

lemma ex_update_rekey:
  "fst (UpdateQueryRunner_Run ex_qdeps ex_tenant None None 200 (ex_update ''users'' ''{K1:a}'' ''{set:K1:z}'') ex_stores)
     = Inr \<lparr>resp_Status = ''updated'', resp_CreatedAt = None, resp_UpdatedAt = Some 200,
            resp_ModifiedCount = 1, resp_AllKeys = []\<rparr>"
  "st_events (snd (UpdateQueryRunner_Run ex_qdeps ex_tenant None None 200 (ex_update ''users'' ''{K1:a}'' ''{set:K1:z}'') ex_stores))
     = [DeleteEvent ''data/users/a'',
        ReplaceEvent ''data/users/z''
          \<lparr>CreatedAt = 100, UpdatedAt = Some 200, Ver = 1, RawData = ''{K1:z,D1:x}''\<rparr>]"
  "map fst (st_rows (snd (UpdateQueryRunner_Run ex_qdeps ex_tenant None None 200 (ex_update ''users'' ''{K1:a}'' ''{set:K1:z}'') ex_stores)))
     = [''data/users/b'', ''data/users/c'', ''data/users/z'']"
  by code_simp+

lemma ex_update_in_place:
  "fst (UpdateQueryRunner_Run ex_qdeps ex_tenant None None 200 (ex_update ''users'' ''{K1:ab}'' ''{set:D1:y}'') ex_stores)
     = Inr \<lparr>resp_Status = ''updated'', resp_CreatedAt = None, resp_UpdatedAt = Some 200,
            resp_ModifiedCount = 2, resp_AllKeys = []\<rparr>"
  "st_events (snd (UpdateQueryRunner_Run ex_qdeps ex_tenant None None 200 (ex_update ''users'' ''{K1:ab}'' ''{set:D1:y}'') ex_stores))
     = [UpdateEvent ''data/users/a''
          \<lparr>CreatedAt = 100, UpdatedAt = Some 200, Ver = 1, RawData = ''{K1:a,D1:y}''\<rparr>,
        UpdateEvent ''data/users/b''
          \<lparr>CreatedAt = 100, UpdatedAt = Some 200, Ver = 1, RawData = ''{K1:b,D1:y}''\<rparr>]"
  "st_rows (snd (UpdateQueryRunner_Run ex_qdeps ex_tenant None None 200 (ex_update ''users'' ''{K1:ab}'' ''{set:D1:y}'') ex_stores))
     = [(''data/users/a'', \<lparr>CreatedAt = 100, UpdatedAt = Some 200, Ver = 1, RawData = ''{K1:a,D1:y}''\<rparr>),
        (''data/users/b'', \<lparr>CreatedAt = 100, UpdatedAt = Some 200, Ver = 1, RawData = ''{K1:b,D1:y}''\<rparr>),
        (''data/users/c'', \<lparr>CreatedAt = 100, UpdatedAt = None, Ver = 1, RawData = ''{K1:c,D1:x}''\<rparr>)]"
  by code_simp+

theorem Update_rekeys_or_replaces_each_row_witness:
  "fst (UpdateQueryRunner_Run ex_qdeps ex_tenant None None 200 (ex_update ''users'' ''{K1:a}'' ''{set:K1:z}'') ex_stores)
     = Inr \<lparr>resp_Status = ''updated'', resp_CreatedAt = None, resp_UpdatedAt = Some 200,
            resp_ModifiedCount = 1, resp_AllKeys = []\<rparr> \<and>
   st_events (snd (UpdateQueryRunner_Run ex_qdeps ex_tenant None None 200 (ex_update ''users'' ''{K1:a}'' ''{set:K1:z}'') ex_stores))
     = [DeleteEvent ''data/users/a'',
        ReplaceEvent ''data/users/z''
          \<lparr>CreatedAt = 100, UpdatedAt = Some 200, Ver = 1, RawData = ''{K1:z,D1:x}''\<rparr>] \<and>
   map fst (st_rows (snd (UpdateQueryRunner_Run ex_qdeps ex_tenant None None 200 (ex_update ''users'' ''{K1:a}'' ''{set:K1:z}'') ex_stores)))
     = [''data/users/b'', ''data/users/c'', ''data/users/z''] \<and>
   (\<exists>db coll factory0 factory iterator rows evs.
     getDBAndCollection ex_tenant None (ur_Project (ex_update ''users'' ''{K1:a}'' ''{set:K1:z}'')) (ur_Collection (ex_update ''users'' ''{K1:a}'' ''{set:K1:z}'')) (ur_Branch (ex_update ''users'' ''{K1:a}'' ''{set:K1:z}'')) = Inr (db, coll) \<and>
     q_BuildFieldOperators ex_qdeps (ur_Fields (ex_update ''users'' ''{K1:a}'' ''{set:K1:z}'')) = Inr factory0 \<and>
     (case fo_Set factory0 of
        None \<Rightarrow> factory = factory0
      | Some input \<Rightarrow>
          (\<exists>input'. mutateAndValidatePayload ex_qdeps coll False 200 input = Inr input' \<and>
                    factory = factory0\<lparr>fo_Set := Some input'\<rparr>)) \<and>
     getWriteIterator ex_qdeps None ex_stores coll (ur_Filter (ex_update ''users'' ''{K1:a}'' ''{set:K1:z}'')) (update_collation (ex_update ''users'' ''{K1:a}'' ''{set:K1:z}'')) = Inr iterator \<and>
     rows = rows_within (update_limit (ex_update ''users'' ''{K1:a}'' ''{set:K1:z}'')) (it_rows iterator) \<and>
     resp_ModifiedCount (projr (fst (UpdateQueryRunner_Run ex_qdeps ex_tenant None None 200 (ex_update ''users'' ''{K1:a}'' ''{set:K1:z}'') ex_stores))) = of_nat (length rows) \<and>
     length evs = length rows \<and>
     st_events (snd (UpdateQueryRunner_Run ex_qdeps ex_tenant None None 200 (ex_update ''users'' ''{K1:a}'' ''{set:K1:z}'') ex_stores)) = st_events ex_stores @ concat evs \<and>
     st_rows (snd (UpdateQueryRunner_Run ex_qdeps ex_tenant None None 200 (ex_update ''users'' ''{K1:a}'' ''{set:K1:z}'') ex_stores)) = foldl apply_event (st_rows ex_stores) (concat evs) \<and>
     (\<forall>i<length rows. \<exists>merged0 merged pkm newData.
         updateDefaultsAndSchema ex_qdeps coll (RawData (row_Data (rows ! i))) (Ver (row_Data (rows ! i))) 200
           = Inr merged0 \<and>
         q_MergeAndGet ex_qdeps factory merged0 coll = Inr (merged, pkm) \<and>
         RawData newData = merged \<and>
         (pkm \<longrightarrow>
            (\<exists>keyGen. q_generate ex_qdeps coll merged i = Inr keyGen \<and>
               evs ! i = [DeleteEvent (row_Key (rows ! i)),
                          ReplaceEvent (coll_EncodedName coll @ kg_indexParts keyGen) newData])) \<and>
         (\<not> pkm \<longrightarrow> evs ! i = [UpdateEvent (row_Key (rows ! i)) newData])))"
proof -
  have "UpdateQueryRunner_Run ex_qdeps ex_tenant None None 200 (ex_update ''users'' ''{K1:a}'' ''{set:K1:z}'') ex_stores
          = (Inr (projr (fst (UpdateQueryRunner_Run ex_qdeps ex_tenant None None 200 (ex_update ''users'' ''{K1:a}'' ''{set:K1:z}'') ex_stores))),
             snd (UpdateQueryRunner_Run ex_qdeps ex_tenant None None 200 (ex_update ''users'' ''{K1:a}'' ''{set:K1:z}'') ex_stores))"
    using ex_update_rekey(1) by (simp add: prod_eq_iff)
  from Update_rekeys_or_replaces_each_row[OF this] show ?thesis
    using ex_update_rekey by blast
qed

theorem Update_keeps_created_at_sets_updated_at_witness:
  "fst (UpdateQueryRunner_Run ex_qdeps ex_tenant None None 200 (ex_update ''users'' ''{K1:ab}'' ''{set:D1:y}'') ex_stores)
     = Inr \<lparr>resp_Status = ''updated'', resp_CreatedAt = None, resp_UpdatedAt = Some 200,
            resp_ModifiedCount = 2, resp_AllKeys = []\<rparr> \<and>
   st_rows (snd (UpdateQueryRunner_Run ex_qdeps ex_tenant None None 200 (ex_update ''users'' ''{K1:ab}'' ''{set:D1:y}'') ex_stores))
     = [(''data/users/a'', \<lparr>CreatedAt = 100, UpdatedAt = Some 200, Ver = 1, RawData = ''{K1:a,D1:y}''\<rparr>),
        (''data/users/b'', \<lparr>CreatedAt = 100, UpdatedAt = Some 200, Ver = 1, RawData = ''{K1:b,D1:y}''\<rparr>),
        (''data/users/c'', \<lparr>CreatedAt = 100, UpdatedAt = None, Ver = 1, RawData = ''{K1:c,D1:x}''\<rparr>)] \<and>
   resp_UpdatedAt (projr (fst (UpdateQueryRunner_Run ex_qdeps ex_tenant None None 200 (ex_update ''users'' ''{K1:ab}'' ''{set:D1:y}'') ex_stores))) = Some 200 \<and>
     (\<exists>db coll iterator rows ws.
        getDBAndCollection ex_tenant None (ur_Project (ex_update ''users'' ''{K1:ab}'' ''{set:D1:y}'')) (ur_Collection (ex_update ''users'' ''{K1:ab}'' ''{set:D1:y}'')) (ur_Branch (ex_update ''users'' ''{K1:ab}'' ''{set:D1:y}'')) = Inr (db, coll) \<and>
        getWriteIterator ex_qdeps None ex_stores coll (ur_Filter (ex_update ''users'' ''{K1:ab}'' ''{set:D1:y}'')) (update_collation (ex_update ''users'' ''{K1:ab}'' ''{set:D1:y}'')) = Inr iterator \<and>
        rows = rows_within (update_limit (ex_update ''users'' ''{K1:ab}'' ''{set:D1:y}'')) (it_rows iterator) \<and>
        resp_ModifiedCount (projr (fst (UpdateQueryRunner_Run ex_qdeps ex_tenant None None 200 (ex_update ''users'' ''{K1:ab}'' ''{set:D1:y}'') ex_stores))) = of_nat (length rows) \<and>
        ws = written (drop (length (st_events ex_stores)) (st_events (snd (UpdateQueryRunner_Run ex_qdeps ex_tenant None None 200 (ex_update ''users'' ''{K1:ab}'' ''{set:D1:y}'') ex_stores)))) \<and>
        length ws = length rows \<and>
        (\<forall>i<length rows. CreatedAt (snd (ws ! i)) = CreatedAt (row_Data (rows ! i)) \<and>
                          UpdatedAt (snd (ws ! i)) = resp_UpdatedAt (projr (fst (UpdateQueryRunner_Run ex_qdeps ex_tenant None None 200 (ex_update ''users'' ''{K1:ab}'' ''{set:D1:y}'') ex_stores)))) \<and>
        (\<forall>k d. map_of (st_rows (snd (UpdateQueryRunner_Run ex_qdeps ex_tenant None None 200 (ex_update ''users'' ''{K1:ab}'' ''{set:D1:y}'') ex_stores))) k = Some d \<longrightarrow>
                 map_of (st_rows ex_stores) k = Some d \<or> (k, d) \<in> set ws))"
proof -
  have "UpdateQueryRunner_Run ex_qdeps ex_tenant None None 200 (ex_update ''users'' ''{K1:ab}'' ''{set:D1:y}'') ex_stores
          = (Inr (projr (fst (UpdateQueryRunner_Run ex_qdeps ex_tenant None None 200 (ex_update ''users'' ''{K1:ab}'' ''{set:D1:y}'') ex_stores))),
             snd (UpdateQueryRunner_Run ex_qdeps ex_tenant None None 200 (ex_update ''users'' ''{K1:ab}'' ''{set:D1:y}'') ex_stores))"
    using ex_update_in_place(1) by (simp add: prod_eq_iff)
  from Update_keeps_created_at_sets_updated_at[OF this] show ?thesis
    using ex_update_in_place by blast
qed

text \<open>
  Claim C4, as amended. An update whose filter is the match-all filter never runs: the
  runner returns an error and leaves the stores as they were, without building an
  iterator. When the database and the collection of the request exist the error is
  \<^verbatim>\<open>InvalidArgument\<close>, "updating all documents is not allowed"; when they do not, it is the
  error of that lookup. No field of the request makes the runner accept the filter.
\<close>

theorem Update_match_all_rejected:
  assumes "q_filter_None q (ur_Filter req)"
  shows "(\<exists>e. UpdateQueryRunner_Run q t staged budget ts req st = (Inl e, st)) \<and>
         (\<forall>db coll.
            getDBAndCollection t staged (ur_Project req) (ur_Collection req) (ur_Branch req) = Inr (db, coll) \<longrightarrow>
            UpdateQueryRunner_Run q t staged budget ts req st =
              (Inl (TigrisError INVALID_ARGUMENT ''updating all documents is not allowed''), st)) \<and>
         (\<forall>e.
            getDBAndCollection t staged (ur_Project req) (ur_Collection req) (ur_Branch req) = Inl e \<longrightarrow>
            UpdateQueryRunner_Run q t staged budget ts req st = (Inl e, st))"
  using assms by (auto simp: UpdateQueryRunner_Run_def split: sum.splits)

text \<open>
  Claim C4 as stated fails twice. A match-all update of a collection that does not exist
  returns \<^verbatim>\<open>NotFound\<close>, not \<^verbatim>\<open>InvalidArgument\<close>; and there is no override: no request with a
  match-all filter, whatever its options, the staged database, the clock and the stores,
  gets a response.
\<close>

theorem Update_match_all_counterexample:
  "fst (UpdateQueryRunner_Run ex_qdeps ex_tenant None None 200
          (ex_update ''missing'' ''{}'' ''{set:D1:y}'') ex_stores) =
     Inl (TigrisError NOT_FOUND (''collection doesn't exist '' @ quoted ''missing'')) \<and>
   \<not> (\<exists>req staged budget ts st resp.
         q_filter_None ex_qdeps (ur_Filter req) \<and>
         fst (UpdateQueryRunner_Run ex_qdeps ex_tenant staged budget ts req st) = Inr resp)"
proof -
  have a: "fst (UpdateQueryRunner_Run ex_qdeps ex_tenant None None 200
          (ex_update ''missing'' ''{}'' ''{set:D1:y}'') ex_stores) =
     Inl (TigrisError NOT_FOUND (''collection doesn't exist '' @ quoted ''missing''))"
    by (simp add: UpdateQueryRunner_Run_def ex_update_def getDBAndCollection_def getDatabase_def
        GetProject_def ex_tenant_def Project_GetDatabase_def NewDatabaseNameWithBranch_def
        IsMainBranch_def ex_project_def getCollection_def GetCollection_def ex_main_def)
  have b: "\<not> (\<exists>req staged budget ts st resp.
         q_filter_None ex_qdeps (ur_Filter req) \<and>
         fst (UpdateQueryRunner_Run ex_qdeps ex_tenant staged budget ts req st) = Inr resp)"
    by (auto simp: UpdateQueryRunner_Run_def split: sum.splits)
  show ?thesis using a b by blast
qed

theorem Update_match_all_rejected_witness:
  "q_filter_None ex_qdeps (ur_Filter (ex_update ''users'' ''{}'' ''{set:D1:y}'')) \<and>
   UpdateQueryRunner_Run ex_qdeps ex_tenant None None 200
       (ex_update ''users'' ''{}'' ''{set:D1:y}'') ex_stores =
     (Inl (TigrisError INVALID_ARGUMENT ''updating all documents is not allowed''), ex_stores)"
proof -
  have a: "q_filter_None ex_qdeps (ur_Filter (ex_update ''users'' ''{}'' ''{set:D1:y}''))"
    by (simp add: ex_qdeps_def ex_update_def)
  have b: "getDBAndCollection ex_tenant None (ur_Project (ex_update ''users'' ''{}'' ''{set:D1:y}''))
             (ur_Collection (ex_update ''users'' ''{}'' ''{set:D1:y}''))
             (ur_Branch (ex_update ''users'' ''{}'' ''{set:D1:y}'')) = Inr (ex_main, ex_users)"
    by (simp add: ex_update_def getDBAndCollection_def getDatabase_def GetProject_def ex_tenant_def
      Project_GetDatabase_def NewDatabaseNameWithBranch_def IsMainBranch_def ex_project_def
      getCollection_def GetCollection_def ex_main_def newCollectionHolder_def)
  from Update_match_all_rejected[OF a, of ex_tenant None None 200 ex_stores] b
  show ?thesis using a by blast
qed

section \<open>Streaming read: the transaction's duration limit\<close>

text \<open>
  When \<^verbatim>\<open>iterate\<close> returns \<^verbatim>\<open>TransactionMaxDurationReached\<close>, the error is the iterator's:
  every row of the iterator has been sent, and the key returned is that of the last one.
\<close>

lemma iterate_loop_max_duration:
  assumes nm: "no_max_duration r q"
  shows "iterate_loop r q coll ff limit intr rows i lastKey stream =
           ((k, Some ErrTransactionMaxDurationReached), stream') \<Longrightarrow>
     intr = Some ErrTransactionMaxDurationReached \<and>
     (\<exists>new. stream' = stream @ new \<and> length new = length rows \<and>
            map rsp_ResumeToken new = map row_Key rows) \<and>
     k = (if rows = [] then lastKey else row_Key (last rows))"
proof (induction rows arbitrary: i lastKey stream)
  case Nil
  then show ?case by (auto split: if_splits)
next
  case (Cons row rows)
  have go: "limit = 0 \<or> i < limit" using Cons.prems by (auto split: if_splits)
  define raw where "raw = (if \<not> q_CompatibleSchemaSince q coll (Ver (row_Data row))
                  then q_UpdateRowSchemaRaw q coll (RawData (row_Data row)) (Ver (row_Data row))
                  else Inr (RawData (row_Data row)))"
  obtain rawData where rd: "raw = Inr rawData"
    using Cons.prems go nm
    by (cases raw) (auto simp: raw_def no_max_duration_def split: if_splits)
  obtain newValue where nv: "r_Apply r ff rawData = Inr newValue"
    using Cons.prems go nm rd
    by (cases "r_Apply r ff rawData") (auto simp: raw_def no_max_duration_def split: if_splits)
  define response where "response = \<lparr>rsp_Data = newValue,
                                       rsp_CreatedAt = CreatedAt (row_Data row),
                                       rsp_UpdatedAt = UpdatedAt (row_Data row),
                                       rsp_ResumeToken = row_Key row\<rparr>"
  have sd: "r_Send r stream response = None"
    using Cons.prems go nm rd nv
    by (cases "r_Send r stream response")
       (auto simp: raw_def no_max_duration_def response_def Let_def split: if_splits)
  have rec: "iterate_loop r q coll ff limit intr rows (i + 1) (row_Key row) (stream @ [response])
               = ((k, Some ErrTransactionMaxDurationReached), stream')"
    using Cons.prems go rd nv sd
    by (auto simp: raw_def response_def Let_def split: if_splits)
  from Cons.IH[OF rec] obtain new where
    i: "intr = Some ErrTransactionMaxDurationReached"
    and n: "stream' = (stream @ [response]) @ new" "length new = length rows"
           "map rsp_ResumeToken new = map row_Key rows"
    and kk: "k = (if rows = [] then row_Key row else row_Key (last rows))"
    by blast
  show ?case
  proof (intro conjI)
    show "intr = Some ErrTransactionMaxDurationReached" by (rule i)
    show "\<exists>new. stream' = stream @ new \<and> length new = length (row # rows) \<and>
            map rsp_ResumeToken new = map row_Key (row # rows)"
      using n by (intro exI[of _ "response # new"]) (simp add: response_def)
    show "k = (if row # rows = [] then lastKey else row_Key (last (row # rows)))"
      using kk by simp
  qed
qed

lemma within_budget_None [simp]: "it_interrupted (within_budget None rs) = None"
  by (simp add: within_budget_def)

lemma iterateOnKvStore_unlimited:
  assumes "no_max_duration r q"
  shows "snd (fst (iterateOnKvStore r q None st req coll options stream)) \<noteq> Some ErrTransactionMaxDurationReached"
proof
  assume a: "snd (fst (iterateOnKvStore r q None st req coll options stream)) = Some ErrTransactionMaxDurationReached"
  obtain k stream' where "iterateOnKvStore r q None st req coll options stream = ((k, Some ErrTransactionMaxDurationReached), stream')"
    using a by (cases "iterateOnKvStore r q None st req coll options stream") auto
  from iterate_loop_max_duration[OF assms this[unfolded iterateOnKvStore_def iterate_def]]
  show False
    by (auto simp: KeyIterator_def ScanIterator_def ScanTable_def FilteredRead_def
        split: if_splits option.splits)
qed

lemma ReadOnly_loop_never_surfaces:
  "\<forall>tx\<in>set txs. tx \<noteq> Inl ErrTransactionMaxDurationReached \<Longrightarrow>
     ReadOnly_loop r q st req coll txs options stream \<noteq> Some (Some ErrTransactionMaxDurationReached, s)"
proof (induction txs arbitrary: options stream)
  case Nil
  then show ?case by simp
next
  case (Cons tx txs)
  show ?case
  proof (cases tx)
    case (Inl e)
    then show ?thesis using Cons.prems by auto
  next
    case (Inr budget)
    obtain k err stream' where it: "iterateOnKvStore r q budget st req coll options stream = ((k, err), stream')"
      by (cases "iterateOnKvStore r q budget st req coll options stream") auto
    show ?thesis
    proof (cases "err = Some ErrTransactionMaxDurationReached")
      case True
      then show ?thesis using Inr it Cons.IH Cons.prems by simp
    next
      case False
      then show ?thesis using Inr it by auto
    qed
  qed
qed

lemma ReadOnly_loop_returns:
  assumes nm: "no_max_duration r q"
  shows "Inr None \<in> set txs \<Longrightarrow> \<exists>res. ReadOnly_loop r q st req coll txs options stream = Some res"
proof (induction txs arbitrary: options stream)
  case Nil
  then show ?case by simp
next
  case (Cons tx txs)
  show ?case
  proof (cases tx)
    case (Inl e)
    then show ?thesis by simp
  next
    case (Inr budget)
    obtain k err stream' where it: "iterateOnKvStore r q budget st req coll options stream = ((k, err), stream')"
      by (cases "iterateOnKvStore r q budget st req coll options stream") auto
    show ?thesis
    proof (cases "err = Some ErrTransactionMaxDurationReached")
      case True
      have "budget \<noteq> None"
        using iterateOnKvStore_unlimited[OF nm, of st req coll options stream] it True
        by (cases budget) auto
      then have "Inr None \<in> set txs" using Cons.prems Inr by auto
      from Cons.IH[OF this] show ?thesis using Inr it True by simp
    next
      case False
      then show ?thesis using Inr it by simp
    qed
  qed
qed

text \<open>
  \<^verbatim>\<open>ReadOnly\<close> sets \<^verbatim>\<open>options.from\<close> to the key \<^verbatim>\<open>iterateOnKvStore\<close> returned and runs the next
  round; \<^verbatim>\<open>Run\<close> returns the error of \<^verbatim>\<open>iterateOnKvStore\<close> as it is.
\<close>

lemma ReadOnly_loop_restarts:
  assumes "iterateOnKvStore r q budget st req coll options stream =
             ((lastKey, Some ErrTransactionMaxDurationReached), stream')"
  shows "ReadOnly_loop r q st req coll (Inr budget # txs) options stream =
           ReadOnly_loop r q st req coll txs
             (options\<lparr>ro_from := (case FromBinary (ro_table options) lastKey of
                                      Inl e \<Rightarrow> None | Inr k \<Rightarrow> Some k)\<rparr>) stream'"
  using assms by simp

lemma Run_surfaces_max_duration:
  assumes "getDBAndCollection t staged (rr_Project req) (rr_Collection req) (rr_Branch req)
             = Inr (db, coll)"
      and "buildReaderOptions r q coll req = Inr options"
      and "\<not> ro_inMemoryStore options"
      and "iterateOnKvStore r q budget st req coll options [] =
             ((lastKey, Some ErrTransactionMaxDurationReached), stream)"
  shows "StreamingQueryRunner_Run r q t staged budget req st =
           (Some ErrTransactionMaxDurationReached, stream)"
  using assms by (simp add: StreamingQueryRunner_Run_def)

text \<open>
  The round after the restart of a scan reads with \<^verbatim>\<open>ScanIterator\<close> from the key returned;
  the round after the restart of a key lookup reads all the keys again:
  \<^verbatim>\<open>iterateOnKvStore\<close> does not look at \<^verbatim>\<open>options.from\<close> when \<^verbatim>\<open>options.ikeys\<close> is not empty.
\<close>

lemma iterateOnKvStore_scan_from:
  assumes "ro_ikeys options = []"
  shows "iterateOnKvStore r q budget st req coll (options\<lparr>ro_from := Some k\<rparr>) stream =
           iterate r q req coll (FilteredRead (ScanIterator budget st k) (ro_filter options))
             (ro_fieldFactory options) stream"
  using assms by (simp add: iterateOnKvStore_def)

lemma iterateOnKvStore_keys_ignore_from:
  assumes "ro_ikeys options \<noteq> []"
  shows "iterateOnKvStore r q budget st req coll (options\<lparr>ro_from := from\<rparr>) stream =
           iterateOnKvStore r q budget st req coll options stream"
  using assms by (simp add: iterateOnKvStore_def)

text \<open>
  Claim C2. A read-only streaming read that reaches the transaction's duration limit starts
  a new transaction and goes on from the last key sent, and the error does not reach the
  client; in a transaction of the user (\<^verbatim>\<open>Run\<close>) the error is returned as it is. On the
  example, the filter \<^verbatim>\<open>{K1:abc}\<close> is a lookup of the keys \<^verbatim>\<open>a\<close>, \<^verbatim>\<open>b\<close>, \<^verbatim>\<open>c\<close>, and the first
  transaction reaches the limit after two rows. \<^verbatim>\<open>Run\<close> returns the error after the two rows.
  \<^verbatim>\<open>ReadOnly\<close> returns no error, but its second transaction does not go on from the key of
  \<^verbatim>\<open>b\<close>: it reads all the keys again, and the rows of \<^verbatim>\<open>a\<close> and \<^verbatim>\<open>b\<close> are sent twice.
\<close>

theorem ReadOnly_key_lookup_restarts_from_first_key:
  "map_option (\<lambda>(err, stream). (err, map rsp_ResumeToken stream))
     (StreamingQueryRunner_ReadOnly ex_rdeps ex_qdeps ex_tenant [Inr (Some 2), Inr None]
        (ex_read ''{K1:abc}'' 0 []) ex_stores)
   = Some (None, [''data/users/a'', ''data/users/b'',
                  ''data/users/a'', ''data/users/b'', ''data/users/c''])
   \<and> (case StreamingQueryRunner_Run ex_rdeps ex_qdeps ex_tenant None (Some 2)
              (ex_read ''{K1:abc}'' 0 []) ex_stores of
         (err, stream) \<Rightarrow> (err, map rsp_ResumeToken stream))
       = (Some ErrTransactionMaxDurationReached, [''data/users/a'', ''data/users/b''])"
  by code_simp

section \<open>Streaming read: resume tokens\<close>

text \<open>
  Every response \<^verbatim>\<open>iterate\<close> sends carries the key of its row: the responses added to the
  stream are those of the first rows of the iterator, in order.
\<close>

lemma iterate_loop_tokens:
  "iterate_loop r q coll ff limit intr rows i lastKey stream = ((k, err), stream') \<Longrightarrow>
     \<exists>new. stream' = stream @ new \<and> length new \<le> length rows \<and>
           map rsp_ResumeToken new = map row_Key (take (length new) rows)"
proof (induction rows arbitrary: i lastKey stream)
  case Nil
  then show ?case by (auto split: if_splits)
next
  case (Cons row rows)
  show ?case
  proof (cases "\<exists>response. (limit = 0 \<or> i < limit) \<and> row_response r q coll ff row = Inr response
                  \<and> r_Send r stream response = None")
    case False
    then have "stream' = stream"
      using Cons.prems
      by (auto simp: row_response_def Let_def split: if_splits sum.splits option.splits)
    then show ?thesis by simp
  next
    case True
    then obtain response where go: "limit = 0 \<or> i < limit"
      and rr: "row_response r q coll ff row = Inr response"
      and sd: "r_Send r stream response = None" by blast
    have tk: "rsp_ResumeToken response = row_Key row"
      using rr by (auto simp: row_response_def split: sum.splits if_splits)
    have rec: "iterate_loop r q coll ff limit intr rows (i + 1) (row_Key row) (stream @ [response])
                 = ((k, err), stream')"
      using Cons.prems go rr sd
      by (auto simp: row_response_def Let_def split: if_splits sum.splits)
    from Cons.IH[OF rec] obtain new where
      n: "stream' = (stream @ [response]) @ new" "length new \<le> length rows"
         "map rsp_ResumeToken new = map row_Key (take (length new) rows)"
      by blast
    show ?thesis
      using n tk by (intro exI[of _ "response # new"]) simp
  qed
qed

text \<open>
  Claim C1. Resuming a streaming read with the last resume token as the offset of the
  request gives the rows an uninterrupted read gives after those already sent, with none
  repeated and none skipped; the resume token of a response is the raw key of its row (the
  lemma above). On the example, the filter \<^verbatim>\<open>{K1:abc}\<close> is a lookup of the keys \<^verbatim>\<open>a\<close>, \<^verbatim>\<open>b\<close>,
  \<^verbatim>\<open>c\<close>. The read with limit 2 sends the rows of \<^verbatim>\<open>a\<close> and \<^verbatim>\<open>b\<close>; the read resumed with the
  token of \<^verbatim>\<open>b\<close> as its offset sends the rows of \<^verbatim>\<open>a\<close> and \<^verbatim>\<open>b\<close> again, where the uninterrupted
  read goes on with \<^verbatim>\<open>c\<close>: \<^verbatim>\<open>buildReaderOptions\<close> parses the offset into \<^verbatim>\<open>options.from\<close>, and
  \<^verbatim>\<open>iterateOnKvStore\<close> does not look at it when \<^verbatim>\<open>options.ikeys\<close> is not empty.
\<close>

theorem Read_resume_key_lookup_ignores_offset:
  "tokens (StreamingQueryRunner_ReadOnly ex_rdeps ex_qdeps ex_tenant [Inr None]
             (ex_read ''{K1:abc}'' 2 []) ex_stores)
     = Some (None, [''data/users/a'', ''data/users/b''])
   \<and> tokens (StreamingQueryRunner_ReadOnly ex_rdeps ex_qdeps ex_tenant [Inr None]
               (ex_read ''{K1:abc}'' 2 ''data/users/b'') ex_stores)
     = Some (None, [''data/users/a'', ''data/users/b''])
   \<and> tokens (StreamingQueryRunner_ReadOnly ex_rdeps ex_qdeps ex_tenant [Inr None]
               (ex_read ''{K1:abc}'' 4 []) ex_stores)
     = Some (None, [''data/users/a'', ''data/users/b'', ''data/users/c''])"
  by code_simp

end
